theory Spec2Isabelle
  imports Complex_Main "HOL-Library.AList" "HOL-Library.List_Lexorder" "HOL-Library.Char_ord"
    "HOL-Library.Code_Target_Numeral"
begin

section \<open>JavaScript numbers\<close>

text \<open>
  A TypeScript \<open>number\<close> is an IEEE 754 binary64 value: \<open>NaN\<close>, the two infinities, the
  two zeros and the finite non-zero values. A finite value is the real it denotes;
  \<open>Fin 0\<close> is \<open>+0\<close> and \<open>NegZero\<close> is \<open>-0\<close>. Every arithmetic operation rounds its exact
  result to the nearest binary64 value, ties to the even significand (\<open>round64\<close>), and
  comparisons with \<open>NaN\<close> are false, as in JavaScript. The type also holds the reals
  that are not binary64 values; the operations yield binary64 values, and what holds of
  every number holds of these.
\<close>

datatype number = Fin real | NegZero | PInf | NInf | NaN

fun isNaN :: "number \<Rightarrow> bool" where
  "isNaN NaN = True"
| "isNaN _ = False"

fun isInf :: "number \<Rightarrow> bool" where
  "isInf PInf = True"
| "isInf NInf = True"
| "isInf _ = False"

fun isZero :: "number \<Rightarrow> bool" where
  "isZero (Fin x) = (x = 0)"
| "isZero NegZero = True"
| "isZero _ = False"

text \<open>The sign bit and the absolute value of a number that is not \<open>NaN\<close>.\<close>

fun signBit :: "number \<Rightarrow> bool" where
  "signBit (Fin x) = (x < 0)"
| "signBit NegZero = True"
| "signBit NInf = True"
| "signBit _ = False"

fun magnitude :: "number \<Rightarrow> real" where
  "magnitude (Fin x) = \<bar>x\<bar>"
| "magnitude _ = 0"

definition signedZero :: "bool \<Rightarrow> number" where
  "signedZero neg = (if neg then NegZero else Fin 0)"

definition signedInf :: "bool \<Rightarrow> number" where
  "signedInf neg = (if neg then NInf else PInf)"

subsection \<open>Rounding to binary64\<close>

text \<open>The number of binary digits of a natural number.\<close>

fun bitLength :: "nat \<Rightarrow> nat" where
  "bitLength n = (if n = 0 then 0 else Suc (bitLength (n div 2)))"

declare bitLength.simps [simp del]

text \<open>
  \<open>binade x\<close> is the exponent \<open>e\<close> with \<open>2^e \<le> x < 2^(e+1)\<close>, for \<open>x > 0\<close>: from the digits
  of \<open>\<lfloor>x\<rfloor>\<close> when \<open>x \<ge> 1\<close>, and from the least \<open>k\<close> with \<open>2^k \<ge> 1/x\<close> otherwise.
\<close>

definition binade :: "real \<Rightarrow> int" where
  "binade x = (if 1 \<le> x then int (bitLength (nat \<lfloor>x\<rfloor>)) - 1
               else - int (bitLength (nat (\<lceil>1 / x\<rceil> - 1))))"

definition pow2 :: "int \<Rightarrow> real" where
  "pow2 k = (if 0 \<le> k then 2 ^ nat k else 1 / 2 ^ nat (- k))"

text \<open>The nearest integer, a tie going to the even one.\<close>

definition roundHalfEven :: "real \<Rightarrow> int" where
  "roundHalfEven m =
     (let f = \<lfloor>m\<rfloor>; r = m - of_int f
      in if r < 1 / 2 then f else if 1 / 2 < r then f + 1 else if even f then f else f + 1)"

text \<open>
  \<open>roundSigned neg m\<close> rounds the magnitude \<open>m \<ge> 0\<close> of an exact result whose sign bit is
  \<open>neg\<close>. A binary64 value has a significand of 53 bits and an exponent of at least
  \<open>-1022\<close>, so the values near \<open>m\<close> are the multiples of \<open>2^q\<close> with
  \<open>q = max (binade m) (-1022) - 52\<close> (below \<open>2^(-1022)\<close> these are the subnormal numbers).
  A result that rounds to \<open>2^1024\<close> or more overflows to an infinity, one that rounds to
  nothing is a zero; both keep the sign.
\<close>

definition roundSigned :: "bool \<Rightarrow> real \<Rightarrow> number" where
  "roundSigned neg m =
     (if m = 0 then signedZero neg
      else (let q = max (binade m) (- 1022) - 52;
                y = of_int (roundHalfEven (m / pow2 q)) * pow2 q
            in if 2 ^ 1024 \<le> y then signedInf neg
               else if y = 0 then signedZero neg
               else Fin (if neg then - y else y)))"

definition round64 :: "real \<Rightarrow> number" where
  "round64 x = roundSigned (x < 0) \<bar>x\<bar>"

text \<open>
  The value of a decimal literal, and of \<open>parseFloat\<close> on a decimal string: the binary64
  value nearest to it.
\<close>

definition num :: "real \<Rightarrow> number" where
  "num x = round64 x"

subsection \<open>Arithmetic and comparison\<close>

text \<open>Truthiness of a number: the zeros and \<open>NaN\<close> are falsy.\<close>

fun truthyNum :: "number \<Rightarrow> bool" where
  "truthyNum (Fin x) = (x \<noteq> 0)"
| "truthyNum NegZero = False"
| "truthyNum NaN = False"
| "truthyNum _ = True"

text \<open>Truthiness of \<open>v?.field\<close> of type \<open>number | null | undefined\<close>.\<close>

fun truthy :: "number option \<Rightarrow> bool" where
  "truthy None = False"
| "truthy (Some x) = truthyNum x"

fun jneg :: "number \<Rightarrow> number" where
  "jneg (Fin x) = (if x = 0 then NegZero else Fin (- x))"
| "jneg NegZero = Fin 0"
| "jneg PInf = NInf"
| "jneg NInf = PInf"
| "jneg NaN = NaN"

text \<open>
  Addition. The sum of two zeros is \<open>-0\<close> only when both are; an exact sum of zero of two
  non-zero values is \<open>+0\<close>.
\<close>

fun jadd :: "number \<Rightarrow> number \<Rightarrow> number" where
  "jadd NaN _ = NaN"
| "jadd _ NaN = NaN"
| "jadd PInf NInf = NaN"
| "jadd NInf PInf = NaN"
| "jadd PInf _ = PInf"
| "jadd _ PInf = PInf"
| "jadd NInf _ = NInf"
| "jadd _ NInf = NInf"
| "jadd NegZero b = b"
| "jadd a NegZero = a"
| "jadd (Fin x) (Fin y) = round64 (x + y)"

definition jsub :: "number \<Rightarrow> number \<Rightarrow> number" where
  "jsub a b = jadd a (jneg b)"

text \<open>
  Multiplication and division: the sign of the result is the exclusive or of the signs,
  \<open>0 * \<infinity>\<close>, \<open>0 / 0\<close> and \<open>\<infinity> / \<infinity>\<close> are \<open>NaN\<close>, and a non-zero value over a zero is an
  infinity.
\<close>

definition jmul :: "number \<Rightarrow> number \<Rightarrow> number" where
  "jmul a b =
     (if isNaN a \<or> isNaN b then NaN
      else if isInf a \<or> isInf b
        then (if isZero a \<or> isZero b then NaN else signedInf (signBit a \<noteq> signBit b))
      else roundSigned (signBit a \<noteq> signBit b) (magnitude a * magnitude b))"

definition jdiv :: "number \<Rightarrow> number \<Rightarrow> number" where
  "jdiv a b =
     (if isNaN a \<or> isNaN b then NaN
      else if isInf a then (if isInf b then NaN else signedInf (signBit a \<noteq> signBit b))
      else if isInf b then signedZero (signBit a \<noteq> signBit b)
      else if isZero b then (if isZero a then NaN else signedInf (signBit a \<noteq> signBit b))
      else roundSigned (signBit a \<noteq> signBit b) (magnitude a / magnitude b))"

text \<open>The comparison \<open>a < b\<close>; the two zeros compare equal.\<close>

fun jlt :: "number \<Rightarrow> number \<Rightarrow> bool" where
  "jlt NaN _ = False"
| "jlt _ NaN = False"
| "jlt (Fin x) (Fin y) = (x < y)"
| "jlt (Fin x) NegZero = (x < 0)"
| "jlt NegZero (Fin y) = (0 < y)"
| "jlt NegZero NegZero = False"
| "jlt _ NInf = False"
| "jlt PInf _ = False"
| "jlt _ _ = True"

text \<open>Strict equality \<open>===\<close> on numbers: \<open>NaN\<close> equals nothing, \<open>+0\<close> equals \<open>-0\<close>.\<close>

definition jeq :: "number \<Rightarrow> number \<Rightarrow> bool" where
  "jeq a b = (\<not> isNaN a \<and> \<not> isNaN b \<and> (a = b \<or> (isZero a \<and> isZero b)))"

definition jle :: "number \<Rightarrow> number \<Rightarrow> bool" where
  "jle a b = (jlt a b \<or> jeq a b)"

definition jgt :: "number \<Rightarrow> number \<Rightarrow> bool" where
  "jgt a b = jlt b a"

definition jge :: "number \<Rightarrow> number \<Rightarrow> bool" where
  "jge a b = jle b a"

text \<open>
  \<open>Math.min\<close> of two numbers: \<open>NaN\<close> if either is, and \<open>-0\<close> counts as smaller than \<open>+0\<close>.
\<close>

definition jmin :: "number \<Rightarrow> number \<Rightarrow> number" where
  "jmin a b =
     (if isNaN a \<or> isNaN b then NaN
      else if jlt b a then b
      else if jlt a b then a
      else if b = NegZero then b else a)"

text \<open>The nullish coalescing \<open>a ?? b\<close> with a nullable left side.\<close>

fun nullish :: "'a option \<Rightarrow> 'a option \<Rightarrow> 'a option" where
  "nullish (Some a) _ = Some a"
| "nullish None b = b"

fun nullishOr :: "'a option \<Rightarrow> 'a \<Rightarrow> 'a" where
  "nullishOr (Some a) _ = a"
| "nullishOr None d = d"

section \<open>Data model (types.ts, websocket.ts)\<close>

text \<open>
  \<open>GammaMarket\<close>: the fields the detectors read. \<open>interval_m\<close> is the optional
  \<open>interval\<close> metadata that the series fetcher attaches to a market.
\<close>

datatype BTCMarketInterval = I15m | I30m | I1h | I4h | I1d

record GammaMarket =
  marketId :: string
  question :: string
  slug :: string
  liquidityNum :: number
  endDate :: string
  interval_m :: "BTCMarketInterval option"

record MarketPair =
  market :: GammaMarket
  yesTokenId :: string
  noTokenId :: string

text \<open>An order-book level after \<open>parseFloat\<close> of its two strings.\<close>

record OrderBookLevel =
  price :: number
  size_l :: number

record OrderBook =
  bids :: "OrderBookLevel list"
  asks :: "OrderBookLevel list"

record ScannerConfig =
  minProfit :: number
  minLiquidity :: number

record ParsedBookUpdate =
  tokenId :: string
  bestBid_u :: "number option"
  bestAsk_u :: "number option"
  bestBidSize_u :: "number option"
  bestAskSize_u :: "number option"
  timestamp_u :: int

record TokenPrice =
  bestAsk :: "number option"
  bestAskSize :: "number option"
  bestBid :: "number option"
  bestBidSize :: "number option"
  lastUpdate :: int

section \<open>Best levels of a book (clobApi.ts)\<close>

text \<open>
  \<open>getBestAsk\<close> sorts a copy of the asks by ascending price with the comparator
  \<open>a.price - b.price\<close> and takes the first level; the sort is stable, so that is the
  first level whose price no other level undercuts. \<open>getBestBid\<close> is the mirror image.
  An empty side gives \<open>null\<close>. This is the result for a book whose prices are numbers.
  With a \<open>NaN\<close> price in the book the comparator is not a consistent one, and ECMAScript
  leaves the order, hence the level taken, to the engine; \<open>firstBest\<close> then returns the
  first level that no level comparable with it undercuts, which need not be the engine's
  choice.
\<close>

fun firstBest :: "(number \<Rightarrow> number \<Rightarrow> bool) \<Rightarrow> OrderBookLevel \<Rightarrow> OrderBookLevel list \<Rightarrow> OrderBookLevel" where
  "firstBest better b [] = b"
| "firstBest better b (l # ls) = firstBest better (if better (price l) (price b) then l else b) ls"

definition getBestAsk :: "OrderBook \<Rightarrow> OrderBookLevel option" where
  "getBestAsk book = (case asks book of [] \<Rightarrow> None | l # ls \<Rightarrow> Some (firstBest jlt l ls))"

definition getBestBid :: "OrderBook \<Rightarrow> OrderBookLevel option" where
  "getBestBid book = (case bids book of [] \<Rightarrow> None | l # ls \<Rightarrow> Some (firstBest jgt l ls))"

section \<open>The price cache shared by both detectors\<close>

text \<open>
  Both detectors keep \<open>tokenPrices: Map<string, TokenPrice>\<close> and fill it with the same
  two statements. \<open>storeBook\<close> is the \<open>tokenPrices.set\<close> of \<open>updateFromOrderBook\<close>
  (\<open>now\<close> is the reading of \<open>new Date()\<close>), \<open>storeUpdate\<close> the one of
  \<open>updateFromWebSocket\<close>.
\<close>

type_synonym priceCache = "string \<rightharpoonup> TokenPrice"

definition bookRecord :: "OrderBook \<Rightarrow> int \<Rightarrow> TokenPrice" where
  "bookRecord book now =
     \<lparr> bestAsk = map_option price (getBestAsk book),
       bestAskSize = map_option size_l (getBestAsk book),
       bestBid = map_option price (getBestBid book),
       bestBidSize = map_option size_l (getBestBid book),
       lastUpdate = now \<rparr>"

definition storeBook :: "priceCache \<Rightarrow> string \<Rightarrow> OrderBook \<Rightarrow> int \<Rightarrow> priceCache" where
  "storeBook tp tok book now = tp(tok \<mapsto> bookRecord book now)"

definition mergeRecord :: "TokenPrice option \<Rightarrow> ParsedBookUpdate \<Rightarrow> TokenPrice" where
  "mergeRecord existing u =
     \<lparr> bestAsk = nullish (bestAsk_u u) (Option.bind existing bestAsk),
       bestAskSize = nullish (bestAskSize_u u) (Option.bind existing bestAskSize),
       bestBid = nullish (bestBid_u u) (Option.bind existing bestBid),
       bestBidSize = nullish (bestBidSize_u u) (Option.bind existing bestBidSize),
       lastUpdate = timestamp_u u \<rparr>"

definition storeUpdate :: "priceCache \<Rightarrow> ParsedBookUpdate \<Rightarrow> priceCache" where
  "storeUpdate tp u = tp(tokenId u \<mapsto> mergeRecord (tp (tokenId u)) u)"

text \<open>
  What the cache holds for a token: \<open>tokenPrices.get(t)?.bestAsk\<close> and its siblings
  (\<open>None\<close> stands for both \<open>null\<close> and \<open>undefined\<close>).
\<close>

definition cachedAsk :: "priceCache \<Rightarrow> string \<Rightarrow> number option" where
  "cachedAsk tp t = Option.bind (tp t) bestAsk"

definition cachedAskSize :: "priceCache \<Rightarrow> string \<Rightarrow> number option" where
  "cachedAskSize tp t = Option.bind (tp t) bestAskSize"

definition cachedBid :: "priceCache \<Rightarrow> string \<Rightarrow> number option" where
  "cachedBid tp t = Option.bind (tp t) bestBid"

definition cachedBidSize :: "priceCache \<Rightarrow> string \<Rightarrow> number option" where
  "cachedBidSize tp t = Option.bind (tp t) bestBidSize"

section \<open>The single-market detector (arbDetector.ts)\<close>

datatype OpportunityType = BUY_BOTH | SELL_BOTH

record ExtendedOpportunity =
  oppType :: OpportunityType
  market_o :: GammaMarket
  yesAskPrice :: number
  noAskPrice :: number
  yesBidPrice :: "number option"
  noBidPrice :: "number option"
  totalCost :: number
  profit :: number
  profitPercent :: number
  yesAskSize :: number
  noAskSize :: number
  yesBidSize :: "number option"
  noBidSize :: "number option"
  maxShares :: number
  timestamp :: int

text \<open>
  The detector's fields. The two registries are JavaScript \<open>Map\<close>s, which iterate in
  insertion order and keep a key's position when it is set again: association lists with
  \<open>AList.update\<close>. The price cache is never iterated by the evaluation, so it is a map.
\<close>

record ArbitrageDetector =
  config :: ScannerConfig
  marketPairs :: "(string \<times> MarketPair) list"
  tokenPrices :: priceCache
  marketLookup :: "(string \<times> MarketPair) list"

fun registerPairs ::
  "MarketPair list \<Rightarrow> (string \<times> MarketPair) list \<times> (string \<times> MarketPair) list
     \<Rightarrow> (string \<times> MarketPair) list \<times> (string \<times> MarketPair) list" where
  "registerPairs [] acc = acc"
| "registerPairs (p # ps) (mp, ml) =
     registerPairs ps
       (AList.update (noTokenId p) p (AList.update (yesTokenId p) p mp),
        AList.update (marketId (market p)) p ml)"

definition setMarketPairs :: "ArbitrageDetector \<Rightarrow> MarketPair list \<Rightarrow> ArbitrageDetector" where
  "setMarketPairs d pairs =
     (let (mp, ml) = registerPairs pairs ([], [])
      in d\<lparr> marketPairs := mp, marketLookup := ml \<rparr>)"

text \<open>
  \<open>now\<close> is the reading of the clock that \<open>new Date()\<close> takes for the timestamp.
  Past the guard \<open>!yesPrice?.bestAsk || !noPrice?.bestAsk\<close> both records and both asks
  are present, so every \<open>the\<close> below reads a \<open>Some\<close>.
\<close>

definition checkBuyBothArbitrage :: "ArbitrageDetector \<Rightarrow> int \<Rightarrow> string \<Rightarrow> ExtendedOpportunity option" where
  "checkBuyBothArbitrage d now tok =
     (case map_of (marketPairs d) tok of
        None \<Rightarrow> None
      | Some pair \<Rightarrow>
          (let yesPrice = tokenPrices d (yesTokenId pair);
               noPrice = tokenPrices d (noTokenId pair)
           in if \<not> truthy (cachedAsk (tokenPrices d) (yesTokenId pair))
                 \<or> \<not> truthy (cachedAsk (tokenPrices d) (noTokenId pair))
              then None
              else
                (let yp = the yesPrice; np = the noPrice;
                     yesAsk = the (bestAsk yp); noAsk = the (bestAsk np);
                     totalCost = jadd yesAsk noAsk;
                     profit = jsub (Fin 1) totalCost
                 in if jlt profit (minProfit (config d)) then None
                    else if jlt (liquidityNum (market pair)) (minLiquidity (config d)) then None
                    else
                      (let yesSize = nullishOr (bestAskSize yp) (Fin 0);
                           noSize = nullishOr (bestAskSize np) (Fin 0);
                           maxShares = jmin yesSize noSize
                       in if jle maxShares (Fin 0) then None
                          else Some
                            \<lparr> oppType = BUY_BOTH,
                              market_o = market pair,
                              yesAskPrice = yesAsk,
                              noAskPrice = noAsk,
                              yesBidPrice = bestBid yp,
                              noBidPrice = bestBid np,
                              totalCost = totalCost,
                              profit = profit,
                              profitPercent = jdiv profit totalCost,
                              yesAskSize = yesSize,
                              noAskSize = noSize,
                              yesBidSize = bestBidSize yp,
                              noBidSize = bestBidSize np,
                              maxShares = maxShares,
                              timestamp = now \<rparr>))))"

definition checkSellBothArbitrage :: "ArbitrageDetector \<Rightarrow> int \<Rightarrow> string \<Rightarrow> ExtendedOpportunity option" where
  "checkSellBothArbitrage d now tok =
     (case map_of (marketPairs d) tok of
        None \<Rightarrow> None
      | Some pair \<Rightarrow>
          (let yesPrice = tokenPrices d (yesTokenId pair);
               noPrice = tokenPrices d (noTokenId pair)
           in if \<not> truthy (cachedBid (tokenPrices d) (yesTokenId pair))
                 \<or> \<not> truthy (cachedBid (tokenPrices d) (noTokenId pair))
              then None
              else
                (let yp = the yesPrice; np = the noPrice;
                     yesBid = the (bestBid yp); noBid = the (bestBid np);
                     totalBids = jadd yesBid noBid;
                     profit = jsub totalBids (Fin 1)
                 in if jlt profit (minProfit (config d)) then None
                    else if jlt (liquidityNum (market pair)) (minLiquidity (config d)) then None
                    else
                      (let yesSize = nullishOr (bestBidSize yp) (Fin 0);
                           noSize = nullishOr (bestBidSize np) (Fin 0);
                           maxShares = jmin yesSize noSize
                       in if jle maxShares (Fin 0) then None
                          else Some
                            \<lparr> oppType = SELL_BOTH,
                              market_o = market pair,
                              yesAskPrice = nullishOr (bestAsk yp) (Fin 0),
                              noAskPrice = nullishOr (bestAsk np) (Fin 0),
                              yesBidPrice = Some yesBid,
                              noBidPrice = Some noBid,
                              totalCost = Fin 1,
                              profit = profit,
                              profitPercent = profit,
                              yesAskSize = nullishOr (bestAskSize yp) (Fin 0),
                              noAskSize = nullishOr (bestAskSize np) (Fin 0),
                              yesBidSize = Some yesSize,
                              noBidSize = Some noSize,
                              maxShares = maxShares,
                              timestamp = now \<rparr>))))"

text \<open>BUY_BOTH is checked first; a non-null result returns at once.\<close>

definition checkAllArbitrageTypes :: "ArbitrageDetector \<Rightarrow> int \<Rightarrow> string \<Rightarrow> ExtendedOpportunity option" where
  "checkAllArbitrageTypes d now tok =
     (case checkBuyBothArbitrage d now tok of
        Some buyBoth \<Rightarrow> Some buyBoth
      | None \<Rightarrow>
          (case checkSellBothArbitrage d now tok of
             Some sellBoth \<Rightarrow> Some sellBoth
           | None \<Rightarrow> None))"

definition updateFromOrderBook ::
  "ArbitrageDetector \<Rightarrow> int \<Rightarrow> string \<Rightarrow> OrderBook \<Rightarrow> ArbitrageDetector \<times> ExtendedOpportunity option" where
  "updateFromOrderBook d now tok book =
     (let d' = d\<lparr> tokenPrices := storeBook (tokenPrices d) tok book now \<rparr>
      in (d', checkAllArbitrageTypes d' now tok))"

definition updateFromWebSocket ::
  "ArbitrageDetector \<Rightarrow> int \<Rightarrow> ParsedBookUpdate \<Rightarrow> ArbitrageDetector \<times> ExtendedOpportunity option" where
  "updateFromWebSocket d now u =
     (let d' = d\<lparr> tokenPrices := storeUpdate (tokenPrices d) u \<rparr>
      in (d', checkAllArbitrageTypes d' now (tokenId u)))"

text \<open>
  \<open>scanAllMarkets\<close> walks the token registry in insertion order, evaluates each market
  once (the first of its tokens met) and sorts the results by descending profit. The loop
  is \<open>scanLoop\<close>, with the set \<open>checkedMarkets\<close> as an accumulator. The sort with the
  comparator \<open>b.profit - a.profit\<close> is stable: \<open>sortDesc\<close> inserts each element, from the
  last to the first, in front of the first element that is not strictly greater.
\<close>

fun scanLoop :: "ArbitrageDetector \<Rightarrow> int \<Rightarrow> (string \<times> MarketPair) list \<Rightarrow> string list \<Rightarrow> ExtendedOpportunity list" where
  "scanLoop d now [] checkedMarkets = []"
| "scanLoop d now ((tok, pair) # rest) checkedMarkets =
     (if marketId (market pair) \<in> set checkedMarkets then scanLoop d now rest checkedMarkets
      else (case checkAllArbitrageTypes d now tok of
              None \<Rightarrow> scanLoop d now rest (marketId (market pair) # checkedMarkets)
            | Some opp \<Rightarrow> opp # scanLoop d now rest (marketId (market pair) # checkedMarkets)))"

fun insertDesc :: "('a \<Rightarrow> number) \<Rightarrow> 'a \<Rightarrow> 'a list \<Rightarrow> 'a list" where
  "insertDesc key x [] = [x]"
| "insertDesc key x (y # ys) =
     (if jlt (key x) (key y) then y # insertDesc key x ys else x # y # ys)"

definition sortDesc :: "('a \<Rightarrow> number) \<Rightarrow> 'a list \<Rightarrow> 'a list" where
  "sortDesc key xs = foldr (insertDesc key) xs []"

definition scanAllMarkets :: "ArbitrageDetector \<Rightarrow> int \<Rightarrow> ExtendedOpportunity list" where
  "scanAllMarkets d now = sortDesc profit (scanLoop d now (marketPairs d) [])"

section \<open>The cross-market detector (crossMarketDetector in binanceApi.ts)\<close>

datatype Strategy = LONG_DOWN_SHORT_UP | LONG_UP_SHORT_DOWN

record MarketInfo =
  market_i :: GammaMarket
  pair_i :: MarketPair
  interval :: BTCMarketInterval
  asset :: string
  resolutionTimestamp :: int
  candleStartTimestamp :: int
  referencePrice :: "number option"

record CrossMarketOpportunity =
  longMarket :: GammaMarket
  shortMarket :: GammaMarket
  longInterval :: BTCMarketInterval
  shortInterval :: BTCMarketInterval
  longUpTokenId :: string
  longDownTokenId :: string
  shortUpTokenId :: string
  shortDownTokenId :: string
  longRefPrice :: number
  shortRefPrice :: number
  profitZoneLow :: number
  profitZoneHigh :: number
  strategy :: Strategy
  longUpAsk :: number
  longDownAsk :: number
  shortUpAsk :: number
  shortDownAsk :: number
  entryCost :: number
  maxProfit :: number
  profitZoneWidth :: number
  profitZonePercent :: number
  maxShares_x :: number
  resolutionTime :: int
  minutesUntilResolution :: number
  timestamp_x :: int

text \<open>
  The detector's fields. \<open>marketInfos\<close> is a \<open>Map\<close> from slug to \<open>MarketInfo\<close> that is
  iterated, so an association list in insertion order; the two caches are only looked
  up. The set \<open>_loggedPairs\<close> only throttles log lines and is left out, as is logging.
\<close>

record CrossMarketDetector =
  tokenPrices_x :: priceCache
  marketInfos :: "(string \<times> MarketInfo) list"
  minProfit_x :: number
  pricesLoaded :: bool
  refPriceCache :: "string \<rightharpoonup> number"

definition newCrossMarketDetector :: "number \<Rightarrow> CrossMarketDetector" where
  "newCrossMarketDetector mp =
     \<lparr> tokenPrices_x = Map.empty, marketInfos = [], minProfit_x = mp,
       pricesLoaded = False, refPriceCache = Map.empty \<rparr>"

subsection \<open>Registration and the reference-price cache\<close>

text \<open>
  \<open>parseMarketInfo\<close>, \<open>parseSeriesMarket\<close> and \<open>parseDescriptiveSlug\<close> decide from the
  slug and the interval metadata whether a market is an up/down market, and compute its
  interval, asset, resolution and candle-start timestamps; the resolution timestamp is
  \<open>Math.floor(new Date(endDate).getTime() / 1000)\<close>. That string and date parsing is the
  parameter \<open>parse\<close>, with three outcomes: the slug is not recognised (\<open>null\<close>); it is
  recognised and \<open>endDate\<close> is a date, which gives integer timestamps; it is recognised
  and \<open>endDate\<close> does not parse, which gives the timestamp \<open>NaN\<close>.
\<close>

datatype ParseResult = NoMatch | BadEndDate | UpDown BTCMarketInterval string int int

type_synonym slugParser = "MarketPair \<Rightarrow> ParseResult"

text \<open>The record every path of the three functions builds, with \<open>referencePrice: null\<close>.\<close>

definition newMarketInfo :: "MarketPair \<Rightarrow> BTCMarketInterval \<Rightarrow> string \<Rightarrow> int \<Rightarrow> int \<Rightarrow> MarketInfo" where
  "newMarketInfo p iv a resolution candleStart =
     \<lparr> market_i = market p, pair_i = p, interval = iv, asset = a,
       resolutionTimestamp = resolution, candleStartTimestamp = candleStart,
       referencePrice = None \<rparr>"

text \<open>The first loop of \<open>setMarketPairs\<close>: save the known reference prices by slug.\<close>

fun saveRefPrices :: "(string \<times> MarketInfo) list \<Rightarrow> (string \<rightharpoonup> number) \<Rightarrow> (string \<rightharpoonup> number)" where
  "saveRefPrices [] cache = cache"
| "saveRefPrices ((sl, mktInfo) # rest) cache =
     saveRefPrices rest
       (case referencePrice mktInfo of Some r \<Rightarrow> cache(sl \<mapsto> r) | None \<Rightarrow> cache)"

text \<open>
  The second loop: register each recognised pair, restoring a cached price. After
  \<open>marketInfos.set\<close> the loop builds a log line with
  \<open>new Date(marketInfo.resolutionTimestamp * 1000).toISOString()\<close>, which throws a
  \<open>RangeError\<close> when the timestamp is \<open>NaN\<close>: the call ends there and the pairs after it
  are not registered. The model returns the error. (The registry that the throw leaves
  behind holds the record with the \<open>NaN\<close> timestamp; it is not a value of \<open>MarketInfo\<close>,
  whose timestamps are integers, and the model does not follow the detector past the
  throw.)
\<close>

datatype error = RangeError

fun registerInfos ::
  "slugParser \<Rightarrow> (string \<rightharpoonup> number) \<Rightarrow> MarketPair list \<Rightarrow> (string \<times> MarketInfo) list
     \<Rightarrow> error + (string \<times> MarketInfo) list" where
  "registerInfos parse cache [] infos = Inr infos"
| "registerInfos parse cache (p # ps) infos =
     (case parse p of
        NoMatch \<Rightarrow> registerInfos parse cache ps infos
      | BadEndDate \<Rightarrow> Inl RangeError
      | UpDown iv a resolution candleStart \<Rightarrow>
          registerInfos parse cache ps
            (AList.update (slug (market p))
               (case cache (slug (market p)) of
                  Some cachedPrice \<Rightarrow>
                    (newMarketInfo p iv a resolution candleStart)\<lparr> referencePrice := Some cachedPrice \<rparr>
                | None \<Rightarrow> newMarketInfo p iv a resolution candleStart)
               infos))"

definition setMarketPairs_x :: "slugParser \<Rightarrow> MarketPair list \<Rightarrow> CrossMarketDetector \<Rightarrow> error + CrossMarketDetector" where
  "setMarketPairs_x parse pairs s =
     (let cache = saveRefPrices (marketInfos s) (refPriceCache s)
      in case registerInfos parse cache pairs [] of
           Inl e \<Rightarrow> Inl e
         | Inr infos \<Rightarrow> Inr (s\<lparr> refPriceCache := cache, marketInfos := infos \<rparr>))"

text \<open>
  \<open>loadReferencePrices\<close> is an \<open>async\<close> method: its third loop awaits
  \<open>getMarketOpenPriceFromPolymarket(asset, interval, endTime)\<close> for every market whose
  reference price is still \<open>null\<close>, and while it waits other calls on the detector run.
  The model therefore has the pieces of the method between two \<open>await\<close>s as functions of
  their own. \<open>startLoad\<close> is the method up to its first \<open>await\<close> (or to its end),
  \<open>resumeLoad\<close> the part from the return of an awaited call to the next \<open>await\<close> (or to
  the end). What the awaited call yields is a price, or \<open>None\<close> for \<open>null\<close> and for a
  thrown error, which the loop catches.
\<close>

definition restoreFromCache :: "(string \<rightharpoonup> number) \<Rightarrow> string \<times> MarketInfo \<Rightarrow> string \<times> MarketInfo" where
  "restoreFromCache cache e =
     (case e of (sl, marketInfo) \<Rightarrow>
        (case referencePrice marketInfo of
           Some r \<Rightarrow> (sl, marketInfo)
         | None \<Rightarrow>
             (case cache sl of
                Some cachedPrice \<Rightarrow> (sl, marketInfo\<lparr> referencePrice := Some cachedPrice \<rparr>)
              | None \<Rightarrow> (sl, marketInfo))))"

text \<open>
  Where a run stands: it has ended, or it is suspended in the \<open>await\<close> for one slug, with
  the slugs that its iteration over \<open>marketInfos\<close> has yet to visit.
\<close>

datatype LoadStatus = Finished | Awaiting string "string list"

text \<open>
  The third loop from some point of its iteration on: it passes the markets that have a
  reference price and stops at the first that has none. The iteration reads the registry
  as it is when it gets there.
\<close>

fun nextFetch :: "string list \<Rightarrow> (string \<times> MarketInfo) list \<Rightarrow> (string \<times> string list) option" where
  "nextFetch [] infos = None"
| "nextFetch (sl # rest) infos =
     (case map_of infos sl of
        None \<Rightarrow> nextFetch rest infos
      | Some marketInfo \<Rightarrow>
          (if referencePrice marketInfo \<noteq> None then nextFetch rest infos else Some (sl, rest)))"

definition continueLoad :: "string list \<Rightarrow> CrossMarketDetector \<Rightarrow> CrossMarketDetector \<times> LoadStatus" where
  "continueLoad slugs s =
     (case nextFetch slugs (marketInfos s) of
        None \<Rightarrow> (s\<lparr> pricesLoaded := True \<rparr>, Finished)
      | Some (sl, rest) \<Rightarrow> (s, Awaiting sl rest))"

definition startLoad :: "bool \<Rightarrow> CrossMarketDetector \<Rightarrow> CrossMarketDetector \<times> LoadStatus" where
  "startLoad force s =
     (let restored = map (restoreFromCache (refPriceCache s)) (marketInfos s);
          missing = length (filter (\<lambda>e. referencePrice (snd e) = None) restored);
          s1 = s\<lparr> marketInfos := restored \<rparr>
      in if pricesLoaded s \<and> missing = 0 \<and> \<not> force then (s1, Finished)
         else continueLoad (map fst restored) s1)"

text \<open>
  The two writes after an \<open>await\<close>: the awaited call for \<open>sl\<close> has returned \<open>answer\<close>. A
  price is written to the \<open>MarketInfo\<close> object that the run took from the registry before
  the \<open>await\<close>, and to the cache under \<open>sl\<close>; neither write looks at what is there.
  \<open>inRegistry\<close> says whether that object is still the registry's entry for \<open>sl\<close>: it is,
  unless \<open>setMarketPairs\<close> has rebuilt the registry since, in which case the first write
  is lost with the object.
\<close>

definition deliverPrice :: "bool \<Rightarrow> string \<Rightarrow> number option \<Rightarrow> CrossMarketDetector \<Rightarrow> CrossMarketDetector" where
  "deliverPrice inRegistry sl answer s =
     (case answer of
        None \<Rightarrow> s
      | Some openPrice \<Rightarrow>
          s\<lparr> marketInfos :=
               (if inRegistry
                then AList.map_entry sl (\<lambda>marketInfo. marketInfo\<lparr> referencePrice := Some openPrice \<rparr>)
                       (marketInfos s)
                else marketInfos s),
             refPriceCache := (refPriceCache s)(sl \<mapsto> openPrice) \<rparr>)"

definition resumeLoad ::
  "bool \<Rightarrow> string \<Rightarrow> string list \<Rightarrow> number option \<Rightarrow> CrossMarketDetector \<Rightarrow> CrossMarketDetector \<times> LoadStatus" where
  "resumeLoad inRegistry sl rest answer s = continueLoad rest (deliverPrice inRegistry sl answer s)"

text \<open>
  A run that nothing interrupts: every awaited call is answered by \<open>fetch\<close>, applied to
  the asset, the interval and the end time in milliseconds of the market, and the run
  resumes at once. \<open>loadLoop\<close> is the third loop of such a run, \<open>loadReferencePrices\<close> the
  whole run.
\<close>

type_synonym priceFetcher = "string \<Rightarrow> BTCMarketInterval \<Rightarrow> int \<Rightarrow> number option"

fun loadLoop :: "priceFetcher \<Rightarrow> string list \<Rightarrow> CrossMarketDetector \<Rightarrow> CrossMarketDetector" where
  "loadLoop fetch [] s = s\<lparr> pricesLoaded := True \<rparr>"
| "loadLoop fetch (sl # rest) s =
     (case map_of (marketInfos s) sl of
        None \<Rightarrow> loadLoop fetch rest s
      | Some marketInfo \<Rightarrow>
          (if referencePrice marketInfo \<noteq> None then loadLoop fetch rest s
           else loadLoop fetch rest
                  (deliverPrice True sl
                     (fetch (asset marketInfo) (interval marketInfo) (resolutionTimestamp marketInfo * 1000))
                     s)))"

definition loadReferencePrices :: "priceFetcher \<Rightarrow> bool \<Rightarrow> CrossMarketDetector \<Rightarrow> CrossMarketDetector" where
  "loadReferencePrices fetch force s =
     (let restored = map (restoreFromCache (refPriceCache s)) (marketInfos s);
          missing = length (filter (\<lambda>e. referencePrice (snd e) = None) restored);
          s1 = s\<lparr> marketInfos := restored \<rparr>
      in if pricesLoaded s \<and> missing = 0 \<and> \<not> force then s1
         else loadLoop fetch (map fst restored) s1)"

text \<open>
  The detector together with the runs of \<open>loadReferencePrices\<close> that are suspended in an
  \<open>await\<close>. A suspended run holds the slug it waits for, the \<open>MarketInfo\<close> object it will
  write to, and its iterator over \<open>marketInfos\<close>.
\<close>

record SuspendedLoad =
  awaitedSlug :: string
  holdsRegistryEntry :: bool
  stillToVisit :: "string list"

type_synonym runningDetector = "CrossMarketDetector \<times> SuspendedLoad list"

text \<open>
  What happens to the detector, one event at a time: a call of \<open>setMarketPairs\<close>, a call
  of \<open>loadReferencePrices\<close>, or the return of the awaited call of the suspended run number
  \<open>i\<close>. JavaScript runs each piece between two \<open>await\<close>s to its end before the next event,
  in any order of the events. After \<open>setMarketPairs\<close>, which clears \<open>marketInfos\<close> and
  fills it again, the object a suspended run holds is no longer in the registry, and its
  iterator, which is live, goes on to visit all the new entries.
\<close>

datatype Event =
    SetMarketPairsCalled "MarketPair list"
  | LoadReferencePricesCalled bool
  | FetchReturned nat "number option"

definition suspendOrEnd :: "CrossMarketDetector \<times> LoadStatus \<Rightarrow> SuspendedLoad list \<Rightarrow> runningDetector" where
  "suspendOrEnd r others =
     (case r of
        (s, Finished) \<Rightarrow> (s, others)
      | (s, Awaiting sl rest) \<Rightarrow>
          (s, others @ [\<lparr> awaitedSlug = sl, holdsRegistryEntry = True, stillToVisit = rest \<rparr>]))"

fun occur :: "slugParser \<Rightarrow> runningDetector \<Rightarrow> Event \<Rightarrow> error + runningDetector" where
  "occur parse (s, runs) (SetMarketPairsCalled pairs) =
     (case setMarketPairs_x parse pairs s of
        Inl e \<Rightarrow> Inl e
      | Inr s' \<Rightarrow>
          Inr (s', map (\<lambda>run. run\<lparr> holdsRegistryEntry := False,
                                   stillToVisit := map fst (marketInfos s') \<rparr>) runs))"
| "occur parse (s, runs) (LoadReferencePricesCalled force) =
     Inr (suspendOrEnd (startLoad force s) runs)"
| "occur parse (s, runs) (FetchReturned i answer) =
     (if i < length runs
      then Inr (suspendOrEnd
                  (resumeLoad (holdsRegistryEntry (runs ! i)) (awaitedSlug (runs ! i))
                     (stillToVisit (runs ! i)) answer s)
                  (take i runs @ drop (Suc i) runs))
      else Inr (s, runs))"

fun occurAll :: "slugParser \<Rightarrow> runningDetector \<Rightarrow> Event list \<Rightarrow> error + runningDetector" where
  "occurAll parse r [] = Inr r"
| "occurAll parse r (e # es) =
     (case occur parse r e of
        Inl err \<Rightarrow> Inl err
      | Inr r' \<Rightarrow> occurAll parse r' es)"

text \<open>
  Calls that do not overlap: each call runs to its end, its awaited calls answered by its
  \<open>fetch\<close>, before the next call begins.
\<close>

datatype Call = SetMarketPairs "MarketPair list" | LoadReferencePrices priceFetcher bool

fun call :: "slugParser \<Rightarrow> CrossMarketDetector \<Rightarrow> Call \<Rightarrow> error + CrossMarketDetector" where
  "call parse s (SetMarketPairs pairs) = setMarketPairs_x parse pairs s"
| "call parse s (LoadReferencePrices fetch force) = Inr (loadReferencePrices fetch force s)"

fun callAll :: "slugParser \<Rightarrow> CrossMarketDetector \<Rightarrow> Call list \<Rightarrow> error + CrossMarketDetector" where
  "callAll parse s [] = Inr s"
| "callAll parse s (c # cs) =
     (case call parse s c of
        Inl err \<Rightarrow> Inl err
      | Inr s' \<Rightarrow> callAll parse s' cs)"

text \<open>
  What the registry holds as the reference price of a slug: nothing when the slug is not
  registered or its price is \<open>null\<close>.
\<close>

definition registeredPrice :: "CrossMarketDetector \<Rightarrow> string \<Rightarrow> number option" where
  "registeredPrice s sl = Option.bind (map_of (marketInfos s) sl) referencePrice"

text \<open>
  The invariant of the two reference-price stores under calls that do not overlap: the
  slugs of the registry are distinct and every registered market carries exactly what
  the cache holds for its slug.
\<close>

definition refInv :: "(string \<times> MarketInfo) list \<Rightarrow> (string \<rightharpoonup> number) \<Rightarrow> bool" where
  "refInv infos cache \<longleftrightarrow>
     distinct (map fst infos) \<and> (\<forall>e \<in> set infos. referencePrice (snd e) = cache (fst e))"

subsection \<open>Evaluating one pair\<close>

fun intervalOrder :: "BTCMarketInterval \<Rightarrow> nat" where
  "intervalOrder I1d = 5"
| "intervalOrder I4h = 4"
| "intervalOrder I1h = 3"
| "intervalOrder I30m = 2"
| "intervalOrder I15m = 1"

text \<open>The long and the short market of a pair, in this order.\<close>

definition longShort :: "MarketInfo \<Rightarrow> MarketInfo \<Rightarrow> MarketInfo \<times> MarketInfo" where
  "longShort info1 info2 =
     (if intervalOrder (interval info1) > intervalOrder (interval info2)
      then (info1, info2) else (info2, info1))"

text \<open>\<open>(p?.bestAsk && !isNaN(p.bestAsk)) ? p.bestAsk : 0\<close>\<close>

definition askOrZero :: "priceCache \<Rightarrow> string \<Rightarrow> number" where
  "askOrZero tp t =
     (case cachedAsk tp t of
        Some a \<Rightarrow> if truthyNum a \<and> \<not> isNaN a then a else Fin 0
      | None \<Rightarrow> Fin 0)"

text \<open>\<open>size = p?.bestAskSize ?? 0\<close>, then \<open>size > 0 ? size : 1000\<close>\<close>

definition sizeOrDefault :: "priceCache \<Rightarrow> string \<Rightarrow> number" where
  "sizeOrDefault tp t =
     (let sz = nullishOr (cachedAskSize tp t) (Fin 0)
      in if jgt sz (Fin 0) then sz else Fin 1000)"

text \<open>
  The three-way branch on the reference prices assigns the local variables \<open>strategy\<close>,
  \<open>profitZoneLow\<close>, \<open>profitZoneHigh\<close>, \<open>entryCost\<close>, \<open>hasBothPrices\<close> and
  \<open>maxShares\<close>; \<open>chooseLegs\<close> returns them as a record.
\<close>

record LegChoice =
  legStrategy :: Strategy
  zoneLow :: number
  zoneHigh :: number
  legCost :: number
  hasBothPrices :: bool
  legShares :: number

definition chooseLegs :: "priceCache \<Rightarrow> MarketInfo \<Rightarrow> MarketInfo \<Rightarrow> number \<Rightarrow> number \<Rightarrow> LegChoice" where
  "chooseLegs tp longInfo shortInfo longRef shortRef =
     (let longUpAsk = askOrZero tp (yesTokenId (pair_i longInfo));
          longDownAsk = askOrZero tp (noTokenId (pair_i longInfo));
          shortUpAsk = askOrZero tp (yesTokenId (pair_i shortInfo));
          shortDownAsk = askOrZero tp (noTokenId (pair_i shortInfo))
      in if jeq longRef shortRef then
           \<lparr> legStrategy = LONG_DOWN_SHORT_UP,
             zoneLow = longRef,
             zoneHigh = longRef,
             legCost = jadd longDownAsk shortUpAsk,
             hasBothPrices = (jgt longDownAsk (Fin 0) \<and> jgt shortUpAsk (Fin 0)),
             legShares = jmin (sizeOrDefault tp (noTokenId (pair_i longInfo)))
                              (sizeOrDefault tp (yesTokenId (pair_i shortInfo))) \<rparr>
         else if jgt longRef shortRef then
           \<lparr> legStrategy = LONG_DOWN_SHORT_UP,
             zoneLow = shortRef,
             zoneHigh = longRef,
             legCost = jadd longDownAsk shortUpAsk,
             hasBothPrices = (jgt longDownAsk (Fin 0) \<and> jgt shortUpAsk (Fin 0)),
             legShares = jmin (sizeOrDefault tp (noTokenId (pair_i longInfo)))
                              (sizeOrDefault tp (yesTokenId (pair_i shortInfo))) \<rparr>
         else
           \<lparr> legStrategy = LONG_UP_SHORT_DOWN,
             zoneLow = longRef,
             zoneHigh = shortRef,
             legCost = jadd longUpAsk shortDownAsk,
             hasBothPrices = (jgt longUpAsk (Fin 0) \<and> jgt shortDownAsk (Fin 0)),
             legShares = jmin (sizeOrDefault tp (yesTokenId (pair_i longInfo)))
                              (sizeOrDefault tp (noTokenId (pair_i shortInfo))) \<rparr>)"

text \<open>
  \<open>checkPairForArbitrage\<close>; \<open>now\<close> is the clock reading of \<open>Date.now()\<close> and
  \<open>new Date()\<close>, in milliseconds. Past the guard on the reference prices both are
  present, so \<open>the\<close> reads a \<open>Some\<close>. The resolution time of a registered market is
  that of a valid date, so the time values are integers of at most 8.64e15 in absolute
  value, on which the product by 1000 is exact.
\<close>

definition checkPairForArbitrage ::
  "CrossMarketDetector \<Rightarrow> int \<Rightarrow> MarketInfo \<Rightarrow> MarketInfo \<Rightarrow> CrossMarketOpportunity option" where
  "checkPairForArbitrage s now info1 info2 =
     (let (longInfo, shortInfo) = longShort info1 info2
      in if \<not> truthy (referencePrice longInfo) \<or> \<not> truthy (referencePrice shortInfo) then None
         else
           (let tp = tokenPrices_x s;
                longRef = the (referencePrice longInfo);
                shortRef = the (referencePrice shortInfo);
                identicalRefs = jeq longRef shortRef;
                legs = chooseLegs tp longInfo shortInfo longRef shortRef
            in if \<not> hasBothPrices legs then None
               else
                 (let maxProfit = (if identicalRefs then jneg (legCost legs) else jsub (Fin 2) (legCost legs))
                  in if \<not> identicalRefs \<and> jlt maxProfit (minProfit_x s) then None
                     else
                       (let profitZoneWidth = jsub (zoneHigh legs) (zoneLow legs);
                            avgRef = jdiv (jadd longRef shortRef) (Fin 2);
                            profitZonePercent = jmul (jdiv profitZoneWidth avgRef) (Fin 100);
                            resolutionTime = resolutionTimestamp longInfo * 1000
                        in Some
                          \<lparr> longMarket = market_i longInfo,
                            shortMarket = market_i shortInfo,
                            longInterval = interval longInfo,
                            shortInterval = interval shortInfo,
                            longUpTokenId = yesTokenId (pair_i longInfo),
                            longDownTokenId = noTokenId (pair_i longInfo),
                            shortUpTokenId = yesTokenId (pair_i shortInfo),
                            shortDownTokenId = noTokenId (pair_i shortInfo),
                            longRefPrice = longRef,
                            shortRefPrice = shortRef,
                            profitZoneLow = zoneLow legs,
                            profitZoneHigh = zoneHigh legs,
                            strategy = legStrategy legs,
                            longUpAsk = askOrZero tp (yesTokenId (pair_i longInfo)),
                            longDownAsk = askOrZero tp (noTokenId (pair_i longInfo)),
                            shortUpAsk = askOrZero tp (yesTokenId (pair_i shortInfo)),
                            shortDownAsk = askOrZero tp (noTokenId (pair_i shortInfo)),
                            entryCost = legCost legs,
                            maxProfit = maxProfit,
                            profitZoneWidth = profitZoneWidth,
                            profitZonePercent = profitZonePercent,
                            maxShares_x = legShares legs,
                            resolutionTime = resolutionTime,
                            minutesUntilResolution =
                              jdiv (jsub (Fin (real_of_int resolutionTime)) (Fin (real_of_int now))) (Fin 60000),
                            timestamp_x = now \<rparr>))))"

subsection \<open>Discovery on a price update\<close>

text \<open>
  The loop of \<open>checkCrossMarketOpportunities\<close> skips another market with the same slug, a
  different asset, the same interval, or a resolution time more than 300 seconds away;
  \<open>isCandidate\<close> is what remains, \<open>candidatesFor\<close> the markets the loop evaluates, in
  order.
\<close>

definition isCandidate :: "MarketInfo \<Rightarrow> MarketInfo \<Rightarrow> bool" where
  "isCandidate updatedInfo otherInfo =
     (\<not> (slug (market_i otherInfo) = slug (market_i updatedInfo))
      \<and> \<not> (asset otherInfo \<noteq> asset updatedInfo)
      \<and> \<not> (interval otherInfo = interval updatedInfo)
      \<and> \<not> (\<bar>resolutionTimestamp otherInfo - resolutionTimestamp updatedInfo\<bar> > 300))"

definition candidatesFor :: "CrossMarketDetector \<Rightarrow> MarketInfo \<Rightarrow> MarketInfo list" where
  "candidatesFor s updatedInfo = filter (isCandidate updatedInfo) (map snd (marketInfos s))"

definition ownsToken :: "string \<Rightarrow> MarketInfo \<Rightarrow> bool" where
  "ownsToken tok info' = (yesTokenId (pair_i info') = tok \<or> noTokenId (pair_i info') = tok)"

definition checkCrossMarketOpportunities :: "CrossMarketDetector \<Rightarrow> int \<Rightarrow> string \<Rightarrow> CrossMarketOpportunity option" where
  "checkCrossMarketOpportunities s now tok =
     (case find (ownsToken tok) (map snd (marketInfos s)) of
        None \<Rightarrow> None
      | Some updatedInfo \<Rightarrow>
          (case sortDesc maxProfit
                  (List.map_filter (checkPairForArbitrage s now updatedInfo) (candidatesFor s updatedInfo)) of
             [] \<Rightarrow> None
           | best # others \<Rightarrow> Some best))"

definition updateFromOrderBook_x ::
  "CrossMarketDetector \<Rightarrow> int \<Rightarrow> string \<Rightarrow> OrderBook \<Rightarrow> CrossMarketDetector \<times> CrossMarketOpportunity option" where
  "updateFromOrderBook_x s now tok book =
     (let s' = s\<lparr> tokenPrices_x := storeBook (tokenPrices_x s) tok book now \<rparr>
      in (s', checkCrossMarketOpportunities s' now tok))"

definition updateFromWebSocket_x ::
  "CrossMarketDetector \<Rightarrow> int \<Rightarrow> ParsedBookUpdate \<Rightarrow> CrossMarketDetector \<times> CrossMarketOpportunity option" where
  "updateFromWebSocket_x s now u =
     (let s' = s\<lparr> tokenPrices_x := storeUpdate (tokenPrices_x s) u \<rparr>
      in (s', checkCrossMarketOpportunities s' now (tokenId u)))"

subsection \<open>Discovery by a full scan\<close>

text \<open>
  \<open>Math.round(t / 300) * 300\<close> for an integer \<open>t\<close>: \<open>Math.round\<close> rounds halves up, so
  the result is \<open>\<lfloor>(t + 150) / 300\<rfloor> * 300\<close>.
\<close>

definition roundedTime :: "int \<Rightarrow> int" where
  "roundedTime t = ((t + 150) div 300) * 300"

text \<open>
  The bucket key is the string \<open>`${asset}-${roundedTime}`\<close>. Assets are lower-case
  letters only, so two keys are equal exactly when asset and rounded time are: the model
  keeps the pair.
\<close>

definition bucketKey :: "MarketInfo \<Rightarrow> string \<times> int" where
  "bucketKey marketInfo = (asset marketInfo, roundedTime (resolutionTimestamp marketInfo))"

text \<open>\<open>byAssetAndTime\<close>: a \<open>Map\<close> from key to the list of its markets, in insertion order.\<close>

fun addToBucket :: "string \<times> int \<Rightarrow> MarketInfo \<Rightarrow> ((string \<times> int) \<times> MarketInfo list) list
     \<Rightarrow> ((string \<times> int) \<times> MarketInfo list) list" where
  "addToBucket k marketInfo [] = [(k, [marketInfo])]"
| "addToBucket k marketInfo ((k', ms) # rest) =
     (if k' = k then (k', ms @ [marketInfo]) # rest else (k', ms) # addToBucket k marketInfo rest)"

definition byAssetAndTime :: "CrossMarketDetector \<Rightarrow> ((string \<times> int) \<times> MarketInfo list) list" where
  "byAssetAndTime s =
     foldl (\<lambda>buckets marketInfo. addToBucket (bucketKey marketInfo) marketInfo buckets) []
       (map snd (marketInfos s))"

text \<open>All \<open>(markets[i], markets[j])\<close> with \<open>i < j\<close>, in the order of the two nested iterations.\<close>

fun pairsOf :: "'a list \<Rightarrow> ('a \<times> 'a) list" where
  "pairsOf [] = []"
| "pairsOf (x # xs) = map (Pair x) xs @ pairsOf xs"

text \<open>\<open>[slug1, slug2].sort().join('|')\<close>\<close>

definition pairKey :: "MarketInfo \<Rightarrow> MarketInfo \<Rightarrow> string" where
  "pairKey info1 info2 =
     (let a = slug (market_i info1); b = slug (market_i info2)
      in if b < a then b @ ''|'' @ a else a @ ''|'' @ b)"

text \<open>
  The pairs of one scan before the checks inside the inner loop, bucket by bucket, and
  the inner loop's two checks (same interval, pair key already seen) with the set
  \<open>checkedPairs\<close> as an accumulator. \<open>scanPairs\<close> are the pairs handed to
  \<open>checkPairForArbitrage\<close>.
\<close>

definition bucketPairs :: "((string \<times> int) \<times> MarketInfo list) list \<Rightarrow> (MarketInfo \<times> MarketInfo) list" where
  "bucketPairs buckets =
     concat (map (\<lambda>(k, markets). if length markets < 2 then [] else pairsOf markets) buckets)"

fun dedupPairs :: "(MarketInfo \<times> MarketInfo) list \<Rightarrow> string list \<Rightarrow> (MarketInfo \<times> MarketInfo) list" where
  "dedupPairs [] checkedPairs = []"
| "dedupPairs ((info1, info2) # rest) checkedPairs =
     (if interval info1 = interval info2 then dedupPairs rest checkedPairs
      else if pairKey info1 info2 \<in> set checkedPairs then dedupPairs rest checkedPairs
      else (info1, info2) # dedupPairs rest (pairKey info1 info2 # checkedPairs))"

definition scanPairs :: "CrossMarketDetector \<Rightarrow> (MarketInfo \<times> MarketInfo) list" where
  "scanPairs s = dedupPairs (bucketPairs (byAssetAndTime s)) []"

definition scanAllCrossMarkets :: "CrossMarketDetector \<Rightarrow> int \<Rightarrow> CrossMarketOpportunity list" where
  "scanAllCrossMarkets s now =
     sortDesc maxProfit
       (List.map_filter (\<lambda>(info1, info2). checkPairForArbitrage s now info1 info2) (scanPairs s))"

text \<open>Every bucket holds registered markets whose key is the bucket's.\<close>

definition bucketsOk :: "MarketInfo set \<Rightarrow> ((string \<times> int) \<times> MarketInfo list) list \<Rightarrow> bool" where
  "bucketsOk M buckets \<longleftrightarrow> (\<forall>e \<in> set buckets. \<forall>m \<in> set (snd e). m \<in> M \<and> bucketKey m = fst e)"

subsection \<open>Reading an opportunity\<close>

text \<open>The two tokens an opportunity buys.\<close>

definition chosenLegs :: "CrossMarketOpportunity \<Rightarrow> string \<times> string" where
  "chosenLegs opp =
     (if strategy opp = LONG_DOWN_SHORT_UP then (longDownTokenId opp, shortUpTokenId opp)
      else (longUpTokenId opp, shortDownTokenId opp))"

section \<open>Example states\<close>

text \<open>
  Concrete detectors for the worked examples below, each built from an empty detector by
  the detector's own operations.
\<close>

definition exMarket :: GammaMarket where
  "exMarket = \<lparr> marketId = ''m1'', question = ''Will it rain?'', slug = ''will-it-rain'',
       liquidityNum = Fin 1000, endDate = ''2025-12-24T00:00:00Z'', interval_m = None \<rparr>"

definition exPair :: MarketPair where
  "exPair = \<lparr> market = exMarket, yesTokenId = ''yes-1'', noTokenId = ''no-1'' \<rparr>"

definition exConfig :: ScannerConfig where
  "exConfig = \<lparr> minProfit = Fin (1/128), minLiquidity = Fin 500 \<rparr>"

definition exDetector :: ArbitrageDetector where
  "exDetector = setMarketPairs
     \<lparr> config = exConfig, marketPairs = [], tokenPrices = Map.empty, marketLookup = [] \<rparr> [exPair]"

definition askUpdate :: "string \<Rightarrow> number \<Rightarrow> number \<Rightarrow> ParsedBookUpdate" where
  "askUpdate tok p sz = \<lparr> tokenId = tok, bestBid_u = None, bestAsk_u = Some p,
       bestBidSize_u = None, bestAskSize_u = Some sz, timestamp_u = 1 \<rparr>"

definition bidUpdate :: "string \<Rightarrow> number \<Rightarrow> number \<Rightarrow> ParsedBookUpdate" where
  "bidUpdate tok p sz = \<lparr> tokenId = tok, bestBid_u = Some p, bestAsk_u = None,
       bestBidSize_u = Some sz, bestAskSize_u = None, timestamp_u = 1 \<rparr>"

definition exBuy :: ArbitrageDetector where
  "exBuy = fst (updateFromWebSocket
             (fst (updateFromWebSocket exDetector 1 (askUpdate ''yes-1'' (Fin 0.25) (Fin 100))))
             1 (askUpdate ''no-1'' (Fin 0.5) (Fin 100)))"

definition exBuyNaN :: ArbitrageDetector where
  "exBuyNaN = fst (updateFromWebSocket
             (fst (updateFromWebSocket exDetector 1 (askUpdate ''yes-1'' (Fin 0.25) NaN)))
             1 (askUpdate ''no-1'' (Fin 0.25) (Fin 100)))"

definition exSell :: ArbitrageDetector where
  "exSell = fst (updateFromWebSocket
             (fst (updateFromWebSocket exDetector 1 (bidUpdate ''yes-1'' (Fin 0.625) (Fin 10))))
             1 (bidUpdate ''no-1'' (Fin 0.5) (Fin 20)))"

definition exSellNaN :: ArbitrageDetector where
  "exSellNaN = fst (updateFromWebSocket
             (fst (updateFromWebSocket exDetector 1 (bidUpdate ''yes-1'' (Fin 0.75) NaN)))
             1 (bidUpdate ''no-1'' (Fin 0.75) (Fin 100)))"

definition exZero :: ArbitrageDetector where
  "exZero = fst (updateFromWebSocket
             (fst (updateFromWebSocket exDetector 1
                \<lparr> tokenId = ''yes-1'', bestBid_u = Some (Fin 0), bestAsk_u = Some (Fin 0),
                  bestBidSize_u = Some (Fin 100), bestAskSize_u = Some (Fin 100), timestamp_u = 1 \<rparr>))
             1
             \<lparr> tokenId = ''no-1'', bestBid_u = Some (Fin 1.25), bestAsk_u = Some (Fin 0.25),
               bestBidSize_u = Some (Fin 100), bestAskSize_u = Some (Fin 100), timestamp_u = 1 \<rparr>)"

definition priceOnlyUpdate :: ParsedBookUpdate where
  "priceOnlyUpdate = \<lparr> tokenId = ''yes-1'', bestBid_u = None, bestAsk_u = Some (Fin 0.375),
       bestBidSize_u = None, bestAskSize_u = None, timestamp_u = 2 \<rparr>"

definition askOnlyBook :: OrderBook where
  "askOnlyBook = \<lparr> bids = [], asks = [\<lparr> price = Fin 0.5, size_l = Fin 50 \<rparr>, \<lparr> price = Fin 0.25, size_l = Fin 100 \<rparr>] \<rparr>"

definition exLongMarket :: GammaMarket where
  "exLongMarket = \<lparr> marketId = ''m-1h'', question = ''Bitcoin Up or Down - 10PM ET'',
       slug = ''bitcoin-up-or-down-december-23-10pm-et'', liquidityNum = Fin 5000,
       endDate = ''2025-12-24T04:00:00Z'', interval_m = Some I1h \<rparr>"

definition exShortMarket :: GammaMarket where
  "exShortMarket = \<lparr> marketId = ''m-15m'', question = ''Bitcoin Up or Down - 15 minutes'',
       slug = ''btc-updown-15m-2700'', liquidityNum = Fin 800,
       endDate = ''2025-12-24T04:00:00Z'', interval_m = None \<rparr>"

definition exLongPair :: MarketPair where
  "exLongPair = \<lparr> market = exLongMarket, yesTokenId = ''long-up'', noTokenId = ''long-down'' \<rparr>"

definition exShortPair :: MarketPair where
  "exShortPair = \<lparr> market = exShortMarket, yesTokenId = ''short-up'', noTokenId = ''short-down'' \<rparr>"

text \<open>A parser for the two example markets: both resolve at second 3600.\<close>

definition exParse :: slugParser where
  "exParse p =
     (if slug (market p) = ''bitcoin-up-or-down-december-23-10pm-et'' then UpDown I1h ''btc'' 3600 0
      else if slug (market p) = ''btc-updown-15m-2700'' then UpDown I15m ''btc'' 3600 2700
      else NoMatch)"

definition exFetch :: "number \<Rightarrow> number \<Rightarrow> priceFetcher" where
  "exFetch longRef shortRef a iv endTime = (if iv = I1h then Some longRef else Some shortRef)"

definition exInfo :: "MarketPair \<Rightarrow> BTCMarketInterval \<Rightarrow> int \<Rightarrow> number option \<Rightarrow> MarketInfo" where
  "exInfo p iv candleStart r =
     \<lparr> market_i = market p, pair_i = p, interval = iv, asset = ''btc'',
       resolutionTimestamp = 3600, candleStartTimestamp = candleStart, referencePrice = r \<rparr>"

text \<open>The two markets registered in a new detector with threshold \<open>1/1024\<close>.\<close>

definition exRegistered :: CrossMarketDetector where
  "exRegistered =
     projr (setMarketPairs_x exParse [exLongPair, exShortPair] (newCrossMarketDetector (Fin (1/1024))))"

definition exCrossWith :: "number \<Rightarrow> number \<Rightarrow> ParsedBookUpdate list \<Rightarrow> CrossMarketDetector" where
  "exCrossWith longRef shortRef us =
     foldl (\<lambda>s u. fst (updateFromWebSocket_x s 1 u))
       (loadReferencePrices (exFetch longRef shortRef) False exRegistered) us"

definition priceUpdate :: "string \<Rightarrow> number \<Rightarrow> ParsedBookUpdate" where
  "priceUpdate tok p = \<lparr> tokenId = tok, bestBid_u = None, bestAsk_u = Some p,
       bestBidSize_u = None, bestAskSize_u = None, timestamp_u = 1 \<rparr>"

definition exCross :: CrossMarketDetector where
  "exCross = exCrossWith (Fin 100000) (Fin 99500)
     [askUpdate ''long-down'' (Fin 0.375) (Fin 50), priceUpdate ''short-up'' (Fin 0.5)]"

definition exCrossDown :: CrossMarketDetector where
  "exCrossDown = exCrossWith (Fin 100000) (Fin 99000)
     [askUpdate ''long-down'' (Fin 0.375) (Fin 50), priceUpdate ''short-up'' (Fin 0.5)]"

definition exCrossUp :: CrossMarketDetector where
  "exCrossUp = exCrossWith (Fin 99000) (Fin 100000)
     [askUpdate ''long-up'' (Fin 0.4375) (Fin 20), askUpdate ''short-down'' (Fin 0.5) (Fin 30)]"

definition exCrossSame :: CrossMarketDetector where
  "exCrossSame = exCrossWith (Fin 100000) (Fin 100000)
     [askUpdate ''long-down'' (Fin 0.375) (Fin 50), priceUpdate ''short-up'' (Fin 0.5)]"

text \<open>References 100000 and 99500 with an ask for long-DOWN only.\<close>

definition exCrossOneAsk :: CrossMarketDetector where
  "exCrossOneAsk = exCrossWith (Fin 100000) (Fin 99500)
     [askUpdate ''long-down'' (Fin 0.375) (Fin 50)]"

abbreviation exLong :: "number \<Rightarrow> MarketInfo" where
  "exLong r \<equiv> exInfo exLongPair I1h 0 (Some r)"

abbreviation exShort :: "number \<Rightarrow> MarketInfo" where
  "exShort r \<equiv> exInfo exShortPair I15m 2700 (Some r)"




text \<open>
  What is read off the detector after a run of events: the reference price that the
  registry holds for the hourly market, the cache's entry for its slug, and the slugs
  that the suspended runs wait for.
\<close>

definition exObserve :: "error + runningDetector \<Rightarrow> error + number option \<times> number option \<times> string list" where
  "exObserve =
     map_sum id
       (\<lambda>r. (registeredPrice (fst r) ''bitcoin-up-or-down-december-23-10pm-et'',
             refPriceCache (fst r) ''bitcoin-up-or-down-december-23-10pm-et'',
             map awaitedSlug (snd r)))"

text \<open>
  The same calls one after the other: the hourly market is loaded at 100000, dropped by
  a refresh that lists only the 15-minute market, and a forced reload is answered with
  other prices.
\<close>

definition exLoaded :: "error + CrossMarketDetector" where
  "exLoaded = callAll exParse (newCrossMarketDetector (Fin (1/1024)))
     [SetMarketPairs [exLongPair, exShortPair],
      LoadReferencePrices (exFetch (Fin 100000) (Fin 99500)) False]"

definition exAfter :: "Call list" where
  "exAfter = [SetMarketPairs [exShortPair], LoadReferencePrices (exFetch (Fin 1) (Fin 2)) True]"

text \<open>The same two markets with resolution times 3749 and 3751, one second either side
  of the bucket boundary 3750.\<close>

definition exParseJitter :: slugParser where
  "exParseJitter p =
     (if slug (market p) = ''bitcoin-up-or-down-december-23-10pm-et'' then UpDown I1h ''btc'' 3749 149
      else if slug (market p) = ''btc-updown-15m-2700'' then UpDown I15m ''btc'' 3751 2851
      else NoMatch)"

definition exJitter :: CrossMarketDetector where
  "exJitter =
     foldl (\<lambda>s u. fst (updateFromWebSocket_x s 1 u))
       (loadReferencePrices (exFetch (Fin 100000) (Fin 99500)) False
          (projr (setMarketPairs_x exParseJitter [exLongPair, exShortPair]
                    (newCrossMarketDetector (Fin (1/1024))))))
       [askUpdate ''long-down'' (Fin 0.375) (Fin 50), priceUpdate ''short-up'' (Fin 0.5)]"

definition exJitterLong :: MarketInfo where
  "exJitterLong = \<lparr> market_i = exLongMarket, pair_i = exLongPair, interval = I1h, asset = ''btc'',
       resolutionTimestamp = 3749, candleStartTimestamp = 149, referencePrice = Some (Fin 100000) \<rparr>"

definition exJitterShort :: MarketInfo where
  "exJitterShort = \<lparr> market_i = exShortMarket, pair_i = exShortPair, interval = I15m, asset = ''btc'',
       resolutionTimestamp = 3751, candleStartTimestamp = 2851, referencePrice = Some (Fin 99500) \<rparr>"

text \<open>
  Decimal prices, as \<open>parseFloat\<close> reads them: asks of 0.31 and 0.685 and bids of 0.4 and
  0.605, under a threshold of 0.005.
\<close>

definition exDecimalConfig :: ScannerConfig where
  "exDecimalConfig = \<lparr> minProfit = num (5/1000), minLiquidity = Fin 500 \<rparr>"

definition exDecimalDetector :: ArbitrageDetector where
  "exDecimalDetector = setMarketPairs
     \<lparr> config = exDecimalConfig, marketPairs = [], tokenPrices = Map.empty, marketLookup = [] \<rparr> [exPair]"

definition exDecimalBuy :: ArbitrageDetector where
  "exDecimalBuy = fst (updateFromWebSocket
             (fst (updateFromWebSocket exDecimalDetector 1 (askUpdate ''yes-1'' (num (31/100)) (Fin 100))))
             1 (askUpdate ''no-1'' (num (685/1000)) (Fin 100)))"

definition exDecimalSell :: ArbitrageDetector where
  "exDecimalSell = fst (updateFromWebSocket
             (fst (updateFromWebSocket exDecimalDetector 1 (bidUpdate ''yes-1'' (num (4/10)) (Fin 100))))
             1 (bidUpdate ''no-1'' (num (605/1000)) (Fin 100)))"

section \<open>Properties\<close>

lemma buyBoth_unfold:
  assumes reg: "map_of (marketPairs d) tok = Some pair"
    and ya: "cachedAsk (tokenPrices d) (yesTokenId pair) = Some ya"
    and na: "cachedAsk (tokenPrices d) (noTokenId pair) = Some na"
    and ty: "truthyNum ya" and tn: "truthyNum na"
  shows "checkBuyBothArbitrage d now tok =
     (if jlt (jsub (Fin 1) (jadd ya na)) (minProfit (config d)) then None
      else if jlt (liquidityNum (market pair)) (minLiquidity (config d)) then None
      else if jle (jmin (nullishOr (cachedAskSize (tokenPrices d) (yesTokenId pair)) (Fin 0))
                        (nullishOr (cachedAskSize (tokenPrices d) (noTokenId pair)) (Fin 0))) (Fin 0) then None
      else Some
        \<lparr> oppType = BUY_BOTH,
          market_o = market pair,
          yesAskPrice = ya,
          noAskPrice = na,
          yesBidPrice = cachedBid (tokenPrices d) (yesTokenId pair),
          noBidPrice = cachedBid (tokenPrices d) (noTokenId pair),
          totalCost = jadd ya na,
          profit = jsub (Fin 1) (jadd ya na),
          profitPercent = jdiv (jsub (Fin 1) (jadd ya na)) (jadd ya na),
          yesAskSize = nullishOr (cachedAskSize (tokenPrices d) (yesTokenId pair)) (Fin 0),
          noAskSize = nullishOr (cachedAskSize (tokenPrices d) (noTokenId pair)) (Fin 0),
          yesBidSize = cachedBidSize (tokenPrices d) (yesTokenId pair),
          noBidSize = cachedBidSize (tokenPrices d) (noTokenId pair),
          maxShares = jmin (nullishOr (cachedAskSize (tokenPrices d) (yesTokenId pair)) (Fin 0))
                        (nullishOr (cachedAskSize (tokenPrices d) (noTokenId pair)) (Fin 0)),
          timestamp = now \<rparr>)"
proof -
  from ya obtain yp where yp: "tokenPrices d (yesTokenId pair) = Some yp" "bestAsk yp = Some ya"
    by (auto simp: cachedAsk_def split: Option.bind_splits)
  from na obtain np where np: "tokenPrices d (noTokenId pair) = Some np" "bestAsk np = Some na"
    by (auto simp: cachedAsk_def split: Option.bind_splits)
  show ?thesis
    using reg ya na ty tn yp np
    by (simp add: checkBuyBothArbitrage_def Let_def cachedAskSize_def cachedBid_def cachedBidSize_def)
qed

lemma sellBoth_unfold:
  assumes reg: "map_of (marketPairs d) tok = Some pair"
    and yb: "cachedBid (tokenPrices d) (yesTokenId pair) = Some yb"
    and nb: "cachedBid (tokenPrices d) (noTokenId pair) = Some nb"
    and ty: "truthyNum yb" and tn: "truthyNum nb"
  shows "checkSellBothArbitrage d now tok =
     (if jlt (jsub (jadd yb nb) (Fin 1)) (minProfit (config d)) then None
      else if jlt (liquidityNum (market pair)) (minLiquidity (config d)) then None
      else if jle (jmin (nullishOr (cachedBidSize (tokenPrices d) (yesTokenId pair)) (Fin 0))
                        (nullishOr (cachedBidSize (tokenPrices d) (noTokenId pair)) (Fin 0))) (Fin 0) then None
      else Some
        \<lparr> oppType = SELL_BOTH,
          market_o = market pair,
          yesAskPrice = nullishOr (cachedAsk (tokenPrices d) (yesTokenId pair)) (Fin 0),
          noAskPrice = nullishOr (cachedAsk (tokenPrices d) (noTokenId pair)) (Fin 0),
          yesBidPrice = Some yb,
          noBidPrice = Some nb,
          totalCost = Fin 1,
          profit = jsub (jadd yb nb) (Fin 1),
          profitPercent = jsub (jadd yb nb) (Fin 1),
          yesAskSize = nullishOr (cachedAskSize (tokenPrices d) (yesTokenId pair)) (Fin 0),
          noAskSize = nullishOr (cachedAskSize (tokenPrices d) (noTokenId pair)) (Fin 0),
          yesBidSize = Some (nullishOr (cachedBidSize (tokenPrices d) (yesTokenId pair)) (Fin 0)),
          noBidSize = Some (nullishOr (cachedBidSize (tokenPrices d) (noTokenId pair)) (Fin 0)),
          maxShares = jmin (nullishOr (cachedBidSize (tokenPrices d) (yesTokenId pair)) (Fin 0))
                        (nullishOr (cachedBidSize (tokenPrices d) (noTokenId pair)) (Fin 0)),
          timestamp = now \<rparr>)"
proof -
  from yb obtain yp where yp: "tokenPrices d (yesTokenId pair) = Some yp" "bestBid yp = Some yb"
    by (auto simp: cachedBid_def split: Option.bind_splits)
  from nb obtain np where np: "tokenPrices d (noTokenId pair) = Some np" "bestBid np = Some nb"
    by (auto simp: cachedBid_def split: Option.bind_splits)
  show ?thesis
    using reg yb nb ty tn yp np
    by (simp add: checkSellBothArbitrage_def Let_def cachedAskSize_def cachedAsk_def cachedBidSize_def)
qed

lemma buyBoth_type: "checkBuyBothArbitrage d now tok = Some opp \<Longrightarrow> oppType opp = BUY_BOTH"
  by (auto simp: checkBuyBothArbitrage_def Let_def split: option.splits if_splits)

lemma sellBoth_type: "checkSellBothArbitrage d now tok = Some opp \<Longrightarrow> oppType opp = SELL_BOTH"
  by (auto simp: checkSellBothArbitrage_def Let_def split: option.splits if_splits)

lemma checkAll_buy_iff:
  "checkAllArbitrageTypes d now tok = Some opp \<and> oppType opp = BUY_BOTH
     \<longleftrightarrow> checkBuyBothArbitrage d now tok = Some opp"
  by (auto simp: checkAllArbitrageTypes_def split: option.splits dest: buyBoth_type sellBoth_type)

lemma checkAll_sell_iff:
  "checkAllArbitrageTypes d now tok = Some opp \<and> oppType opp = SELL_BOTH
     \<longleftrightarrow> checkBuyBothArbitrage d now tok = None \<and> checkSellBothArbitrage d now tok = Some opp"
  by (auto simp: checkAllArbitrageTypes_def split: option.splits dest: buyBoth_type sellBoth_type)

subsection \<open>Numbers\<close>

text \<open>Evaluating the rounding of a given value.\<close>

lemmas round64_eval =
  num_def round64_def roundSigned_def binade_def pow2_def roundHalfEven_def Let_def
  signedZero_def signedInf_def bitLength.simps

lemma isNaN_roundSigned [simp]: "\<not> isNaN (roundSigned neg m)"
  by (simp add: roundSigned_def signedZero_def signedInf_def Let_def)

lemma isNaN_round64 [simp]: "\<not> isNaN (round64 x)"
  by (simp add: round64_def)

lemma isInf_roundSigned: "isInf (roundSigned neg m) \<Longrightarrow> roundSigned neg m = signedInf neg"
  by (auto simp: roundSigned_def signedZero_def signedInf_def Let_def split: if_splits)

lemma isNaN_jneg [simp]: "isNaN (jneg a) = isNaN a"
  by (cases a) simp_all

lemma isNaN_jadd:
  "isNaN (jadd a b) \<longleftrightarrow> isNaN a \<or> isNaN b \<or> (a = PInf \<and> b = NInf) \<or> (a = NInf \<and> b = PInf)"
  by (cases a; cases b) simp_all

text \<open>
  The arithmetic at some values: \<open>0.1 + 0.2\<close> is 0.30000000000000004; a tie goes to the even
  significand; results beyond the largest finite value overflow and results below half
  the smallest subnormal value vanish, keeping their sign; the zeros are equal and signed.
\<close>

lemma binary64_examples:
  "num (1/10) = Fin (3602879701896397 / 2 ^ 55)"
  "jadd (num (1/10)) (num (2/10)) = Fin (1351079888211149 / 2 ^ 52)"
  "jdiv (Fin 1) (Fin 3) = Fin (6004799503160661 / 2 ^ 54)"
  "round64 (2 ^ 53 + 1) = Fin (2 ^ 53)"
  "round64 (2 ^ 53 + 3) = Fin (2 ^ 53 + 4)"
  "jsub (Fin 1) (Fin 1) = Fin 0"
  "jneg (Fin 0) = NegZero"
  "jmul (Fin (- 1)) (Fin 0) = NegZero"
  "jadd NegZero (Fin 0) = Fin 0"
  "jdiv (Fin 1) NegZero = NInf"
  "jdiv (Fin 0) (Fin 0) = NaN"
  "jadd PInf NInf = NaN"
  "jeq (Fin 0) NegZero"
  "\<not> jlt NegZero (Fin 0)"
  "jmin (Fin 0) NegZero = NegZero"
  "\<not> jeq NaN NaN"
  by (simp_all add: jsub_def jmul_def jdiv_def jeq_def jmin_def round64_eval)

lemma binary64_range_examples:
  "jadd (Fin (2 ^ 1023)) (Fin (2 ^ 1023)) = PInf"
  "round64 (1 / 2 ^ 1074) = Fin (1 / 2 ^ 1074)"
  "round64 (- (1 / 2 ^ 1075)) = NegZero"
  by (simp_all add: round64_eval)

lemma jge_iff_not_jlt: "\<not> isNaN a \<Longrightarrow> \<not> isNaN b \<Longrightarrow> jge a b \<longleftrightarrow> \<not> jlt a b"
  by (cases a; cases b) (auto simp: jge_def jle_def jeq_def)

lemma jgt_iff_not_jle: "\<not> isNaN a \<Longrightarrow> \<not> isNaN b \<Longrightarrow> jgt a b \<longleftrightarrow> \<not> jle a b"
  by (cases a; cases b) (auto simp: jgt_def jle_def jeq_def)

lemma isNaN_jmin: "isNaN (jmin a b) \<longleftrightarrow> isNaN a \<or> isNaN b"
  by (cases a; cases b) (auto simp: jmin_def)

lemma pos_truthy: "jgt a (Fin 0) \<Longrightarrow> truthyNum a"
  by (cases a) (auto simp: jgt_def)

lemma pos_cases: "jgt a (Fin 0) \<Longrightarrow> (\<exists>x. a = Fin x \<and> 0 < x) \<or> a = PInf"
  by (cases a) (auto simp: jgt_def)

lemma isNaN_buy_profit: "jgt a (Fin 0) \<Longrightarrow> jgt b (Fin 0) \<Longrightarrow> \<not> isNaN (jsub (Fin 1) (jadd a b))"
proof -
  assume a: "jgt a (Fin 0)" and b: "jgt b (Fin 0)"
  from pos_cases[OF a] pos_cases[OF b] have "\<not> isNaN (jadd a b)"
    by (auto simp: isNaN_jadd)
  then show ?thesis
    by (simp add: jsub_def isNaN_jadd)
qed

lemma isNaN_sell_profit: "jgt a (Fin 0) \<Longrightarrow> jgt b (Fin 0) \<Longrightarrow> \<not> isNaN (jsub (jadd a b) (Fin 1))"
proof -
  assume a: "jgt a (Fin 0)" and b: "jgt b (Fin 0)"
  from pos_cases[OF a] pos_cases[OF b] have "\<not> isNaN (jadd a b)"
    by (auto simp: isNaN_jadd)
  then show ?thesis
    by (simp add: jsub_def isNaN_jadd)
qed

text \<open>
  Every evaluation goes through \<open>checkAllArbitrageTypes\<close>: the two update functions
  return its result on the updated cache, and every opportunity of a full scan is its
  result for a registered token.
\<close>

lemma set_insertDesc: "set (insertDesc key x ys) = insert x (set ys)"
  by (induction ys) auto

lemma set_sortDesc: "set (sortDesc key xs) = set xs"
  by (induction xs) (simp_all add: sortDesc_def set_insertDesc)

lemma scanLoop_results:
  "opp \<in> set (scanLoop d now entries checked)
     \<Longrightarrow> \<exists>e \<in> set entries. checkAllArbitrageTypes d now (fst e) = Some opp"
  by (induction d now entries checked rule: scanLoop.induct) (auto split: if_splits option.splits)

lemma evaluation_entry_points:
  "snd (updateFromOrderBook d now tok book)
     = checkAllArbitrageTypes (fst (updateFromOrderBook d now tok book)) now tok"
  "snd (updateFromWebSocket d now u)
     = checkAllArbitrageTypes (fst (updateFromWebSocket d now u)) now (tokenId u)"
  "opp \<in> set (scanAllMarkets d now)
     \<Longrightarrow> \<exists>e \<in> set (marketPairs d). checkAllArbitrageTypes d now (fst e) = Some opp"
  by (simp_all add: updateFromOrderBook_def updateFromWebSocket_def Let_def scanAllMarkets_def
        set_sortDesc scanLoop_results)

subsection \<open>C1: the BUY_BOTH gate\<close>

text \<open>
  C1. For a registered market whose YES and NO tokens both have a cached best ask above
  zero: when the two best-ask sizes (a missing size counting as 0), the market's liquidity
  and the two thresholds are not NaN, an evaluation returns a BUY_BOTH opportunity exactly
  when \<open>1.0 - (yesAsk + noAsk) \<ge> minProfit\<close>, \<open>min(yesAskSize, noAskSize) > 0\<close> and
  \<open>liquidity \<ge> minLiquidity\<close>, the sum and the difference being the binary64 results that
  the code computes. Every BUY_BOTH opportunity returned has \<open>totalCost = yesAsk + noAsk\<close>,
  \<open>profit = 1.0 - totalCost\<close>, \<open>profitPercent = profit / totalCost\<close> and
  \<open>maxShares = min(yesAskSize, noAskSize)\<close>, in the same arithmetic.
\<close>

theorem buy_both_characterization:
  assumes reg: "map_of (marketPairs d) tok = Some pair"
    and ya: "cachedAsk (tokenPrices d) (yesTokenId pair) = Some yesAsk"
    and na: "cachedAsk (tokenPrices d) (noTokenId pair) = Some noAsk"
    and ypos: "jgt yesAsk (Fin 0)" and npos: "jgt noAsk (Fin 0)"
    and ys: "yesSize = nullishOr (cachedAskSize (tokenPrices d) (yesTokenId pair)) (Fin 0)"
    and ns: "noSize = nullishOr (cachedAskSize (tokenPrices d) (noTokenId pair)) (Fin 0)"
  shows "(\<not> isNaN yesSize \<and> \<not> isNaN noSize \<and> \<not> isNaN (liquidityNum (market pair))
            \<and> \<not> isNaN (minProfit (config d)) \<and> \<not> isNaN (minLiquidity (config d))
          \<longrightarrow> ((\<exists>opp. checkAllArbitrageTypes d now tok = Some opp \<and> oppType opp = BUY_BOTH)
                 \<longleftrightarrow> jge (jsub (Fin 1) (jadd yesAsk noAsk)) (minProfit (config d))
                     \<and> jgt (jmin yesSize noSize) (Fin 0)
                     \<and> jge (liquidityNum (market pair)) (minLiquidity (config d))))
       \<and> (\<forall>opp. checkAllArbitrageTypes d now tok = Some opp \<and> oppType opp = BUY_BOTH
            \<longrightarrow> totalCost opp = jadd yesAsk noAsk
                \<and> profit opp = jsub (Fin 1) (totalCost opp)
                \<and> profitPercent opp = jdiv (profit opp) (totalCost opp)
                \<and> maxShares opp = jmin yesSize noSize)"
proof -
  note unf = buyBoth_unfold[OF reg ya na pos_truthy[OF ypos] pos_truthy[OF npos], of now]
  have A: "(\<exists>opp. checkAllArbitrageTypes d now tok = Some opp \<and> oppType opp = BUY_BOTH)
            \<longleftrightarrow> \<not> jlt (jsub (Fin 1) (jadd yesAsk noAsk)) (minProfit (config d))
                \<and> \<not> jle (jmin yesSize noSize) (Fin 0)
                \<and> \<not> jlt (liquidityNum (market pair)) (minLiquidity (config d))"
    unfolding checkAll_buy_iff unf ys ns by auto
  have B: "jge (jsub (Fin 1) (jadd yesAsk noAsk)) (minProfit (config d))
                     \<and> jgt (jmin yesSize noSize) (Fin 0)
                     \<and> jge (liquidityNum (market pair)) (minLiquidity (config d))
          \<longleftrightarrow> \<not> jlt (jsub (Fin 1) (jadd yesAsk noAsk)) (minProfit (config d))
                \<and> \<not> jle (jmin yesSize noSize) (Fin 0)
                \<and> \<not> jlt (liquidityNum (market pair)) (minLiquidity (config d))"
    if "\<not> isNaN yesSize" "\<not> isNaN noSize" "\<not> isNaN (liquidityNum (market pair))"
       "\<not> isNaN (minProfit (config d))" "\<not> isNaN (minLiquidity (config d))"
    using that isNaN_buy_profit[OF ypos npos]
    by (simp add: jge_iff_not_jlt jgt_iff_not_jle isNaN_jmin)
  have C: "totalCost opp = jadd yesAsk noAsk
                \<and> profit opp = jsub (Fin 1) (totalCost opp)
                \<and> profitPercent opp = jdiv (profit opp) (totalCost opp)
                \<and> maxShares opp = jmin yesSize noSize"
    if "checkAllArbitrageTypes d now tok = Some opp \<and> oppType opp = BUY_BOTH" for opp
    using that unfolding checkAll_buy_iff unf ys ns by (auto split: if_splits)
  show ?thesis using A B C by blast
qed

lemma exDetector_pairs: "marketPairs exDetector = [(''yes-1'', exPair), (''no-1'', exPair)]"
  by (simp add: exDetector_def setMarketPairs_def exPair_def)

lemma exBuy_simps:
  "marketPairs exBuy = [(''yes-1'', exPair), (''no-1'', exPair)]"
  "config exBuy = exConfig"
  "tokenPrices exBuy ''yes-1'' = Some \<lparr> bestAsk = Some (Fin 0.25), bestAskSize = Some (Fin 100), bestBid = None, bestBidSize = None, lastUpdate = 1 \<rparr>"
  "tokenPrices exBuy ''no-1'' = Some \<lparr> bestAsk = Some (Fin 0.5), bestAskSize = Some (Fin 100), bestBid = None, bestBidSize = None, lastUpdate = 1 \<rparr>"
  by (simp_all add: exBuy_def updateFromWebSocket_def storeUpdate_def mergeRecord_def askUpdate_def
        exDetector_pairs Let_def, simp_all add: exDetector_def setMarketPairs_def)

text \<open>
  Asks 0.25 and 0.5, sizes 100 and 100, a threshold of 1/128 and enough liquidity give a
  BUY_BOTH opportunity with total cost 0.75, profit 0.25 and 100 shares.
\<close>

theorem buy_both_witness:
  "map_of (marketPairs exBuy) ''yes-1'' = Some exPair
   \<and> cachedAsk (tokenPrices exBuy) (yesTokenId exPair) = Some (Fin 0.25)
   \<and> cachedAsk (tokenPrices exBuy) (noTokenId exPair) = Some (Fin 0.5)
   \<and> jgt (Fin 0.25) (Fin 0) \<and> jgt (Fin 0.5) (Fin 0)
   \<and> (\<exists>opp. checkAllArbitrageTypes exBuy 2 ''yes-1'' = Some opp \<and> oppType opp = BUY_BOTH
         \<and> totalCost opp = Fin 0.75 \<and> profit opp = Fin 0.25 \<and> maxShares opp = Fin 100)"
proof -
  have reg: "map_of (marketPairs exBuy) ''yes-1'' = Some exPair"
    by (simp add: exBuy_simps)
  have ya: "cachedAsk (tokenPrices exBuy) (yesTokenId exPair) = Some (Fin 0.25)"
    by (simp add: cachedAsk_def exBuy_simps exPair_def)
  have na: "cachedAsk (tokenPrices exBuy) (noTokenId exPair) = Some (Fin 0.5)"
    by (simp add: cachedAsk_def exBuy_simps exPair_def)
  have ys: "nullishOr (cachedAskSize (tokenPrices exBuy) (yesTokenId exPair)) (Fin 0) = Fin 100"
    by (simp add: cachedAskSize_def exBuy_simps exPair_def)
  have ns: "nullishOr (cachedAskSize (tokenPrices exBuy) (noTokenId exPair)) (Fin 0) = Fin 100"
    by (simp add: cachedAskSize_def exBuy_simps exPair_def)
  have ypos: "jgt (Fin 0.25) (Fin 0)" and npos: "jgt (Fin 0.5) (Fin 0)"
    by (simp_all add: jgt_def)
  have gates: "\<not> isNaN (Fin 100) \<and> \<not> isNaN (liquidityNum (market exPair))
       \<and> \<not> isNaN (minProfit (config exBuy)) \<and> \<not> isNaN (minLiquidity (config exBuy))
       \<and> jge (jsub (Fin 1) (jadd (Fin 0.25) (Fin 0.5))) (minProfit (config exBuy))
       \<and> jgt (jmin (Fin 100) (Fin 100)) (Fin 0)
       \<and> jge (liquidityNum (market exPair)) (minLiquidity (config exBuy))"
    by (simp add: exBuy_simps exConfig_def exPair_def exMarket_def jsub_def jge_def jgt_def jle_def
          jeq_def jmin_def round64_eval)
  note th = buy_both_characterization[OF reg ya na ypos npos ys[symmetric] ns[symmetric], of 2]
  from th gates obtain opp where
    opp: "checkAllArbitrageTypes exBuy 2 ''yes-1'' = Some opp \<and> oppType opp = BUY_BOTH"
    by blast
  with th have "totalCost opp = jadd (Fin 0.25) (Fin 0.5)
       \<and> profit opp = jsub (Fin 1) (totalCost opp) \<and> maxShares opp = jmin (Fin 100) (Fin 100)"
    by blast
  then have "totalCost opp = Fin 0.75 \<and> profit opp = Fin 0.25 \<and> maxShares opp = Fin 100"
    by (simp add: jsub_def jmin_def round64_eval)
  with opp reg ya na ypos npos show ?thesis by blast
qed

text \<open>
  With a best-ask size of NaN on the YES token \<open>Math.min\<close> is NaN, the test
  \<open>maxShares <= 0\<close> is false, and a BUY_BOTH opportunity with \<open>maxShares = NaN\<close> is
  returned although \<open>min(yesAskSize, noAskSize) > 0\<close> does not hold.
\<close>

theorem buy_both_nan_size_counterexample:
  "map_option oppType (checkAllArbitrageTypes exBuyNaN 2 ''yes-1'') = Some BUY_BOTH
   \<and> map_option maxShares (checkAllArbitrageTypes exBuyNaN 2 ''yes-1'') = Some NaN
   \<and> cachedAsk (tokenPrices exBuyNaN) ''yes-1'' = Some (Fin 0.25)
   \<and> cachedAsk (tokenPrices exBuyNaN) ''no-1'' = Some (Fin 0.25)
   \<and> cachedAskSize (tokenPrices exBuyNaN) ''yes-1'' = Some NaN
   \<and> cachedAskSize (tokenPrices exBuyNaN) ''no-1'' = Some (Fin 100)
   \<and> \<not> jgt (jmin NaN (Fin 100)) (Fin 0)"
  by (simp add: exBuyNaN_def updateFromWebSocket_def storeUpdate_def mergeRecord_def askUpdate_def
        exDetector_pairs Let_def checkAllArbitrageTypes_def checkBuyBothArbitrage_def
        cachedAsk_def cachedAskSize_def exPair_def exMarket_def jsub_def jmin_def jle_def jeq_def jgt_def round64_eval,
      simp add: exDetector_def setMarketPairs_def exConfig_def)

text \<open>
  The arithmetic is that of the code. With asks read from the decimal strings 0.31 and
  0.685 and a threshold of 0.005, the real number \<open>1 - (0.31 + 0.685)\<close> is the
  threshold itself, but the sum is rounded to 0.9950000000000001 and the profit to
  0.004999999999999893, which is below the threshold: nothing is returned.
\<close>

lemma buy_both_decimal_threshold:
  "cachedAsk (tokenPrices exDecimalBuy) ''yes-1'' = Some (num (31/100))
   \<and> cachedAsk (tokenPrices exDecimalBuy) ''no-1'' = Some (num (685/1000))
   \<and> minProfit (config exDecimalBuy) = num (5/1000)
   \<and> jadd (num (31/100)) (num (685/1000)) = Fin (1120270407308411 / 2 ^ 50)
   \<and> jsub (Fin 1) (jadd (num (31/100)) (num (685/1000))) = Fin (5629499534213 / 2 ^ 50)
   \<and> jlt (jsub (Fin 1) (jadd (num (31/100)) (num (685/1000)))) (num (5/1000))
   \<and> checkAllArbitrageTypes exDecimalBuy 2 ''yes-1'' = None"
proof -
  have n: "num (31/100) = Fin (5584463537939415 / 2 ^ 54)"
    "num (685/1000) = Fin (1542482872374395 / 2 ^ 51)"
    "num (5/1000) = Fin (5764607523034235 / 2 ^ 60)"
    by (simp_all add: round64_eval)
  have sum: "jadd (num (31/100)) (num (685/1000)) = Fin (1120270407308411 / 2 ^ 50)"
    unfolding n by (simp add: round64_eval)
  have diff: "jsub (Fin 1) (Fin (1120270407308411 / 2 ^ 50)) = Fin (5629499534213 / 2 ^ 50)"
    by (simp add: jsub_def round64_eval)
  have lt: "jlt (Fin (5629499534213 / 2 ^ 50)) (num (5/1000))"
    unfolding n by simp
  have st: "marketPairs exDecimalBuy = [(''yes-1'', exPair), (''no-1'', exPair)]"
    "config exDecimalBuy = exDecimalConfig"
    "cachedAsk (tokenPrices exDecimalBuy) ''yes-1'' = Some (num (31/100))"
    "cachedAsk (tokenPrices exDecimalBuy) ''no-1'' = Some (num (685/1000))"
    "cachedBid (tokenPrices exDecimalBuy) ''yes-1'' = None"
    by (simp_all add: exDecimalBuy_def exDecimalDetector_def setMarketPairs_def exPair_def
          updateFromWebSocket_def storeUpdate_def mergeRecord_def askUpdate_def Let_def
          cachedAsk_def cachedBid_def)
  have reg: "map_of (marketPairs exDecimalBuy) ''yes-1'' = Some exPair"
    by (simp add: st)
  have ya: "cachedAsk (tokenPrices exDecimalBuy) (yesTokenId exPair) = Some (num (31/100))"
    and na: "cachedAsk (tokenPrices exDecimalBuy) (noTokenId exPair) = Some (num (685/1000))"
    by (simp_all add: st exPair_def)
  have pos: "truthyNum (num (31/100))" "truthyNum (num (685/1000))"
    unfolding n by simp_all
  have buy: "checkBuyBothArbitrage exDecimalBuy 2 ''yes-1'' = None"
    unfolding buyBoth_unfold[OF reg ya na pos] sum diff st exDecimalConfig_def
    using lt by simp
  have sell: "checkSellBothArbitrage exDecimalBuy 2 ''yes-1'' = None"
    by (simp add: checkSellBothArbitrage_def st exPair_def)
  show ?thesis
    using sum diff lt buy sell
    by (simp add: st exDecimalConfig_def checkAllArbitrageTypes_def)
qed

subsection \<open>C5: the SELL_BOTH gate and the precedence of BUY_BOTH\<close>

text \<open>
  C5. For a registered market whose YES and NO tokens both have a cached best bid above
  zero: when the two best-bid sizes (a missing size counting as 0), the market's liquidity
  and the two thresholds are not NaN, an evaluation returns a SELL_BOTH opportunity
  exactly when \<open>(yesBid + noBid) - 1.0 \<ge> minProfit\<close>, \<open>min(yesBidSize, noBidSize) > 0\<close>,
  \<open>liquidity \<ge> minLiquidity\<close>, and the BUY_BOTH check, which runs first, found nothing;
  the sum and the difference are the binary64 results that the code computes. Every
  SELL_BOTH opportunity returned has \<open>profit = (yesBid + noBid) - 1.0\<close>,
  \<open>totalCost = 1.0\<close> and \<open>profitPercent = profit\<close>, not divided by the sum of the bids,
  and is returned only when the BUY_BOTH check found nothing.
\<close>

theorem sell_both_characterization:
  assumes reg: "map_of (marketPairs d) tok = Some pair"
    and yb: "cachedBid (tokenPrices d) (yesTokenId pair) = Some yesBid"
    and nb: "cachedBid (tokenPrices d) (noTokenId pair) = Some noBid"
    and ypos: "jgt yesBid (Fin 0)" and npos: "jgt noBid (Fin 0)"
    and ys: "yesSize = nullishOr (cachedBidSize (tokenPrices d) (yesTokenId pair)) (Fin 0)"
    and ns: "noSize = nullishOr (cachedBidSize (tokenPrices d) (noTokenId pair)) (Fin 0)"
  shows "(\<not> isNaN yesSize \<and> \<not> isNaN noSize \<and> \<not> isNaN (liquidityNum (market pair))
            \<and> \<not> isNaN (minProfit (config d)) \<and> \<not> isNaN (minLiquidity (config d))
          \<longrightarrow> ((\<exists>opp. checkAllArbitrageTypes d now tok = Some opp \<and> oppType opp = SELL_BOTH)
                 \<longleftrightarrow> jge (jsub (jadd yesBid noBid) (Fin 1)) (minProfit (config d))
                     \<and> jgt (jmin yesSize noSize) (Fin 0)
                     \<and> jge (liquidityNum (market pair)) (minLiquidity (config d))
                     \<and> checkBuyBothArbitrage d now tok = None))
       \<and> (\<forall>opp. checkAllArbitrageTypes d now tok = Some opp \<and> oppType opp = SELL_BOTH
            \<longrightarrow> checkBuyBothArbitrage d now tok = None
                \<and> profit opp = jsub (jadd yesBid noBid) (Fin 1)
                \<and> totalCost opp = Fin 1
                \<and> profitPercent opp = profit opp
                \<and> maxShares opp = jmin yesSize noSize)"
proof -
  note unf = sellBoth_unfold[OF reg yb nb pos_truthy[OF ypos] pos_truthy[OF npos], of now]
  have A: "(\<exists>opp. checkAllArbitrageTypes d now tok = Some opp \<and> oppType opp = SELL_BOTH)
            \<longleftrightarrow> \<not> jlt (jsub (jadd yesBid noBid) (Fin 1)) (minProfit (config d))
                \<and> \<not> jle (jmin yesSize noSize) (Fin 0)
                \<and> \<not> jlt (liquidityNum (market pair)) (minLiquidity (config d))
                \<and> checkBuyBothArbitrage d now tok = None"
    unfolding checkAll_sell_iff unf ys ns by auto
  have B: "jge (jsub (jadd yesBid noBid) (Fin 1)) (minProfit (config d))
                     \<and> jgt (jmin yesSize noSize) (Fin 0)
                     \<and> jge (liquidityNum (market pair)) (minLiquidity (config d))
          \<longleftrightarrow> \<not> jlt (jsub (jadd yesBid noBid) (Fin 1)) (minProfit (config d))
                \<and> \<not> jle (jmin yesSize noSize) (Fin 0)
                \<and> \<not> jlt (liquidityNum (market pair)) (minLiquidity (config d))"
    if "\<not> isNaN yesSize" "\<not> isNaN noSize" "\<not> isNaN (liquidityNum (market pair))"
       "\<not> isNaN (minProfit (config d))" "\<not> isNaN (minLiquidity (config d))"
    using that isNaN_sell_profit[OF ypos npos]
    by (simp add: jge_iff_not_jlt jgt_iff_not_jle isNaN_jmin)
  have C: "checkBuyBothArbitrage d now tok = None
                \<and> profit opp = jsub (jadd yesBid noBid) (Fin 1)
                \<and> totalCost opp = Fin 1
                \<and> profitPercent opp = profit opp
                \<and> maxShares opp = jmin yesSize noSize"
    if "checkAllArbitrageTypes d now tok = Some opp \<and> oppType opp = SELL_BOTH" for opp
    using that unfolding checkAll_sell_iff unf ys ns by (auto split: if_splits)
  show ?thesis using A B C by blast
qed

lemma exSell_simps:
  "marketPairs exSell = [(''yes-1'', exPair), (''no-1'', exPair)]"
  "config exSell = exConfig"
  "tokenPrices exSell ''yes-1'' = Some \<lparr> bestAsk = None, bestAskSize = None, bestBid = Some (Fin 0.625), bestBidSize = Some (Fin 10), lastUpdate = 1 \<rparr>"
  "tokenPrices exSell ''no-1'' = Some \<lparr> bestAsk = None, bestAskSize = None, bestBid = Some (Fin 0.5), bestBidSize = Some (Fin 20), lastUpdate = 1 \<rparr>"
  by (simp_all add: exSell_def updateFromWebSocket_def storeUpdate_def mergeRecord_def bidUpdate_def
        exDetector_pairs Let_def, simp_all add: exDetector_def setMarketPairs_def)

text \<open>
  Bids 0.625 and 0.5 with sizes 10 and 20 and no asks: the BUY_BOTH check finds nothing
  and SELL_BOTH is returned with profit 0.125, reported as \<open>profitPercent\<close> unchanged.
\<close>

theorem sell_both_witness:
  "map_of (marketPairs exSell) ''no-1'' = Some exPair
   \<and> cachedBid (tokenPrices exSell) (yesTokenId exPair) = Some (Fin 0.625)
   \<and> cachedBid (tokenPrices exSell) (noTokenId exPair) = Some (Fin 0.5)
   \<and> jgt (Fin 0.625) (Fin 0) \<and> jgt (Fin 0.5) (Fin 0)
   \<and> checkBuyBothArbitrage exSell 2 ''no-1'' = None
   \<and> (\<exists>opp. checkAllArbitrageTypes exSell 2 ''no-1'' = Some opp \<and> oppType opp = SELL_BOTH
         \<and> profit opp = Fin 0.125 \<and> totalCost opp = Fin 1 \<and> profitPercent opp = Fin 0.125
         \<and> maxShares opp = Fin 10)"
proof -
  have reg: "map_of (marketPairs exSell) ''no-1'' = Some exPair"
    by (simp add: exSell_simps)
  have yb: "cachedBid (tokenPrices exSell) (yesTokenId exPair) = Some (Fin 0.625)"
    by (simp add: cachedBid_def exSell_simps exPair_def)
  have nb: "cachedBid (tokenPrices exSell) (noTokenId exPair) = Some (Fin 0.5)"
    by (simp add: cachedBid_def exSell_simps exPair_def)
  have ys: "nullishOr (cachedBidSize (tokenPrices exSell) (yesTokenId exPair)) (Fin 0) = Fin 10"
    by (simp add: cachedBidSize_def exSell_simps exPair_def)
  have ns: "nullishOr (cachedBidSize (tokenPrices exSell) (noTokenId exPair)) (Fin 0) = Fin 20"
    by (simp add: cachedBidSize_def exSell_simps exPair_def)
  have ypos: "jgt (Fin 0.625) (Fin 0)" and npos: "jgt (Fin 0.5) (Fin 0)"
    by (simp_all add: jgt_def)
  have nobuy: "checkBuyBothArbitrage exSell 2 ''no-1'' = None"
    by (simp add: checkBuyBothArbitrage_def exSell_simps exPair_def cachedAsk_def)
  have gates: "\<not> isNaN (Fin 10) \<and> \<not> isNaN (Fin 20) \<and> \<not> isNaN (liquidityNum (market exPair))
       \<and> \<not> isNaN (minProfit (config exSell)) \<and> \<not> isNaN (minLiquidity (config exSell))
       \<and> jge (jsub (jadd (Fin 0.625) (Fin 0.5)) (Fin 1)) (minProfit (config exSell))
       \<and> jgt (jmin (Fin 10) (Fin 20)) (Fin 0)
       \<and> jge (liquidityNum (market exPair)) (minLiquidity (config exSell))"
    by (simp add: exSell_simps exConfig_def exPair_def exMarket_def jsub_def jge_def jgt_def jle_def
          jeq_def jmin_def round64_eval)
  note th = sell_both_characterization[OF reg yb nb ypos npos ys[symmetric] ns[symmetric], of 2]
  from th gates nobuy obtain opp where
    opp: "checkAllArbitrageTypes exSell 2 ''no-1'' = Some opp \<and> oppType opp = SELL_BOTH"
    by blast
  with th have "profit opp = jsub (jadd (Fin 0.625) (Fin 0.5)) (Fin 1) \<and> totalCost opp = Fin 1
       \<and> profitPercent opp = profit opp \<and> maxShares opp = jmin (Fin 10) (Fin 20)"
    by blast
  then have "profit opp = Fin 0.125 \<and> totalCost opp = Fin 1 \<and> profitPercent opp = Fin 0.125
       \<and> maxShares opp = Fin 10"
    by (simp add: jsub_def jmin_def round64_eval)
  with opp reg yb nb ypos npos nobuy show ?thesis by blast
qed

text \<open>
  With a best-bid size of NaN on the YES token the test \<open>maxShares <= 0\<close> is false and a
  SELL_BOTH opportunity with \<open>maxShares = NaN\<close> is returned although
  \<open>min(yesBidSize, noBidSize) > 0\<close> does not hold.
\<close>

theorem sell_both_nan_size_counterexample:
  "map_option oppType (checkAllArbitrageTypes exSellNaN 2 ''yes-1'') = Some SELL_BOTH
   \<and> map_option maxShares (checkAllArbitrageTypes exSellNaN 2 ''yes-1'') = Some NaN
   \<and> cachedBid (tokenPrices exSellNaN) ''yes-1'' = Some (Fin 0.75)
   \<and> cachedBid (tokenPrices exSellNaN) ''no-1'' = Some (Fin 0.75)
   \<and> cachedBidSize (tokenPrices exSellNaN) ''yes-1'' = Some NaN
   \<and> cachedBidSize (tokenPrices exSellNaN) ''no-1'' = Some (Fin 100)
   \<and> \<not> jgt (jmin NaN (Fin 100)) (Fin 0)"
  by (simp add: exSellNaN_def updateFromWebSocket_def storeUpdate_def mergeRecord_def bidUpdate_def
        exDetector_pairs Let_def checkAllArbitrageTypes_def checkBuyBothArbitrage_def checkSellBothArbitrage_def
        cachedAsk_def cachedBid_def cachedBidSize_def exPair_def exMarket_def jsub_def jmin_def jle_def jeq_def jgt_def round64_eval,
      simp add: exDetector_def setMarketPairs_def exConfig_def)

text \<open>
  With bids read from the decimal strings 0.4 and 0.605 and a threshold of 0.005, the
  real number \<open>(0.4 + 0.605) - 1\<close> is the threshold itself, but the code computes
  0.004999999999999893, which is below the threshold: nothing is returned.
\<close>

lemma sell_both_decimal_threshold:
  "cachedBid (tokenPrices exDecimalSell) ''yes-1'' = Some (num (4/10))
   \<and> cachedBid (tokenPrices exDecimalSell) ''no-1'' = Some (num (605/1000))
   \<and> minProfit (config exDecimalSell) = num (5/1000)
   \<and> jadd (num (4/10)) (num (605/1000)) = Fin (1131529406376837 / 2 ^ 50)
   \<and> jsub (jadd (num (4/10)) (num (605/1000))) (Fin 1) = Fin (5629499534213 / 2 ^ 50)
   \<and> jlt (jsub (jadd (num (4/10)) (num (605/1000))) (Fin 1)) (num (5/1000))
   \<and> checkAllArbitrageTypes exDecimalSell 2 ''yes-1'' = None"
proof -
  have n: "num (4/10) = Fin (3602879701896397 / 2 ^ 53)"
    "num (605/1000) = Fin (1362338887279575 / 2 ^ 51)"
    "num (5/1000) = Fin (5764607523034235 / 2 ^ 60)"
    by (simp_all add: round64_eval)
  have sum: "jadd (num (4/10)) (num (605/1000)) = Fin (1131529406376837 / 2 ^ 50)"
    unfolding n by (simp add: round64_eval)
  have diff: "jsub (Fin (1131529406376837 / 2 ^ 50)) (Fin 1) = Fin (5629499534213 / 2 ^ 50)"
    by (simp add: jsub_def round64_eval)
  have lt: "jlt (Fin (5629499534213 / 2 ^ 50)) (num (5/1000))"
    unfolding n by simp
  have st: "marketPairs exDecimalSell = [(''yes-1'', exPair), (''no-1'', exPair)]"
    "config exDecimalSell = exDecimalConfig"
    "cachedBid (tokenPrices exDecimalSell) ''yes-1'' = Some (num (4/10))"
    "cachedBid (tokenPrices exDecimalSell) ''no-1'' = Some (num (605/1000))"
    "cachedAsk (tokenPrices exDecimalSell) ''yes-1'' = None"
    by (simp_all add: exDecimalSell_def exDecimalDetector_def setMarketPairs_def exPair_def
          updateFromWebSocket_def storeUpdate_def mergeRecord_def bidUpdate_def Let_def
          cachedAsk_def cachedBid_def)
  have reg: "map_of (marketPairs exDecimalSell) ''yes-1'' = Some exPair"
    by (simp add: st)
  have yb: "cachedBid (tokenPrices exDecimalSell) (yesTokenId exPair) = Some (num (4/10))"
    and nb: "cachedBid (tokenPrices exDecimalSell) (noTokenId exPair) = Some (num (605/1000))"
    by (simp_all add: st exPair_def)
  have pos: "truthyNum (num (4/10))" "truthyNum (num (605/1000))"
    unfolding n by simp_all
  have sell: "checkSellBothArbitrage exDecimalSell 2 ''yes-1'' = None"
    unfolding sellBoth_unfold[OF reg yb nb pos] sum diff st exDecimalConfig_def
    using lt by simp
  have buy: "checkBuyBothArbitrage exDecimalSell 2 ''yes-1'' = None"
    by (simp add: checkBuyBothArbitrage_def st exPair_def)
  show ?thesis
    using sum diff lt buy sell
    by (simp add: st exDecimalConfig_def checkAllArbitrageTypes_def)
qed

subsection \<open>C10: a price of zero counts as missing\<close>

text \<open>
  C10. For a registered market, if the cached best ask of the YES or of the NO token is
  exactly 0, the BUY_BOTH check returns nothing, so an evaluation can only return
  SELL_BOTH; if the cached best bid of either token is exactly 0, the SELL_BOTH check
  returns nothing, so an evaluation can only return BUY_BOTH.
\<close>

theorem zero_price_is_missing:
  assumes reg: "map_of (marketPairs d) tok = Some pair"
  shows "(cachedAsk (tokenPrices d) (yesTokenId pair) = Some (Fin 0)
            \<or> cachedAsk (tokenPrices d) (noTokenId pair) = Some (Fin 0)
          \<longrightarrow> checkBuyBothArbitrage d now tok = None
              \<and> (\<forall>opp. checkAllArbitrageTypes d now tok = Some opp \<longrightarrow> oppType opp = SELL_BOTH))
       \<and> (cachedBid (tokenPrices d) (yesTokenId pair) = Some (Fin 0)
            \<or> cachedBid (tokenPrices d) (noTokenId pair) = Some (Fin 0)
          \<longrightarrow> checkSellBothArbitrage d now tok = None
              \<and> (\<forall>opp. checkAllArbitrageTypes d now tok = Some opp \<longrightarrow> oppType opp = BUY_BOTH))"
proof -
  have buy: "checkBuyBothArbitrage d now tok = None"
    if "cachedAsk (tokenPrices d) (yesTokenId pair) = Some (Fin 0)
          \<or> cachedAsk (tokenPrices d) (noTokenId pair) = Some (Fin 0)"
    using that reg by (auto simp: checkBuyBothArbitrage_def)
  have sell: "checkSellBothArbitrage d now tok = None"
    if "cachedBid (tokenPrices d) (yesTokenId pair) = Some (Fin 0)
          \<or> cachedBid (tokenPrices d) (noTokenId pair) = Some (Fin 0)"
    using that reg by (auto simp: checkSellBothArbitrage_def)
  have t1: "oppType opp = SELL_BOTH"
    if "checkBuyBothArbitrage d now tok = None" "checkAllArbitrageTypes d now tok = Some opp" for opp
    using that by (auto simp: checkAllArbitrageTypes_def split: option.splits dest: sellBoth_type)
  have t2: "oppType opp = BUY_BOTH"
    if "checkSellBothArbitrage d now tok = None" "checkAllArbitrageTypes d now tok = Some opp" for opp
    using that by (auto simp: checkAllArbitrageTypes_def split: option.splits dest: buyBoth_type)
  show ?thesis using buy sell t1 t2 by blast
qed

lemma exZero_simps:
  "marketPairs exZero = [(''yes-1'', exPair), (''no-1'', exPair)]"
  "tokenPrices exZero ''yes-1'' = Some \<lparr> bestAsk = Some (Fin 0), bestAskSize = Some (Fin 100), bestBid = Some (Fin 0), bestBidSize = Some (Fin 100), lastUpdate = 1 \<rparr>"
  "tokenPrices exZero ''no-1'' = Some \<lparr> bestAsk = Some (Fin 0.25), bestAskSize = Some (Fin 100), bestBid = Some (Fin 1.25), bestBidSize = Some (Fin 100), lastUpdate = 1 \<rparr>"
  by (simp_all add: exZero_def updateFromWebSocket_def storeUpdate_def mergeRecord_def
        exDetector_pairs Let_def)

text \<open>
  YES ask 0 with NO ask 0.25 (sum below 1) and YES bid 0 with NO bid 1.25 (sum above 1):
  neither check returns an opportunity.
\<close>

theorem zero_price_witness:
  "map_of (marketPairs exZero) ''no-1'' = Some exPair
   \<and> cachedAsk (tokenPrices exZero) (yesTokenId exPair) = Some (Fin 0)
   \<and> cachedAsk (tokenPrices exZero) (noTokenId exPair) = Some (Fin 0.25)
   \<and> cachedBid (tokenPrices exZero) (yesTokenId exPair) = Some (Fin 0)
   \<and> cachedBid (tokenPrices exZero) (noTokenId exPair) = Some (Fin 1.25)
   \<and> checkBuyBothArbitrage exZero 2 ''no-1'' = None
   \<and> checkSellBothArbitrage exZero 2 ''no-1'' = None
   \<and> checkAllArbitrageTypes exZero 2 ''no-1'' = None"
proof -
  have reg: "map_of (marketPairs exZero) ''no-1'' = Some exPair"
    by (simp add: exZero_simps)
  have ya: "cachedAsk (tokenPrices exZero) (yesTokenId exPair) = Some (Fin 0)"
    and na: "cachedAsk (tokenPrices exZero) (noTokenId exPair) = Some (Fin 0.25)"
    and yb: "cachedBid (tokenPrices exZero) (yesTokenId exPair) = Some (Fin 0)"
    and nb: "cachedBid (tokenPrices exZero) (noTokenId exPair) = Some (Fin 1.25)"
    by (simp_all add: cachedAsk_def cachedBid_def exZero_simps exPair_def)
  from zero_price_is_missing[OF reg, of 2] ya yb
  have "checkBuyBothArbitrage exZero 2 ''no-1'' = None"
    and "checkSellBothArbitrage exZero 2 ''no-1'' = None"
    by blast+
  then have "checkAllArbitrageTypes exZero 2 ''no-1'' = None"
    by (simp add: checkAllArbitrageTypes_def)
  with reg ya na yb nb \<open>checkBuyBothArbitrage exZero 2 ''no-1'' = None\<close>
    \<open>checkSellBothArbitrage exZero 2 ''no-1'' = None\<close>
  show ?thesis by blast
qed

subsection \<open>C3: how the two ingestion paths write the price cache\<close>

lemma nullish_idem: "nullish a (nullish a b) = nullish a b"
  by (cases a) simp_all

lemma mergeRecord_idem: "mergeRecord (Some (mergeRecord e u)) u = mergeRecord e u"
  by (simp add: mergeRecord_def nullish_idem)

lemma storeUpdate_idem: "storeUpdate (storeUpdate tp u) u = storeUpdate tp u"
  by (simp add: storeUpdate_def mergeRecord_idem)

lemma storeBook_idem: "storeBook (storeBook tp tok book now) tok book now = storeBook tp tok book now"
  by (simp add: storeBook_def)

text \<open>
  C3. The streaming path (\<open>updateFromWebSocket\<close>) merges: each of the four fields of the
  token's new record is the update's value when the update supplies one and the stored
  value otherwise, so an update carrying only a best-ask price keeps the stored best-ask
  size; other tokens are untouched. The snapshot path (\<open>updateFromOrderBook\<close>) does not
  merge: it replaces the token's record by the best ask and best bid of the book, a side
  the book lacks becoming null whatever was stored. Both are idempotent: the same update
  applied twice (for a snapshot, at the same clock reading) leaves the detector as
  applying it once does.
\<close>

theorem price_cache_merge:
  fixes d :: ArbitrageDetector
  shows "(let tp = tokenPrices d; tp' = tokenPrices (fst (updateFromWebSocket d now u)); t = tokenId u
          in cachedAsk tp' t = nullish (bestAsk_u u) (cachedAsk tp t)
           \<and> cachedAskSize tp' t = nullish (bestAskSize_u u) (cachedAskSize tp t)
           \<and> cachedBid tp' t = nullish (bestBid_u u) (cachedBid tp t)
           \<and> cachedBidSize tp' t = nullish (bestBidSize_u u) (cachedBidSize tp t)
           \<and> (bestAskSize_u u = None \<longrightarrow> cachedAskSize tp' t = cachedAskSize tp t)
           \<and> (\<forall>t'. t' \<noteq> t \<longrightarrow> tp' t' = tp t'))
       \<and> fst (updateFromWebSocket (fst (updateFromWebSocket d now u)) now' u)
            = fst (updateFromWebSocket d now u)
       \<and> (let tp' = tokenPrices (fst (updateFromOrderBook d now tok book))
          in cachedAsk tp' tok = map_option price (getBestAsk book)
           \<and> cachedAskSize tp' tok = map_option size_l (getBestAsk book)
           \<and> cachedBid tp' tok = map_option price (getBestBid book)
           \<and> cachedBidSize tp' tok = map_option size_l (getBestBid book)
           \<and> (\<forall>t'. t' \<noteq> tok \<longrightarrow> tp' t' = tokenPrices d t'))
       \<and> fst (updateFromOrderBook (fst (updateFromOrderBook d now tok book)) now tok book)
            = fst (updateFromOrderBook d now tok book)"
  by (simp add: Let_def updateFromWebSocket_def updateFromOrderBook_def storeUpdate_def storeBook_def
        nullish_idem bookRecord_def cachedAsk_def cachedAskSize_def cachedBid_def cachedBidSize_def
        mergeRecord_def)

text \<open>
  A streamed update with a new ask price and no size, after an ask of 0.25 with size 100: the
  price changes, the size stays.
\<close>

theorem price_cache_merge_witness:
  "bestAskSize_u priceOnlyUpdate = None
   \<and> cachedAskSize (tokenPrices exBuy) ''yes-1'' = Some (Fin 100)
   \<and> cachedAsk (tokenPrices (fst (updateFromWebSocket exBuy 2 priceOnlyUpdate))) ''yes-1'' = Some (Fin 0.375)
   \<and> cachedAskSize (tokenPrices (fst (updateFromWebSocket exBuy 2 priceOnlyUpdate))) ''yes-1'' = Some (Fin 100)
   \<and> tokenPrices (fst (updateFromWebSocket exBuy 2 priceOnlyUpdate)) ''no-1'' = tokenPrices exBuy ''no-1''"
proof -
  have t: "tokenId priceOnlyUpdate = ''yes-1''" and a: "bestAsk_u priceOnlyUpdate = Some (Fin 0.375)"
    and sz: "bestAskSize_u priceOnlyUpdate = None"
    by (simp_all add: priceOnlyUpdate_def)
  have old: "cachedAskSize (tokenPrices exBuy) ''yes-1'' = Some (Fin 100)"
    by (simp add: cachedAskSize_def exBuy_simps)
  have ne: "''no-1'' \<noteq> ''yes-1''" by simp
  from price_cache_merge[of exBuy 2 priceOnlyUpdate] sz old ne
  show ?thesis by (simp add: Let_def t a)
qed

text \<open>
  A stored best bid of 0.625 with size 10, then a snapshot whose book has asks but no bids:
  the snapshot path leaves bid and bid size null, where the streaming path with the same
  ask keeps them.
\<close>

theorem snapshot_replaces_counterexample:
  "cachedBid (tokenPrices exSell) ''yes-1'' = Some (Fin 0.625)
   \<and> cachedBidSize (tokenPrices exSell) ''yes-1'' = Some (Fin 10)
   \<and> cachedBid (tokenPrices (fst (updateFromOrderBook exSell 2 ''yes-1'' askOnlyBook))) ''yes-1'' = None
   \<and> cachedBidSize (tokenPrices (fst (updateFromOrderBook exSell 2 ''yes-1'' askOnlyBook))) ''yes-1'' = None
   \<and> cachedAsk (tokenPrices (fst (updateFromOrderBook exSell 2 ''yes-1'' askOnlyBook))) ''yes-1'' = Some (Fin 0.25)
   \<and> cachedBid (tokenPrices (fst (updateFromWebSocket exSell 2 (askUpdate ''yes-1'' (Fin 0.25) (Fin 100))))) ''yes-1''
       = Some (Fin 0.625)"
  by (simp add: cachedBid_def cachedBidSize_def cachedAsk_def exSell_simps updateFromOrderBook_def
        updateFromWebSocket_def storeBook_def storeUpdate_def mergeRecord_def bookRecord_def
        getBestAsk_def getBestBid_def askOnlyBook_def askUpdate_def Let_def)

subsection \<open>The cross-market example states and one pair evaluation, unfolded\<close>

lemma exRegistered_simps:
  "marketInfos exRegistered =
     [(''bitcoin-up-or-down-december-23-10pm-et'', exInfo exLongPair I1h 0 None),
      (''btc-updown-15m-2700'', exInfo exShortPair I15m 2700 None)]"
  "refPriceCache exRegistered = Map.empty"
  "tokenPrices_x exRegistered = Map.empty"
  "minProfit_x exRegistered = Fin (1/1024)"
  "pricesLoaded exRegistered = False"
  by (simp_all add: exRegistered_def setMarketPairs_x_def newCrossMarketDetector_def Let_def
        newMarketInfo_def exParse_def exLongPair_def exShortPair_def exLongMarket_def exShortMarket_def
        exInfo_def)

lemma exLoaded_simps:
  "marketInfos (loadReferencePrices (exFetch lr sr) False exRegistered) =
     [(''bitcoin-up-or-down-december-23-10pm-et'', exInfo exLongPair I1h 0 (Some lr)),
      (''btc-updown-15m-2700'', exInfo exShortPair I15m 2700 (Some sr))]"
  "tokenPrices_x (loadReferencePrices (exFetch lr sr) False exRegistered) = Map.empty"
  "minProfit_x (loadReferencePrices (exFetch lr sr) False exRegistered) = Fin (1/1024)"
  by (simp_all add: loadReferencePrices_def exRegistered_simps restoreFromCache_def Let_def
        exInfo_def exFetch_def deliverPrice_def)

lemma foldl_update_infos:
  "marketInfos (foldl (\<lambda>s u. fst (updateFromWebSocket_x s n u)) s0 us) = marketInfos s0"
  "minProfit_x (foldl (\<lambda>s u. fst (updateFromWebSocket_x s n u)) s0 us) = minProfit_x s0"
  "tokenPrices_x (foldl (\<lambda>s u. fst (updateFromWebSocket_x s n u)) s0 us) = foldl storeUpdate (tokenPrices_x s0) us"
  by (induction us arbitrary: s0) (simp_all add: updateFromWebSocket_x_def Let_def)

lemma exCrossWith_simps:
  "marketInfos (exCrossWith lr sr us) =
     [(''bitcoin-up-or-down-december-23-10pm-et'', exInfo exLongPair I1h 0 (Some lr)),
      (''btc-updown-15m-2700'', exInfo exShortPair I15m 2700 (Some sr))]"
  "minProfit_x (exCrossWith lr sr us) = Fin (1/1024)"
  "tokenPrices_x (exCrossWith lr sr us) = foldl storeUpdate Map.empty us"
  by (simp_all add: exCrossWith_def foldl_update_infos exLoaded_simps)

lemma intervalOrder_inj: "intervalOrder a = intervalOrder b \<Longrightarrow> a = b"
  by (cases a; cases b) simp_all

lemma longShort_sym: "interval a \<noteq> interval b \<Longrightarrow> longShort a b = longShort b a"
  using intervalOrder_inj[of "interval a" "interval b"]
  by (auto simp: longShort_def)

lemma checkPair_unfold:
  assumes ls: "longShort info1 info2 = (L, S)"
    and lr: "referencePrice L = Some lr" and sr: "referencePrice S = Some sr"
    and tl: "truthyNum lr" and ts: "truthyNum sr"
  shows "checkPairForArbitrage s now info1 info2 =
     (let legs = chooseLegs (tokenPrices_x s) L S lr sr;
          mp = (if jeq lr sr then jneg (legCost legs) else jsub (Fin 2) (legCost legs))
      in if \<not> hasBothPrices legs then None
         else if \<not> jeq lr sr \<and> jlt mp (minProfit_x s) then None
         else Some
           \<lparr> longMarket = market_i L, shortMarket = market_i S,
             longInterval = interval L, shortInterval = interval S,
             longUpTokenId = yesTokenId (pair_i L), longDownTokenId = noTokenId (pair_i L),
             shortUpTokenId = yesTokenId (pair_i S), shortDownTokenId = noTokenId (pair_i S),
             longRefPrice = lr, shortRefPrice = sr,
             profitZoneLow = zoneLow legs, profitZoneHigh = zoneHigh legs,
             strategy = legStrategy legs,
             longUpAsk = askOrZero (tokenPrices_x s) (yesTokenId (pair_i L)),
             longDownAsk = askOrZero (tokenPrices_x s) (noTokenId (pair_i L)),
             shortUpAsk = askOrZero (tokenPrices_x s) (yesTokenId (pair_i S)),
             shortDownAsk = askOrZero (tokenPrices_x s) (noTokenId (pair_i S)),
             entryCost = legCost legs, maxProfit = mp,
             profitZoneWidth = jsub (zoneHigh legs) (zoneLow legs),
             profitZonePercent = jmul (jdiv (jsub (zoneHigh legs) (zoneLow legs)) (jdiv (jadd lr sr) (Fin 2))) (Fin 100),
             maxShares_x = legShares legs,
             resolutionTime = resolutionTimestamp L * 1000,
             minutesUntilResolution =
               jdiv (jsub (Fin (real_of_int (resolutionTimestamp L * 1000))) (Fin (real_of_int now))) (Fin 60000),
             timestamp_x = now \<rparr>)"
  using assms by (simp add: checkPairForArbitrage_def Let_def)

lemma checkPair_Some_refs:
  assumes "checkPairForArbitrage s now info1 info2 = Some opp"
  obtains L S lr sr where "longShort info1 info2 = (L, S)"
    "referencePrice L = Some lr" "referencePrice S = Some sr" "truthyNum lr" "truthyNum sr"
proof -
  obtain L S where ls: "longShort info1 info2 = (L, S)" by (cases "longShort info1 info2")
  from assms ls have "truthy (referencePrice L)" "truthy (referencePrice S)"
    by (auto simp: checkPairForArbitrage_def Let_def split: if_splits)
  then obtain lr sr where "referencePrice L = Some lr" "referencePrice S = Some sr" "truthyNum lr" "truthyNum sr"
    by (cases "referencePrice L"; cases "referencePrice S") auto
  with ls that show ?thesis by blast
qed

lemma truthy_trichotomy: "truthyNum a \<Longrightarrow> truthyNum b \<Longrightarrow> jeq a b \<or> jgt a b \<or> jgt b a"
  by (cases a; cases b) (auto simp: jeq_def jgt_def)

lemma jgt_not_jeq: "jgt a b \<Longrightarrow> \<not> jeq a b"
  by (cases a; cases b) (auto simp: jeq_def jgt_def)

lemma jgt_asym: "jgt a b \<Longrightarrow> \<not> jgt b a"
  by (cases a; cases b) (auto simp: jgt_def)

subsection \<open>C9: a pair evaluates the same from either side\<close>

text \<open>
  C9. For two market infos with different interval classes,
  \<open>checkPairForArbitrage(a, b)\<close> and \<open>checkPairForArbitrage(b, a)\<close> designate the same
  long market, the one whose interval is larger in the order 1d > 4h > 1h > 30m > 15m,
  and return the same result (at the same clock reading); and \<open>b\<close> is a candidate when
  evaluating from \<open>a\<close> exactly when \<open>a\<close> is one when evaluating from \<open>b\<close>.
\<close>

theorem pair_symmetry:
  assumes "interval a \<noteq> interval b"
  shows "longShort a b = longShort b a
       \<and> fst (longShort a b) = (if intervalOrder (interval a) > intervalOrder (interval b) then a else b)
       \<and> intervalOrder (interval (fst (longShort a b))) > intervalOrder (interval (snd (longShort a b)))
       \<and> checkPairForArbitrage s now a b = checkPairForArbitrage s now b a
       \<and> isCandidate a b = isCandidate b a"
proof -
  have "isCandidate a b = isCandidate b a"
    by (auto simp: isCandidate_def abs_minus_commute)
  moreover have "fst (longShort a b) = (if intervalOrder (interval a) > intervalOrder (interval b) then a else b)"
    by (simp add: longShort_def)
  moreover have "intervalOrder (interval (fst (longShort a b))) > intervalOrder (interval (snd (longShort a b)))"
  proof -
    have "intervalOrder (interval a) \<noteq> intervalOrder (interval b)"
      using assms intervalOrder_inj by blast
    then show ?thesis by (auto simp: longShort_def)
  qed
  ultimately show ?thesis
    using longShort_sym[OF assms] by (simp add: checkPairForArbitrage_def)
qed

subsection \<open>C2: strategy and profit zone\<close>

text \<open>
  C2. Whenever a pair evaluation returns an opportunity, its two reference prices are
  those of the long and the short market and are equal or ordered one way or the other.
  If \<open>longRef > shortRef\<close> the strategy is LONG_DOWN_SHORT_UP (the entry cost is the
  long-DOWN ask plus the short-UP ask) and the zone is \<open>[shortRef, longRef]\<close>; if
  \<open>shortRef > longRef\<close> the strategy is LONG_UP_SHORT_DOWN (long-UP ask plus short-DOWN
  ask) and the zone is \<open>[longRef, shortRef]\<close>. In every case
  \<open>profitZoneWidth = profitZoneHigh - profitZoneLow\<close> and
  \<open>profitZonePercent = profitZoneWidth / ((longRef + shortRef) / 2) * 100\<close>.
\<close>

theorem zone_strategy:
  assumes ret: "checkPairForArbitrage s now info1 info2 = Some opp"
  shows "referencePrice (fst (longShort info1 info2)) = Some (longRefPrice opp)
       \<and> referencePrice (snd (longShort info1 info2)) = Some (shortRefPrice opp)
       \<and> (jeq (longRefPrice opp) (shortRefPrice opp) \<or> jgt (longRefPrice opp) (shortRefPrice opp)
            \<or> jgt (shortRefPrice opp) (longRefPrice opp))
       \<and> (jgt (longRefPrice opp) (shortRefPrice opp)
            \<longrightarrow> strategy opp = LONG_DOWN_SHORT_UP
              \<and> entryCost opp = jadd (longDownAsk opp) (shortUpAsk opp)
              \<and> profitZoneLow opp = shortRefPrice opp \<and> profitZoneHigh opp = longRefPrice opp)
       \<and> (jgt (shortRefPrice opp) (longRefPrice opp)
            \<longrightarrow> strategy opp = LONG_UP_SHORT_DOWN
              \<and> entryCost opp = jadd (longUpAsk opp) (shortDownAsk opp)
              \<and> profitZoneLow opp = longRefPrice opp \<and> profitZoneHigh opp = shortRefPrice opp)
       \<and> profitZoneWidth opp = jsub (profitZoneHigh opp) (profitZoneLow opp)
       \<and> profitZonePercent opp
            = jmul (jdiv (profitZoneWidth opp) (jdiv (jadd (longRefPrice opp) (shortRefPrice opp)) (Fin 2))) (Fin 100)"
proof -
  from ret obtain L S lr sr where ls: "longShort info1 info2 = (L, S)"
    and refs: "referencePrice L = Some lr" "referencePrice S = Some sr"
    and tr: "truthyNum lr" "truthyNum sr"
    by (rule checkPair_Some_refs)
  from ret[unfolded checkPair_unfold[OF ls refs tr]]
  have opp: "longRefPrice opp = lr" "shortRefPrice opp = sr"
    "strategy opp = legStrategy (chooseLegs (tokenPrices_x s) L S lr sr)"
    "profitZoneLow opp = zoneLow (chooseLegs (tokenPrices_x s) L S lr sr)"
    "profitZoneHigh opp = zoneHigh (chooseLegs (tokenPrices_x s) L S lr sr)"
    "entryCost opp = legCost (chooseLegs (tokenPrices_x s) L S lr sr)"
    "longUpAsk opp = askOrZero (tokenPrices_x s) (yesTokenId (pair_i L))"
    "longDownAsk opp = askOrZero (tokenPrices_x s) (noTokenId (pair_i L))"
    "shortUpAsk opp = askOrZero (tokenPrices_x s) (yesTokenId (pair_i S))"
    "shortDownAsk opp = askOrZero (tokenPrices_x s) (noTokenId (pair_i S))"
    "profitZoneWidth opp = jsub (profitZoneHigh opp) (profitZoneLow opp)"
    "profitZonePercent opp
       = jmul (jdiv (profitZoneWidth opp) (jdiv (jadd (longRefPrice opp) (shortRefPrice opp)) (Fin 2))) (Fin 100)"
    by (auto simp: Let_def split: if_splits)
  have down: "legStrategy (chooseLegs tp L S lr sr) = LONG_DOWN_SHORT_UP
      \<and> legCost (chooseLegs tp L S lr sr) = jadd (askOrZero tp (noTokenId (pair_i L))) (askOrZero tp (yesTokenId (pair_i S)))
      \<and> zoneLow (chooseLegs tp L S lr sr) = sr \<and> zoneHigh (chooseLegs tp L S lr sr) = lr"
    if "jgt lr sr" for tp
    using that jgt_not_jeq[OF that] by (simp add: chooseLegs_def Let_def)
  have up: "legStrategy (chooseLegs tp L S lr sr) = LONG_UP_SHORT_DOWN
      \<and> legCost (chooseLegs tp L S lr sr) = jadd (askOrZero tp (yesTokenId (pair_i L))) (askOrZero tp (noTokenId (pair_i S)))
      \<and> zoneLow (chooseLegs tp L S lr sr) = lr \<and> zoneHigh (chooseLegs tp L S lr sr) = sr"
    if "jgt sr lr" for tp
    using that jgt_not_jeq[OF that] jgt_asym[OF that] by (auto simp: chooseLegs_def Let_def jeq_def)
  show ?thesis
    using ls refs truthy_trichotomy[OF tr] down[of "tokenPrices_x s"] up[of "tokenPrices_x s"]
    by (simp add: opp)
qed

lemma exInfo_simps:
  "interval (exInfo p iv c r) = iv"
  "referencePrice (exInfo p iv c r) = r"
  "pair_i (exInfo p iv c r) = p"
  "market_i (exInfo p iv c r) = market p"
  "asset (exInfo p iv c r) = ''btc''"
  "resolutionTimestamp (exInfo p iv c r) = 3600"
  by (simp_all add: exInfo_def)

lemma exLongShort [simp]:
  "longShort (exInfo p1 I1h c1 r1) (exInfo p2 I15m c2 r2) = (exInfo p1 I1h c1 r1, exInfo p2 I15m c2 r2)"
  "longShort (exInfo p2 I15m c2 r2) (exInfo p1 I1h c1 r1) = (exInfo p1 I1h c1 r1, exInfo p2 I15m c2 r2)"
  by (simp_all add: longShort_def exInfo_simps)

lemma exTokens [simp]:
  "yesTokenId exLongPair = ''long-up''" "noTokenId exLongPair = ''long-down''"
  "yesTokenId exShortPair = ''short-up''" "noTokenId exShortPair = ''short-down''"
  by (simp_all add: exLongPair_def exShortPair_def)

lemma exAsks:
  "cachedAsk (storeUpdate (storeUpdate Map.empty (askUpdate t1 a1 z1)) (priceUpdate t2 a2)) t =
     (if t = t2 then Some a2 else if t = t1 then Some a1 else None)"
  "cachedAsk (storeUpdate (storeUpdate Map.empty (askUpdate t1 a1 z1)) (askUpdate t2 a2 z2)) t =
     (if t = t2 then Some a2 else if t = t1 then Some a1 else None)"
  "cachedAskSize (storeUpdate (storeUpdate Map.empty (askUpdate t1 a1 z1)) (priceUpdate t2 a2)) t =
     (if t = t2 then (if t1 = t2 then Some z1 else None) else if t = t1 then Some z1 else None)"
  "cachedAskSize (storeUpdate (storeUpdate Map.empty (askUpdate t1 a1 z1)) (askUpdate t2 a2 z2)) t =
     (if t = t2 then Some z2 else if t = t1 then Some z1 else None)"
  by (simp_all add: cachedAsk_def cachedAskSize_def storeUpdate_def mergeRecord_def askUpdate_def priceUpdate_def)

text \<open>
  The hourly and the 15-minute example markets: the hourly one is the long market from
  either side, and both orders give the opportunity with maximal profit 1.125.
\<close>

theorem pair_symmetry_witness:
  "interval (exShort (Fin 99500)) \<noteq> interval (exLong (Fin 100000))
   \<and> fst (longShort (exShort (Fin 99500)) (exLong (Fin 100000))) = exLong (Fin 100000)
   \<and> checkPairForArbitrage exCross 2 (exShort (Fin 99500)) (exLong (Fin 100000))
       = checkPairForArbitrage exCross 2 (exLong (Fin 100000)) (exShort (Fin 99500))
   \<and> map_option maxProfit (checkPairForArbitrage exCross 2 (exLong (Fin 100000)) (exShort (Fin 99500)))
       = Some (Fin 1.125)"
proof -
  have ne: "interval (exShort (Fin 99500)) \<noteq> interval (exLong (Fin 100000))"
    by (simp add: exInfo_simps)
  have ev: "map_option maxProfit (checkPairForArbitrage exCross 2 (exLong (Fin 100000)) (exShort (Fin 99500)))
       = Some (Fin 1.125)"
    by (simp add: checkPairForArbitrage_def exInfo_simps exCross_def exCrossWith_simps Let_def
          chooseLegs_def askOrZero_def exAsks jeq_def jgt_def jsub_def round64_eval)
  from pair_symmetry[OF ne, of exCross 2] ev show ?thesis
    by (simp add: exInfo_simps)
qed

lemma exEval:
  "tokenPrices_x (exCrossWith lr sr us) = foldl storeUpdate Map.empty us"
  "minProfit_x (exCrossWith lr sr us) = Fin (1/1024)"
  by (simp_all add: exCrossWith_simps)

text \<open>
  The scenario of the specification: references 100000 (long) and 99000 (short) give
  long-DOWN + short-UP on the zone [99000, 100000]; with the references exchanged the
  strategy flips to long-UP + short-DOWN on the same zone.
\<close>

theorem zone_strategy_witness:
  "(\<exists>opp. checkPairForArbitrage exCrossDown 2 (exShort (Fin 99000)) (exLong (Fin 100000)) = Some opp
        \<and> longRefPrice opp = Fin 100000 \<and> shortRefPrice opp = Fin 99000
        \<and> strategy opp = LONG_DOWN_SHORT_UP
        \<and> profitZoneLow opp = Fin 99000 \<and> profitZoneHigh opp = Fin 100000
        \<and> profitZoneWidth opp = Fin 1000)
   \<and> (\<exists>opp. checkPairForArbitrage exCrossUp 2 (exShort (Fin 100000)) (exLong (Fin 99000)) = Some opp
        \<and> longRefPrice opp = Fin 99000 \<and> shortRefPrice opp = Fin 100000
        \<and> strategy opp = LONG_UP_SHORT_DOWN
        \<and> profitZoneLow opp = Fin 99000 \<and> profitZoneHigh opp = Fin 100000
        \<and> profitZoneWidth opp = Fin 1000)"
proof -
  have "checkPairForArbitrage exCrossDown 2 (exShort (Fin 99000)) (exLong (Fin 100000)) \<noteq> None"
    by (simp add: checkPairForArbitrage_def exInfo_simps exCrossDown_def exEval Let_def
          chooseLegs_def askOrZero_def exAsks jeq_def jgt_def jsub_def round64_eval)
  then obtain o1 where o1: "checkPairForArbitrage exCrossDown 2 (exShort (Fin 99000)) (exLong (Fin 100000)) = Some o1"
    by blast
  have "checkPairForArbitrage exCrossUp 2 (exShort (Fin 100000)) (exLong (Fin 99000)) \<noteq> None"
    by (simp add: checkPairForArbitrage_def exInfo_simps exCrossUp_def exEval Let_def
          chooseLegs_def askOrZero_def exAsks jeq_def jgt_def jsub_def round64_eval)
  then obtain o2 where o2: "checkPairForArbitrage exCrossUp 2 (exShort (Fin 100000)) (exLong (Fin 99000)) = Some o2"
    by blast
  from zone_strategy[OF o1] have r1: "longRefPrice o1 = Fin 100000" "shortRefPrice o1 = Fin 99000"
    by (simp_all add: exInfo_simps)
  from zone_strategy[OF o2] have r2: "longRefPrice o2 = Fin 99000" "shortRefPrice o2 = Fin 100000"
    by (simp_all add: exInfo_simps)
  from zone_strategy[OF o1] have
    "strategy o1 = LONG_DOWN_SHORT_UP
        \<and> profitZoneLow o1 = Fin 99000 \<and> profitZoneHigh o1 = Fin 100000
        \<and> profitZoneWidth o1 = Fin 1000"
    by (simp add: r1 jgt_def jsub_def round64_eval)
  moreover from zone_strategy[OF o2] have
    "strategy o2 = LONG_UP_SHORT_DOWN
        \<and> profitZoneLow o2 = Fin 99000 \<and> profitZoneHigh o2 = Fin 100000
        \<and> profitZoneWidth o2 = Fin 1000"
    by (simp add: r2 jgt_def jsub_def round64_eval)
  ultimately show ?thesis using o1 o2 r1 r2 by blast
qed

lemma askOrZero_pos:
  "jgt (askOrZero tp t) (Fin 0) \<Longrightarrow> \<exists>a. cachedAsk tp t = Some a \<and> jgt a (Fin 0) \<and> askOrZero tp t = a"
  by (auto simp: askOrZero_def jgt_def split: option.splits if_splits)

lemma askOrZero_of_pos:
  "cachedAsk tp t = Some a \<Longrightarrow> jgt a (Fin 0) \<Longrightarrow> askOrZero tp t = a"
  by (cases a) (auto simp: askOrZero_def jgt_def)

lemma chooseLegs_cost:
  "legCost (chooseLegs tp L S lr sr) =
     (if legStrategy (chooseLegs tp L S lr sr) = LONG_DOWN_SHORT_UP
      then jadd (askOrZero tp (noTokenId (pair_i L))) (askOrZero tp (yesTokenId (pair_i S)))
      else jadd (askOrZero tp (yesTokenId (pair_i L))) (askOrZero tp (noTokenId (pair_i S))))"
  by (simp add: chooseLegs_def Let_def)

lemma chooseLegs_hasBoth:
  "hasBothPrices (chooseLegs tp L S lr sr) =
     (if legStrategy (chooseLegs tp L S lr sr) = LONG_DOWN_SHORT_UP
      then jgt (askOrZero tp (noTokenId (pair_i L))) (Fin 0) \<and> jgt (askOrZero tp (yesTokenId (pair_i S))) (Fin 0)
      else jgt (askOrZero tp (yesTokenId (pair_i L))) (Fin 0) \<and> jgt (askOrZero tp (noTokenId (pair_i S))) (Fin 0))"
  by (simp add: chooseLegs_def Let_def)

subsection \<open>C6: a missing ask\<close>

text \<open>
  C6. A leg with no known best ask (no record, no ask, an ask of zero or NaN) enters the
  cost computation as 0, and the entry cost is the sum of the two chosen legs' asks read
  this way. The evaluation is a total function: it returns an opportunity or nothing.
  It returns an opportunity only if both legs it buys have a cached best ask that is
  strictly positive, and then the entry cost is the sum of those two asks.
\<close>

theorem missing_ask_handling:
  "(cachedAsk tp t = None \<or> cachedAsk tp t = Some (Fin 0) \<or> cachedAsk tp t = Some NaN
      \<longrightarrow> askOrZero tp t = Fin 0)
   \<and> legCost (chooseLegs tp L S lr sr) =
       (if legStrategy (chooseLegs tp L S lr sr) = LONG_DOWN_SHORT_UP
        then jadd (askOrZero tp (noTokenId (pair_i L))) (askOrZero tp (yesTokenId (pair_i S)))
        else jadd (askOrZero tp (yesTokenId (pair_i L))) (askOrZero tp (noTokenId (pair_i S))))
   \<and> (\<forall>opp. checkPairForArbitrage s now info1 info2 = Some opp
        \<longrightarrow> (\<exists>a b. cachedAsk (tokenPrices_x s) (fst (chosenLegs opp)) = Some a
                  \<and> cachedAsk (tokenPrices_x s) (snd (chosenLegs opp)) = Some b
                  \<and> jgt a (Fin 0) \<and> jgt b (Fin 0)
                  \<and> entryCost opp = jadd a b))"
proof -
  have A: "askOrZero tp t = Fin 0"
    if "cachedAsk tp t = None \<or> cachedAsk tp t = Some (Fin 0) \<or> cachedAsk tp t = Some NaN"
    using that by (auto simp: askOrZero_def)
  have C: "\<exists>a b. cachedAsk (tokenPrices_x s) (fst (chosenLegs opp)) = Some a
                  \<and> cachedAsk (tokenPrices_x s) (snd (chosenLegs opp)) = Some b
                  \<and> jgt a (Fin 0) \<and> jgt b (Fin 0)
                  \<and> entryCost opp = jadd a b"
    if ret: "checkPairForArbitrage s now info1 info2 = Some opp" for opp
  proof -
    from ret obtain L S lr sr where ls: "longShort info1 info2 = (L, S)"
      and refs: "referencePrice L = Some lr" "referencePrice S = Some sr"
      and tr: "truthyNum lr" "truthyNum sr"
      by (rule checkPair_Some_refs)
    let ?legs = "chooseLegs (tokenPrices_x s) L S lr sr"
    from ret[unfolded checkPair_unfold[OF ls refs tr]]
    have hb: "hasBothPrices ?legs"
      and opp: "strategy opp = legStrategy ?legs" "entryCost opp = legCost ?legs"
        "longUpTokenId opp = yesTokenId (pair_i L)" "longDownTokenId opp = noTokenId (pair_i L)"
        "shortUpTokenId opp = yesTokenId (pair_i S)" "shortDownTokenId opp = noTokenId (pair_i S)"
      by (auto simp: Let_def split: if_splits)
    show ?thesis
    proof (cases "legStrategy ?legs = LONG_DOWN_SHORT_UP")
      case True
      with hb have "jgt (askOrZero (tokenPrices_x s) (noTokenId (pair_i L))) (Fin 0)"
        "jgt (askOrZero (tokenPrices_x s) (yesTokenId (pair_i S))) (Fin 0)"
        by (simp_all add: chooseLegs_hasBoth)
      from askOrZero_pos[OF this(1)] askOrZero_pos[OF this(2)] True show ?thesis
        by (auto simp: chosenLegs_def opp chooseLegs_cost)
    next
      case False
      with hb have "jgt (askOrZero (tokenPrices_x s) (yesTokenId (pair_i L))) (Fin 0)"
        "jgt (askOrZero (tokenPrices_x s) (noTokenId (pair_i S))) (Fin 0)"
        by (simp_all add: chooseLegs_hasBoth)
      from askOrZero_pos[OF this(1)] askOrZero_pos[OF this(2)] False show ?thesis
        by (auto simp: chosenLegs_def opp chooseLegs_cost)
    qed
  qed
  show ?thesis using A C chooseLegs_cost by blast
qed

text \<open>
  In the example the long-UP token has no ask and reads as 0; the opportunity buys
  long-DOWN at 0.375 and short-UP at 0.5, entry cost 0.875.
\<close>

theorem missing_ask_witness:
  "cachedAsk (tokenPrices_x exCross) ''long-up'' = None
   \<and> askOrZero (tokenPrices_x exCross) ''long-up'' = Fin 0
   \<and> (\<exists>opp. checkPairForArbitrage exCross 2 (exLong (Fin 100000)) (exShort (Fin 99500)) = Some opp
         \<and> chosenLegs opp = (''long-down'', ''short-up'')
         \<and> cachedAsk (tokenPrices_x exCross) ''long-down'' = Some (Fin 0.375)
         \<and> cachedAsk (tokenPrices_x exCross) ''short-up'' = Some (Fin 0.5)
         \<and> entryCost opp = Fin 0.875)"
proof -
  have none: "cachedAsk (tokenPrices_x exCross) ''long-up'' = None"
    by (simp add: exCross_def exEval exAsks)
  have "checkPairForArbitrage exCross 2 (exLong (Fin 100000)) (exShort (Fin 99500)) \<noteq> None"
    by (simp add: checkPairForArbitrage_def exInfo_simps exCross_def exEval Let_def
          chooseLegs_def askOrZero_def exAsks jeq_def jgt_def jsub_def round64_eval)
  then obtain opp where opp: "checkPairForArbitrage exCross 2 (exLong (Fin 100000)) (exShort (Fin 99500)) = Some opp"
    by blast
  then have legs: "chosenLegs opp = (''long-down'', ''short-up'')"
    by (auto simp: checkPairForArbitrage_def exInfo_simps Let_def chosenLegs_def
          chooseLegs_def jeq_def jgt_def split: if_splits)
  have asks: "cachedAsk (tokenPrices_x exCross) ''long-down'' = Some (Fin 0.375)"
    "cachedAsk (tokenPrices_x exCross) ''short-up'' = Some (Fin 0.5)"
    by (simp_all add: exCross_def exEval exAsks)
  from missing_ask_handling[of "tokenPrices_x exCross" "''long-up''" _ _ _ _ exCross 2
      "exLong (Fin 100000)" "exShort (Fin 99500)"] none opp
  have z: "askOrZero (tokenPrices_x exCross) ''long-up'' = Fin 0"
    and "\<exists>a b. cachedAsk (tokenPrices_x exCross) (fst (chosenLegs opp)) = Some a
                  \<and> cachedAsk (tokenPrices_x exCross) (snd (chosenLegs opp)) = Some b
                  \<and> jgt a (Fin 0) \<and> jgt b (Fin 0)
                  \<and> entryCost opp = jadd a b"
    by blast+
  then have "entryCost opp = Fin 0.875"
    by (auto simp: legs asks round64_eval)
  with none z opp legs asks show ?thesis by blast
qed

subsection \<open>C4: identical reference prices\<close>

lemma jeq_sym: "jeq a b \<longleftrightarrow> jeq b a"
  by (auto simp: jeq_def)

lemma chooseLegs_strategy:
  "legStrategy (chooseLegs tp L S lr sr) =
     (if jeq lr sr \<or> jgt lr sr then LONG_DOWN_SHORT_UP else LONG_UP_SHORT_DOWN)"
  by (simp add: chooseLegs_def Let_def)

lemma chooseLegs_zone_same:
  "jeq lr sr \<Longrightarrow> zoneLow (chooseLegs tp L S lr sr) = lr \<and> zoneHigh (chooseLegs tp L S lr sr) = lr"
  by (simp add: chooseLegs_def Let_def)

lemma no_positive_ask:
  "\<forall>a. cachedAsk tp t = Some a \<longrightarrow> \<not> jgt a (Fin 0) \<Longrightarrow> \<not> jgt (askOrZero tp t) (Fin 0)"
  using askOrZero_pos[of tp t] by blast

lemma checkPair_gate:
  assumes ls: "longShort info1 info2 = (L, S)"
    and refs: "referencePrice L = Some lr" "referencePrice S = Some sr"
    and tr: "truthyNum lr" "truthyNum sr"
  shows "checkPairForArbitrage s now info1 info2 = None
     \<longleftrightarrow> \<not> hasBothPrices (chooseLegs (tokenPrices_x s) L S lr sr)
         \<or> (\<not> jeq lr sr \<and> jlt (jsub (Fin 2) (legCost (chooseLegs (tokenPrices_x s) L S lr sr))) (minProfit_x s))"
  by (simp add: checkPair_unfold[OF ls refs tr] Let_def)

text \<open>
  C4. Let both reference prices of a pair be present, that is neither zero nor NaN. If
  they are equal and the long-DOWN and the short-UP token both have a cached ask above
  zero, an opportunity is returned whatever the profit threshold, with strategy
  LONG_DOWN_SHORT_UP, \<open>profitZoneLow = profitZoneHigh\<close> the common reference price, and
  \<open>maxProfit = -entryCost\<close>. If they differ, a returned opportunity has
  \<open>maxProfit = 2.0 - entryCost\<close>; when both legs that the strategy buys (long-DOWN and
  short-UP if \<open>longRef > shortRef\<close>, long-UP and short-DOWN if \<open>shortRef > longRef\<close>) have
  a cached ask above zero, the pair is rejected exactly when \<open>2.0 - entryCost < minProfit\<close>,
  the entry cost being the sum of the two asks; and when one of these legs has no cached
  ask above zero the pair is rejected whatever \<open>2.0 - entryCost\<close> is. Sums and differences
  are the binary64 results that the code computes.
\<close>

theorem identical_refs_reported:
  assumes ls: "longShort info1 info2 = (L, S)"
    and refs: "referencePrice L = Some lr" "referencePrice S = Some sr"
    and tr: "truthyNum lr" "truthyNum sr"
  shows "(jeq lr sr
          \<and> cachedAsk (tokenPrices_x s) (noTokenId (pair_i L)) = Some a
          \<and> cachedAsk (tokenPrices_x s) (yesTokenId (pair_i S)) = Some b
          \<and> jgt a (Fin 0) \<and> jgt b (Fin 0)
          \<longrightarrow> (\<forall>m. \<exists>opp. checkPairForArbitrage (s\<lparr> minProfit_x := m \<rparr>) now info1 info2 = Some opp
                  \<and> strategy opp = LONG_DOWN_SHORT_UP
                  \<and> profitZoneLow opp = lr \<and> profitZoneHigh opp = lr
                  \<and> entryCost opp = jadd a b
                  \<and> maxProfit opp = jneg (entryCost opp)))
       \<and> (\<not> jeq lr sr
          \<longrightarrow> (\<forall>opp. checkPairForArbitrage s now info1 info2 = Some opp
                  \<longrightarrow> maxProfit opp = jsub (Fin 2) (entryCost opp)))
       \<and> (jgt lr sr
          \<and> cachedAsk (tokenPrices_x s) (noTokenId (pair_i L)) = Some a
          \<and> cachedAsk (tokenPrices_x s) (yesTokenId (pair_i S)) = Some b
          \<and> jgt a (Fin 0) \<and> jgt b (Fin 0)
          \<longrightarrow> (checkPairForArbitrage s now info1 info2 = None
                \<longleftrightarrow> jlt (jsub (Fin 2) (jadd a b)) (minProfit_x s)))
       \<and> (jgt sr lr
          \<and> cachedAsk (tokenPrices_x s) (yesTokenId (pair_i L)) = Some a
          \<and> cachedAsk (tokenPrices_x s) (noTokenId (pair_i S)) = Some b
          \<and> jgt a (Fin 0) \<and> jgt b (Fin 0)
          \<longrightarrow> (checkPairForArbitrage s now info1 info2 = None
                \<longleftrightarrow> jlt (jsub (Fin 2) (jadd a b)) (minProfit_x s)))
       \<and> (jgt lr sr
          \<and> ((\<forall>x. cachedAsk (tokenPrices_x s) (noTokenId (pair_i L)) = Some x \<longrightarrow> \<not> jgt x (Fin 0))
              \<or> (\<forall>x. cachedAsk (tokenPrices_x s) (yesTokenId (pair_i S)) = Some x \<longrightarrow> \<not> jgt x (Fin 0)))
          \<longrightarrow> checkPairForArbitrage s now info1 info2 = None)
       \<and> (jgt sr lr
          \<and> ((\<forall>x. cachedAsk (tokenPrices_x s) (yesTokenId (pair_i L)) = Some x \<longrightarrow> \<not> jgt x (Fin 0))
              \<or> (\<forall>x. cachedAsk (tokenPrices_x s) (noTokenId (pair_i S)) = Some x \<longrightarrow> \<not> jgt x (Fin 0)))
          \<longrightarrow> checkPairForArbitrage s now info1 info2 = None)"
proof -
  let ?tp = "tokenPrices_x s"
  let ?legs = "chooseLegs ?tp L S lr sr"
  note gate = checkPair_gate[OF ls refs tr, of s now]
  have same: "\<exists>opp. checkPairForArbitrage (s\<lparr> minProfit_x := m \<rparr>) now info1 info2 = Some opp
                  \<and> strategy opp = LONG_DOWN_SHORT_UP
                  \<and> profitZoneLow opp = lr \<and> profitZoneHigh opp = lr
                  \<and> entryCost opp = jadd a b
                  \<and> maxProfit opp = jneg (entryCost opp)"
    if eq: "jeq lr sr"
      and a: "cachedAsk ?tp (noTokenId (pair_i L)) = Some a" "jgt a (Fin 0)"
      and b: "cachedAsk ?tp (yesTokenId (pair_i S)) = Some b" "jgt b (Fin 0)"
    for m
  proof -
    have legs: "?legs =
        \<lparr> legStrategy = LONG_DOWN_SHORT_UP, zoneLow = lr, zoneHigh = lr, legCost = jadd a b,
          hasBothPrices = True,
          legShares = jmin (sizeOrDefault ?tp (noTokenId (pair_i L)))
                           (sizeOrDefault ?tp (yesTokenId (pair_i S))) \<rparr>"
      using eq a b by (simp add: chooseLegs_def Let_def askOrZero_of_pos)
    show ?thesis
      using eq by (simp add: checkPair_unfold[OF ls refs tr] legs Let_def)
  qed
  have diff1: "maxProfit opp = jsub (Fin 2) (entryCost opp)"
    if "\<not> jeq lr sr" "checkPairForArbitrage s now info1 info2 = Some opp" for opp
    using that by (auto simp: checkPair_unfold[OF ls refs tr] Let_def split: if_splits)
  have down: "checkPairForArbitrage s now info1 info2 = None
                 \<longleftrightarrow> jlt (jsub (Fin 2) (jadd a b)) (minProfit_x s)"
    if gt: "jgt lr sr"
      and a: "cachedAsk ?tp (noTokenId (pair_i L)) = Some a" "jgt a (Fin 0)"
      and b: "cachedAsk ?tp (yesTokenId (pair_i S)) = Some b" "jgt b (Fin 0)"
  proof -
    have "legStrategy ?legs = LONG_DOWN_SHORT_UP"
      using gt by (simp add: chooseLegs_strategy)
    then have "hasBothPrices ?legs" "legCost ?legs = jadd a b"
      using a b by (simp_all add: chooseLegs_hasBoth chooseLegs_cost askOrZero_of_pos)
    with jgt_not_jeq[OF gt] show ?thesis by (simp add: gate)
  qed
  have up: "checkPairForArbitrage s now info1 info2 = None
                 \<longleftrightarrow> jlt (jsub (Fin 2) (jadd a b)) (minProfit_x s)"
    if gt: "jgt sr lr"
      and a: "cachedAsk ?tp (yesTokenId (pair_i L)) = Some a" "jgt a (Fin 0)"
      and b: "cachedAsk ?tp (noTokenId (pair_i S)) = Some b" "jgt b (Fin 0)"
  proof -
    have ne: "\<not> jeq lr sr" using jgt_not_jeq[OF gt] by (simp add: jeq_sym)
    then have "legStrategy ?legs = LONG_UP_SHORT_DOWN"
      using jgt_asym[OF gt] by (simp add: chooseLegs_strategy)
    then have "hasBothPrices ?legs" "legCost ?legs = jadd a b"
      using a b by (simp_all add: chooseLegs_hasBoth chooseLegs_cost askOrZero_of_pos)
    with ne show ?thesis by (simp add: gate)
  qed
  have downMissing: "checkPairForArbitrage s now info1 info2 = None"
    if gt: "jgt lr sr"
      and miss: "(\<forall>x. cachedAsk ?tp (noTokenId (pair_i L)) = Some x \<longrightarrow> \<not> jgt x (Fin 0))
              \<or> (\<forall>x. cachedAsk ?tp (yesTokenId (pair_i S)) = Some x \<longrightarrow> \<not> jgt x (Fin 0))"
  proof -
    have "legStrategy ?legs = LONG_DOWN_SHORT_UP"
      using gt by (simp add: chooseLegs_strategy)
    moreover from miss have "\<not> jgt (askOrZero ?tp (noTokenId (pair_i L))) (Fin 0)
        \<or> \<not> jgt (askOrZero ?tp (yesTokenId (pair_i S))) (Fin 0)"
      using no_positive_ask by blast
    ultimately have "\<not> hasBothPrices ?legs"
      by (auto simp: chooseLegs_hasBoth)
    then show ?thesis by (simp add: gate)
  qed
  have upMissing: "checkPairForArbitrage s now info1 info2 = None"
    if gt: "jgt sr lr"
      and miss: "(\<forall>x. cachedAsk ?tp (yesTokenId (pair_i L)) = Some x \<longrightarrow> \<not> jgt x (Fin 0))
              \<or> (\<forall>x. cachedAsk ?tp (noTokenId (pair_i S)) = Some x \<longrightarrow> \<not> jgt x (Fin 0))"
  proof -
    have "\<not> jeq lr sr" using jgt_not_jeq[OF gt] by (simp add: jeq_sym)
    then have "legStrategy ?legs = LONG_UP_SHORT_DOWN"
      using jgt_asym[OF gt] by (simp add: chooseLegs_strategy)
    moreover from miss have "\<not> jgt (askOrZero ?tp (yesTokenId (pair_i L))) (Fin 0)
        \<or> \<not> jgt (askOrZero ?tp (noTokenId (pair_i S))) (Fin 0)"
      using no_positive_ask by blast
    ultimately have "\<not> hasBothPrices ?legs"
      by (auto simp: chooseLegs_hasBoth)
    then show ?thesis by (simp add: gate)
  qed
  show ?thesis
  proof (intro conjI impI)
    assume h: "jeq lr sr
          \<and> cachedAsk ?tp (noTokenId (pair_i L)) = Some a
          \<and> cachedAsk ?tp (yesTokenId (pair_i S)) = Some b
          \<and> jgt a (Fin 0) \<and> jgt b (Fin 0)"
    show "\<forall>m. \<exists>opp. checkPairForArbitrage (s\<lparr> minProfit_x := m \<rparr>) now info1 info2 = Some opp
                  \<and> strategy opp = LONG_DOWN_SHORT_UP
                  \<and> profitZoneLow opp = lr \<and> profitZoneHigh opp = lr
                  \<and> entryCost opp = jadd a b
                  \<and> maxProfit opp = jneg (entryCost opp)"
      using same h by blast
  next
    assume "\<not> jeq lr sr"
    then show "\<forall>opp. checkPairForArbitrage s now info1 info2 = Some opp
                  \<longrightarrow> maxProfit opp = jsub (Fin 2) (entryCost opp)"
      using diff1 by blast
  next
    assume "jgt lr sr
          \<and> cachedAsk ?tp (noTokenId (pair_i L)) = Some a
          \<and> cachedAsk ?tp (yesTokenId (pair_i S)) = Some b
          \<and> jgt a (Fin 0) \<and> jgt b (Fin 0)"
    then show "checkPairForArbitrage s now info1 info2 = None
                \<longleftrightarrow> jlt (jsub (Fin 2) (jadd a b)) (minProfit_x s)"
      using down by blast
  next
    assume "jgt sr lr
          \<and> cachedAsk ?tp (yesTokenId (pair_i L)) = Some a
          \<and> cachedAsk ?tp (noTokenId (pair_i S)) = Some b
          \<and> jgt a (Fin 0) \<and> jgt b (Fin 0)"
    then show "checkPairForArbitrage s now info1 info2 = None
                \<longleftrightarrow> jlt (jsub (Fin 2) (jadd a b)) (minProfit_x s)"
      using up by blast
  next
    assume "jgt lr sr
          \<and> ((\<forall>x. cachedAsk ?tp (noTokenId (pair_i L)) = Some x \<longrightarrow> \<not> jgt x (Fin 0))
              \<or> (\<forall>x. cachedAsk ?tp (yesTokenId (pair_i S)) = Some x \<longrightarrow> \<not> jgt x (Fin 0)))"
    then show "checkPairForArbitrage s now info1 info2 = None"
      using downMissing by blast
  next
    assume "jgt sr lr
          \<and> ((\<forall>x. cachedAsk ?tp (yesTokenId (pair_i L)) = Some x \<longrightarrow> \<not> jgt x (Fin 0))
              \<or> (\<forall>x. cachedAsk ?tp (noTokenId (pair_i S)) = Some x \<longrightarrow> \<not> jgt x (Fin 0)))"
    then show "checkPairForArbitrage s now info1 info2 = None"
      using upMissing by blast
  qed
qed

text \<open>
  Equal references of 100000 with asks 0.375 and 0.5: reported with maximal profit
  -0.875 even under a threshold of 5. References 100000 and 99500 with the same asks:
  \<open>2.0 - 0.875 = 1.125\<close> is not below the threshold 1/1024, so the pair is not rejected
  and its maximal profit is 1.125. The same references with no ask for short-UP: rejected.
  References 99000 (long) and 100000 (short) with asks 0.4375 for long-UP and 0.5 for
  short-DOWN: not rejected.
\<close>

theorem identical_refs_witness:
  "(\<exists>opp. checkPairForArbitrage (exCrossSame\<lparr> minProfit_x := Fin 5 \<rparr>) 2 (exShort (Fin 100000)) (exLong (Fin 100000)) = Some opp
        \<and> strategy opp = LONG_DOWN_SHORT_UP
        \<and> profitZoneLow opp = Fin 100000 \<and> profitZoneHigh opp = Fin 100000
        \<and> entryCost opp = Fin 0.875 \<and> maxProfit opp = Fin (- 0.875))
   \<and> jgt (Fin 100000) (Fin 99500)
   \<and> cachedAsk (tokenPrices_x exCross) ''long-down'' = Some (Fin 0.375)
   \<and> cachedAsk (tokenPrices_x exCross) ''short-up'' = Some (Fin 0.5)
   \<and> \<not> jlt (jsub (Fin 2) (jadd (Fin 0.375) (Fin 0.5))) (minProfit_x exCross)
   \<and> (\<exists>opp. checkPairForArbitrage exCross 2 (exShort (Fin 99500)) (exLong (Fin 100000)) = Some opp
        \<and> maxProfit opp = jsub (Fin 2) (entryCost opp))
   \<and> cachedAsk (tokenPrices_x exCrossOneAsk) ''short-up'' = None
   \<and> checkPairForArbitrage exCrossOneAsk 2 (exShort (Fin 99500)) (exLong (Fin 100000)) = None
   \<and> jgt (Fin 100000) (Fin 99000)
   \<and> cachedAsk (tokenPrices_x exCrossUp) ''long-up'' = Some (Fin 0.4375)
   \<and> cachedAsk (tokenPrices_x exCrossUp) ''short-down'' = Some (Fin 0.5)
   \<and> \<not> jlt (jsub (Fin 2) (jadd (Fin 0.4375) (Fin 0.5))) (minProfit_x exCrossUp)
   \<and> checkPairForArbitrage exCrossUp 2 (exShort (Fin 100000)) (exLong (Fin 99000)) \<noteq> None"
proof -
  have ls1: "longShort (exShort (Fin 100000)) (exLong (Fin 100000)) = (exLong (Fin 100000), exShort (Fin 100000))"
    and ls2: "longShort (exShort (Fin 99500)) (exLong (Fin 100000)) = (exLong (Fin 100000), exShort (Fin 99500))"
    by simp_all
  have r: "referencePrice (exLong (Fin 100000)) = Some (Fin 100000)"
    "referencePrice (exShort (Fin 100000)) = Some (Fin 100000)"
    "referencePrice (exShort (Fin 99500)) = Some (Fin 99500)"
    by (simp_all add: exInfo_simps)
  have t: "truthyNum (Fin 100000)" "truthyNum (Fin 99500)"
    by simp_all
  have tok: "noTokenId (pair_i (exLong (Fin 100000))) = ''long-down''"
    "yesTokenId (pair_i (exShort (Fin 100000))) = ''short-up''"
    "yesTokenId (pair_i (exShort (Fin 99500))) = ''short-up''"
    by (simp_all add: exInfo_simps)
  have asks1: "cachedAsk (tokenPrices_x exCrossSame) ''long-down'' = Some (Fin 0.375)"
    "cachedAsk (tokenPrices_x exCrossSame) ''short-up'' = Some (Fin 0.5)"
    by (simp_all add: exCrossSame_def exEval exAsks)
  have asks2: "cachedAsk (tokenPrices_x exCross) ''long-down'' = Some (Fin 0.375)"
    "cachedAsk (tokenPrices_x exCross) ''short-up'' = Some (Fin 0.5)"
    by (simp_all add: exCross_def exEval exAsks)
  have asks3: "cachedAsk (tokenPrices_x exCrossOneAsk) ''short-up'' = None"
    by (simp add: exCrossOneAsk_def exEval cachedAsk_def storeUpdate_def askUpdate_def)
  have pos: "jgt (Fin 0.375) (Fin 0)" "jgt (Fin 0.5) (Fin 0)"
    and eq: "jeq (Fin 100000) (Fin 100000)" and gt: "jgt (Fin 100000) (Fin 99500)"
    by (simp_all add: jgt_def jeq_def)
  have ne: "\<not> jeq (Fin 100000) (Fin 99500)"
    by (simp add: jeq_def)
  have nl: "\<not> jlt (jsub (Fin 2) (jadd (Fin 0.375) (Fin 0.5))) (minProfit_x exCross)"
    by (simp add: exCross_def exEval jsub_def round64_eval)
  from identical_refs_reported[OF ls1 r(1) r(2) t(1) t(1),
      of exCrossSame "Fin 0.375" "Fin 0.5" 2] asks1 pos eq
  have "\<forall>m. \<exists>opp. checkPairForArbitrage (exCrossSame\<lparr> minProfit_x := m \<rparr>) 2 (exShort (Fin 100000)) (exLong (Fin 100000)) = Some opp
        \<and> strategy opp = LONG_DOWN_SHORT_UP
        \<and> profitZoneLow opp = Fin 100000 \<and> profitZoneHigh opp = Fin 100000
        \<and> entryCost opp = jadd (Fin 0.375) (Fin 0.5) \<and> maxProfit opp = jneg (entryCost opp)"
    by (simp add: tok)
  then obtain o1 where o1: "checkPairForArbitrage (exCrossSame\<lparr> minProfit_x := Fin 5 \<rparr>) 2 (exShort (Fin 100000)) (exLong (Fin 100000)) = Some o1"
       "strategy o1 = LONG_DOWN_SHORT_UP" "profitZoneLow o1 = Fin 100000" "profitZoneHigh o1 = Fin 100000"
       "entryCost o1 = jadd (Fin 0.375) (Fin 0.5)" "maxProfit o1 = jneg (entryCost o1)"
    by blast
  then have v1: "entryCost o1 = Fin 0.875" "maxProfit o1 = Fin (- 0.875)"
    by (simp_all add: round64_eval)
  note th2 = identical_refs_reported[OF ls2 r(1) r(3) t(1) t(2), of exCross "Fin 0.375" "Fin 0.5" 2]
  from th2 gt asks2 pos nl
  have some: "checkPairForArbitrage exCross 2 (exShort (Fin 99500)) (exLong (Fin 100000)) \<noteq> None"
    by (simp add: tok)
  then obtain o2 where o2: "checkPairForArbitrage exCross 2 (exShort (Fin 99500)) (exLong (Fin 100000)) = Some o2"
    by blast
  from th2 ne o2 have v2: "maxProfit o2 = jsub (Fin 2) (entryCost o2)"
    by blast
  from identical_refs_reported[OF ls2 r(1) r(3) t(1) t(2), of exCrossOneAsk _ _ 2] gt asks3
  have none: "checkPairForArbitrage exCrossOneAsk 2 (exShort (Fin 99500)) (exLong (Fin 100000)) = None"
    by (simp add: tok)
  have ls3: "longShort (exShort (Fin 100000)) (exLong (Fin 99000)) = (exLong (Fin 99000), exShort (Fin 100000))"
    by simp
  have r3: "referencePrice (exLong (Fin 99000)) = Some (Fin 99000)"
    and t3: "truthyNum (Fin 99000)" and gt3: "jgt (Fin 100000) (Fin 99000)"
    by (simp_all add: exInfo_simps jgt_def)
  have tok3: "yesTokenId (pair_i (exLong (Fin 99000))) = ''long-up''"
    "noTokenId (pair_i (exShort (Fin 100000))) = ''short-down''"
    by (simp_all add: exInfo_simps)
  have asks4: "cachedAsk (tokenPrices_x exCrossUp) ''long-up'' = Some (Fin 0.4375)"
    "cachedAsk (tokenPrices_x exCrossUp) ''short-down'' = Some (Fin 0.5)"
    by (simp_all add: exCrossUp_def exEval exAsks)
  have pos4: "jgt (Fin 0.4375) (Fin 0)"
    by (simp add: jgt_def)
  have nl4: "\<not> jlt (jsub (Fin 2) (jadd (Fin 0.4375) (Fin 0.5))) (minProfit_x exCrossUp)"
    by (simp add: exCrossUp_def exEval jsub_def round64_eval)
  from identical_refs_reported[OF ls3 r3 r(2) t3 t(1), of exCrossUp "Fin 0.4375" "Fin 0.5" 2]
    gt3 asks4 pos4 pos(2) nl4
  have up: "checkPairForArbitrage exCrossUp 2 (exShort (Fin 100000)) (exLong (Fin 99000)) \<noteq> None"
    by (simp add: tok3)
  from o1 v1 gt asks2 nl o2 v2 asks3 none gt3 asks4 nl4 up show ?thesis by blast
qed

text \<open>
  References 100000 and 99500 differ, the long-DOWN token has an ask of 0.375 and the
  short-UP token has none. The entry cost that the code computes is \<open>0.375 + 0\<close>, and
  \<open>2.0 - 0.375 = 1.625\<close> is not below the threshold 1/1024; yet the pair is rejected,
  because a leg has no ask.
\<close>

theorem missing_leg_counterexample:
  "referencePrice (exLong (Fin 100000)) = Some (Fin 100000)
   \<and> referencePrice (exShort (Fin 99500)) = Some (Fin 99500)
   \<and> \<not> jeq (Fin 100000) (Fin 99500)
   \<and> cachedAsk (tokenPrices_x exCrossOneAsk) ''long-down'' = Some (Fin 0.375)
   \<and> cachedAsk (tokenPrices_x exCrossOneAsk) ''short-up'' = None
   \<and> legCost (chooseLegs (tokenPrices_x exCrossOneAsk) (exLong (Fin 100000)) (exShort (Fin 99500))
               (Fin 100000) (Fin 99500)) = Fin 0.375
   \<and> minProfit_x exCrossOneAsk = Fin (1/1024)
   \<and> \<not> jlt (jsub (Fin 2) (Fin 0.375)) (Fin (1/1024))
   \<and> checkPairForArbitrage exCrossOneAsk 2 (exLong (Fin 100000)) (exShort (Fin 99500)) = None"
  by (simp add: checkPairForArbitrage_def exInfo_simps exCrossOneAsk_def exEval Let_def
        chooseLegs_def askOrZero_def cachedAsk_def storeUpdate_def mergeRecord_def askUpdate_def
        jeq_def jgt_def jsub_def round64_eval)

text \<open>
  With asks read from the decimal strings 0.4 and 0.55 the entry cost is
  0.9500000000000001 and the maximal profit 1.0499999999999998.
\<close>

lemma cross_decimal_entry_cost:
  "jadd (num (4/10)) (num (55/100)) = Fin (8556839292003943 / 2 ^ 53)
   \<and> jsub (Fin 2) (jadd (num (4/10)) (num (55/100))) = Fin (1182194902184755 / 2 ^ 50)"
proof -
  have n: "num (4/10) = Fin (3602879701896397 / 2 ^ 53)"
    "num (55/100) = Fin (2476979795053773 / 2 ^ 52)"
    by (simp_all add: round64_eval)
  have sum: "jadd (num (4/10)) (num (55/100)) = Fin (8556839292003943 / 2 ^ 53)"
    unfolding n by (simp add: round64_eval)
  show ?thesis
    unfolding sum by (simp add: jsub_def round64_eval)
qed

subsection \<open>C8: a loaded reference price, and loads that overlap\<close>

lemma refInv_Nil [simp]: "refInv [] cache"
  by (simp add: refInv_def)

lemma saveRefPrices_id:
  "\<forall>e \<in> set infos. referencePrice (snd e) = cache (fst e) \<Longrightarrow> saveRefPrices infos cache = cache"
proof (induction infos arbitrary: cache)
  case Nil
  then show ?case by simp
next
  case (Cons e rest)
  obtain sl mi where e: "e = (sl, mi)" by (cases e)
  from Cons.prems e have h: "referencePrice mi = cache sl" by simp
  have step: "(case referencePrice mi of Some r \<Rightarrow> cache(sl \<mapsto> r) | None \<Rightarrow> cache) = cache"
  proof (cases "referencePrice mi")
    case None
    then show ?thesis by simp
  next
    case (Some r)
    with h have "cache sl = Some r" by simp
    then have "cache(sl \<mapsto> r) = cache" by (simp add: fun_upd_idem)
    with Some show ?thesis by simp
  qed
  from Cons.prems have "\<forall>e \<in> set rest. referencePrice (snd e) = cache (fst e)" by simp
  from Cons.IH[OF this] show ?case by (simp add: e step)
qed

lemma set_AList_update:
  "x \<in> set (AList.update k v al) \<Longrightarrow> x = (k, v) \<or> x \<in> set al"
  by (induction al) (auto split: if_splits)

lemma refInv_update:
  assumes "refInv infos cache" and "referencePrice mi = cache sl"
  shows "refInv (AList.update sl mi infos) cache"
  unfolding refInv_def
proof (intro conjI ballI)
  show "distinct (map fst (AList.update sl mi infos))"
    using assms(1) by (simp add: refInv_def distinct_update)
next
  fix e assume "e \<in> set (AList.update sl mi infos)"
  from set_AList_update[OF this] show "referencePrice (snd e) = cache (fst e)"
    using assms by (auto simp: refInv_def)
qed

lemma registerInfos_inv:
  "refInv infos cache \<Longrightarrow> registerInfos parse cache pairs infos = Inr infos' \<Longrightarrow> refInv infos' cache"
proof (induction pairs arbitrary: infos)
  case Nil
  then show ?case by simp
next
  case (Cons p ps)
  show ?case
  proof (cases "parse p")
    case NoMatch
    with Cons show ?thesis by simp
  next
    case BadEndDate
    with Cons.prems show ?thesis by simp
  next
    case (UpDown iv a resolution candleStart)
    let ?mi = "case cache (slug (market p)) of
                 Some cachedPrice \<Rightarrow>
                   (newMarketInfo p iv a resolution candleStart)\<lparr> referencePrice := Some cachedPrice \<rparr>
               | None \<Rightarrow> newMarketInfo p iv a resolution candleStart"
    have v: "referencePrice ?mi = cache (slug (market p))"
      by (cases "cache (slug (market p))") (simp_all add: newMarketInfo_def)
    have inv: "refInv (AList.update (slug (market p)) ?mi infos) cache"
      using Cons.prems(1) v by (rule refInv_update)
    from Cons.prems(2) UpDown
    have "registerInfos parse cache ps (AList.update (slug (market p)) ?mi infos) = Inr infos'"
      by simp
    from Cons.IH[OF inv this] show ?thesis .
  qed
qed

lemma registerInfos_registered:
  "registerInfos parse cache pairs infos = Inr infos'
     \<Longrightarrow> map_of infos sl \<noteq> None \<or> (\<exists>p \<in> set pairs. slug (market p) = sl \<and> parse p \<noteq> NoMatch)
     \<Longrightarrow> map_of infos' sl \<noteq> None"
proof (induction pairs arbitrary: infos)
  case Nil
  then show ?case by simp
next
  case (Cons p ps)
  show ?case
  proof (cases "parse p")
    case NoMatch
    with Cons.prems have "registerInfos parse cache ps infos = Inr infos'"
      and "map_of infos sl \<noteq> None \<or> (\<exists>p \<in> set ps. slug (market p) = sl \<and> parse p \<noteq> NoMatch)"
      by auto
    then show ?thesis by (rule Cons.IH)
  next
    case BadEndDate
    with Cons.prems show ?thesis by simp
  next
    case (UpDown iv a resolution candleStart)
    let ?infos = "AList.update (slug (market p))
              (case cache (slug (market p)) of
                 Some cachedPrice \<Rightarrow>
                   (newMarketInfo p iv a resolution candleStart)\<lparr> referencePrice := Some cachedPrice \<rparr>
               | None \<Rightarrow> newMarketInfo p iv a resolution candleStart) infos"
    from Cons.prems(1) UpDown have r: "registerInfos parse cache ps ?infos = Inr infos'"
      by simp
    from Cons.prems(2) have "map_of ?infos sl \<noteq> None
        \<or> (\<exists>p \<in> set ps. slug (market p) = sl \<and> parse p \<noteq> NoMatch)"
      by (auto simp: update_conv')
    with r show ?thesis by (rule Cons.IH)
  qed
qed

lemma setMarketPairs_x_inv:
  assumes "refInv (marketInfos s) (refPriceCache s)" and "setMarketPairs_x parse pairs s = Inr s'"
  shows "refPriceCache s' = refPriceCache s"
    and "refInv (marketInfos s') (refPriceCache s')"
    and "(\<exists>p \<in> set pairs. slug (market p) = sl \<and> parse p \<noteq> NoMatch) \<Longrightarrow> map_of (marketInfos s') sl \<noteq> None"
proof -
  from assms(1) have save: "saveRefPrices (marketInfos s) (refPriceCache s) = refPriceCache s"
    by (intro saveRefPrices_id) (simp add: refInv_def)
  from assms(2) obtain infos' where reg: "registerInfos parse (refPriceCache s) pairs [] = Inr infos'"
    and s': "s' = s\<lparr> refPriceCache := refPriceCache s, marketInfos := infos' \<rparr>"
    by (auto simp: setMarketPairs_x_def Let_def save split: sum.splits)
  show "refPriceCache s' = refPriceCache s" by (simp add: s')
  show "refInv (marketInfos s') (refPriceCache s')"
    using registerInfos_inv[OF refInv_Nil reg] by (simp add: s')
  show "map_of (marketInfos s') sl \<noteq> None"
    if "\<exists>p \<in> set pairs. slug (market p) = sl \<and> parse p \<noteq> NoMatch"
    using registerInfos_registered[OF reg, of sl] that by (simp add: s')
qed

lemma restore_id:
  "\<forall>e \<in> set infos. referencePrice (snd e) = cache (fst e)
     \<Longrightarrow> map (restoreFromCache cache) infos = infos"
  by (induction infos) (auto simp: restoreFromCache_def split: option.splits)

lemma set_map_entry:
  "distinct (map fst al) \<Longrightarrow> e \<in> set (AList.map_entry k f al)
     \<Longrightarrow> (fst e \<noteq> k \<and> e \<in> set al) \<or> (\<exists>v. (k, v) \<in> set al \<and> e = (k, f v))"
  by (induction al) (force split: if_splits)+

lemma map_fst_map_entry: "map fst (AList.map_entry k f al) = map fst al"
  by (induction al) auto

text \<open>
  When the registry's entry for \<open>sl\<close> has no price, the two writes after the \<open>await\<close>
  keep the invariant and change no cache entry that is set.
\<close>

lemma deliverPrice_inv:
  assumes inv: "refInv (marketInfos s) (refPriceCache s)"
    and mi: "map_of (marketInfos s) sl = Some mi" and none: "referencePrice mi = None"
  shows "refInv (marketInfos (deliverPrice True sl answer s)) (refPriceCache (deliverPrice True sl answer s))"
    and "refPriceCache s k = Some v \<Longrightarrow> refPriceCache (deliverPrice True sl answer s) k = Some v"
proof -
  from mi have mem: "(sl, mi) \<in> set (marketInfos s)" by (rule map_of_SomeD)
  with inv none have c: "refPriceCache s sl = None"
    by (auto simp: refInv_def)
  show "refPriceCache (deliverPrice True sl answer s) k = Some v" if "refPriceCache s k = Some v"
    using that c by (cases answer) (auto simp: deliverPrice_def)
  show "refInv (marketInfos (deliverPrice True sl answer s)) (refPriceCache (deliverPrice True sl answer s))"
  proof (cases answer)
    case None
    with inv show ?thesis by (simp add: deliverPrice_def)
  next
    case (Some openPrice)
    let ?f = "\<lambda>marketInfo. marketInfo\<lparr> referencePrice := Some openPrice \<rparr>"
    have "refInv (AList.map_entry sl ?f (marketInfos s)) ((refPriceCache s)(sl \<mapsto> openPrice))"
      unfolding refInv_def
    proof (intro conjI ballI)
      show "distinct (map fst (AList.map_entry sl ?f (marketInfos s)))"
        using inv by (simp add: map_fst_map_entry refInv_def)
    next
      fix e assume "e \<in> set (AList.map_entry sl ?f (marketInfos s))"
      from set_map_entry[OF _ this] inv have "(fst e \<noteq> sl \<and> e \<in> set (marketInfos s))
          \<or> (\<exists>v. (sl, v) \<in> set (marketInfos s) \<and> e = (sl, ?f v))"
        by (simp add: refInv_def)
      then show "referencePrice (snd e) = ((refPriceCache s)(sl \<mapsto> openPrice)) (fst e)"
        using inv by (auto simp: refInv_def)
    qed
    with Some show ?thesis by (simp add: deliverPrice_def)
  qed
qed

lemma loadLoop_inv:
  assumes "refInv (marketInfos s) (refPriceCache s)"
  shows "refInv (marketInfos (loadLoop fetch slugs s)) (refPriceCache (loadLoop fetch slugs s))
       \<and> (refPriceCache s k = Some v \<longrightarrow> refPriceCache (loadLoop fetch slugs s) k = Some v)"
  using assms
proof (induction slugs arbitrary: s)
  case Nil
  then show ?case by simp
next
  case (Cons sl rest)
  show ?case
  proof (cases "map_of (marketInfos s) sl")
    case None
    with Cons.IH[OF Cons.prems] show ?thesis by simp
  next
    case (Some mi)
    show ?thesis
    proof (cases "referencePrice mi")
      case (Some r)
      with \<open>map_of (marketInfos s) sl = Some mi\<close> Cons.IH[OF Cons.prems] show ?thesis by simp
    next
      case None
      let ?s1 = "deliverPrice True sl
                   (fetch (asset mi) (interval mi) (resolutionTimestamp mi * 1000)) s"
      note d1 = deliverPrice_inv(1)[OF Cons.prems \<open>map_of (marketInfos s) sl = Some mi\<close> None,
          where answer="fetch (asset mi) (interval mi) (resolutionTimestamp mi * 1000)"]
      note d2 = deliverPrice_inv(2)[OF Cons.prems \<open>map_of (marketInfos s) sl = Some mi\<close> None,
          where answer="fetch (asset mi) (interval mi) (resolutionTimestamp mi * 1000)"
            and k=k and v=v]
      from Cons.IH[OF d1] d2
      have "refInv (marketInfos (loadLoop fetch rest ?s1)) (refPriceCache (loadLoop fetch rest ?s1))
          \<and> (refPriceCache s k = Some v \<longrightarrow> refPriceCache (loadLoop fetch rest ?s1) k = Some v)"
        by blast
      with None \<open>map_of (marketInfos s) sl = Some mi\<close> show ?thesis by simp
    qed
  qed
qed

lemma loadReferencePrices_inv:
  assumes "refInv (marketInfos s) (refPriceCache s)"
  shows "refInv (marketInfos (loadReferencePrices fetch force s)) (refPriceCache (loadReferencePrices fetch force s))
       \<and> (refPriceCache s k = Some v \<longrightarrow> refPriceCache (loadReferencePrices fetch force s) k = Some v)"
proof -
  from assms have restored: "map (restoreFromCache (refPriceCache s)) (marketInfos s) = marketInfos s"
    by (intro restore_id) (simp add: refInv_def)
  from loadLoop_inv[OF assms, where fetch=fetch and slugs="map fst (marketInfos s)" and k=k and v=v] assms
  show ?thesis
    by (simp add: loadReferencePrices_def restored Let_def)
qed

lemma call_inv:
  assumes "refInv (marketInfos s) (refPriceCache s)" and "call parse s c = Inr s'"
  shows "refInv (marketInfos s') (refPriceCache s')
       \<and> (refPriceCache s k = Some v \<longrightarrow> refPriceCache s' k = Some v)"
proof (cases c)
  case (SetMarketPairs pairs)
  with assms(2) have "setMarketPairs_x parse pairs s = Inr s'" by simp
  from setMarketPairs_x_inv(1,2)[OF assms(1) this] show ?thesis by simp
next
  case (LoadReferencePrices fetch force)
  with assms(2) have "s' = loadReferencePrices fetch force s" by simp
  with loadReferencePrices_inv[OF assms(1), where fetch=fetch and force=force and k=k and v=v]
  show ?thesis by simp
qed

lemma callAll_inv:
  assumes "refInv (marketInfos s) (refPriceCache s)" and "callAll parse s cs = Inr s'"
  shows "refInv (marketInfos s') (refPriceCache s')
       \<and> (refPriceCache s k = Some v \<longrightarrow> refPriceCache s' k = Some v)"
  using assms
proof (induction cs arbitrary: s)
  case Nil
  then show ?case by simp
next
  case (Cons c cs)
  from Cons.prems(2) obtain s1 where c: "call parse s c = Inr s1" and rest: "callAll parse s1 cs = Inr s'"
    by (auto split: sum.splits)
  from call_inv[OF Cons.prems(1) c, where k=k and v=v]
  have step: "refInv (marketInfos s1) (refPriceCache s1)"
    and keep: "refPriceCache s k = Some v \<longrightarrow> refPriceCache s1 k = Some v"
    by blast+
  from Cons.IH[OF step rest] keep show ?case by blast
qed

lemma refInv_lookup:
  "refInv infos cache \<Longrightarrow> map_of infos sl = Some mi \<Longrightarrow> referencePrice mi = cache sl"
  by (auto simp: refInv_def dest!: map_of_SomeD)

text \<open>
  Calls that do not overlap keep a loaded price. In every state reached from a new
  detector by \<open>setMarketPairs\<close> and \<open>loadReferencePrices\<close> calls that each run to their end
  before the next begins (with or without \<open>force\<close>, whatever the price source answers), a
  reference price set on a registered market is the cache's entry for its slug. Once the
  cache holds a price for a slug, it holds the same price after any further such calls,
  every market registered under that slug afterwards carries exactly that price, and a
  \<open>setMarketPairs\<close> call that returns and whose list has a recognised market with that
  slug registers it with that price.
\<close>

lemma calls_in_sequence_keep_price:
  assumes reach: "callAll parse (newCrossMarketDetector mp) before = Inr s"
    and later: "callAll parse s after = Inr t"
  shows "(\<forall>r. registeredPrice s sl = Some r \<longrightarrow> refPriceCache s sl = Some r)
       \<and> (refPriceCache s sl = Some v
          \<longrightarrow> refPriceCache t sl = Some v
              \<and> (\<forall>mi. map_of (marketInfos t) sl = Some mi \<longrightarrow> referencePrice mi = Some v)
              \<and> (\<forall>u. setMarketPairs_x parse pairs t = Inr u
                      \<and> (\<exists>p \<in> set pairs. slug (market p) = sl \<and> parse p \<noteq> NoMatch)
                    \<longrightarrow> registeredPrice u sl = Some v))"
proof -
  have init: "refInv (marketInfos (newCrossMarketDetector mp)) (refPriceCache (newCrossMarketDetector mp))"
    by (simp add: newCrossMarketDetector_def)
  have inv: "refInv (marketInfos s) (refPriceCache s)"
    using callAll_inv[OF init reach] by blast
  have invt: "refInv (marketInfos t) (refPriceCache t)"
    using callAll_inv[OF inv later] by blast
  have A: "refPriceCache s sl = Some r" if "registeredPrice s sl = Some r" for r
  proof -
    from that obtain mi where mi: "map_of (marketInfos s) sl = Some mi" "referencePrice mi = Some r"
      by (auto simp: registeredPrice_def split: Option.bind_splits)
    from refInv_lookup[OF inv mi(1)] mi(2) show ?thesis by simp
  qed
  have B: "refPriceCache t sl = Some v" if "refPriceCache s sl = Some v"
    using callAll_inv[OF inv later, where k=sl and v=v] that by blast
  have C: "referencePrice mi = Some v" if "refPriceCache s sl = Some v" "map_of (marketInfos t) sl = Some mi" for mi
    using refInv_lookup[OF invt that(2)] B[OF that(1)] by simp
  have D: "registeredPrice u sl = Some v"
    if c: "refPriceCache s sl = Some v"
      and u: "setMarketPairs_x parse pairs t = Inr u"
      and p: "\<exists>p \<in> set pairs. slug (market p) = sl \<and> parse p \<noteq> NoMatch"
    for u
  proof -
    note su = setMarketPairs_x_inv[OF invt u]
    from su(3)[OF p] obtain mi where mi: "map_of (marketInfos u) sl = Some mi" by blast
    from refInv_lookup[OF su(2) mi] su(1) B[OF c] have "referencePrice mi = Some v" by simp
    with mi show ?thesis by (simp add: registeredPrice_def)
  qed
  show ?thesis
  proof (intro conjI allI impI)
    fix r assume "registeredPrice s sl = Some r"
    then show "refPriceCache s sl = Some r" by (rule A)
  next
    assume "refPriceCache s sl = Some v"
    then show "refPriceCache t sl = Some v" by (rule B)
  next
    fix mi assume "refPriceCache s sl = Some v" "map_of (marketInfos t) sl = Some mi"
    then show "referencePrice mi = Some v" by (rule C)
  next
    fix u assume "refPriceCache s sl = Some v"
      "setMarketPairs_x parse pairs t = Inr u
         \<and> (\<exists>p \<in> set pairs. slug (market p) = sl \<and> parse p \<noteq> NoMatch)"
    then show "registeredPrice u sl = Some v" using D by blast
  qed
qed

text \<open>A call that nothing interrupts is the run of its pieces, one after the other.\<close>

lemma loadLoop_pieces:
  "loadLoop fetch slugs s =
     (case nextFetch slugs (marketInfos s) of
        None \<Rightarrow> s\<lparr> pricesLoaded := True \<rparr>
      | Some (sl, rest) \<Rightarrow>
          loadLoop fetch rest
            (deliverPrice True sl
               (case map_of (marketInfos s) sl of
                  None \<Rightarrow> None
                | Some mi \<Rightarrow> fetch (asset mi) (interval mi) (resolutionTimestamp mi * 1000))
               s))"
  by (induction slugs) (auto split: option.splits)


text \<open>
  An answer that arrives after a refresh: the call waits for the hourly market, the
  registry is rebuilt, and the answer 100000 then reaches the cache only; the new entry of
  the registry still has no price, and the run goes on to wait for it again.
\<close>

lemma answer_after_refresh:
  "exObserve (occurAll exParse (newCrossMarketDetector (Fin (1/1024)), [])
      [SetMarketPairsCalled [exLongPair, exShortPair], LoadReferencePricesCalled False,
       SetMarketPairsCalled [exLongPair, exShortPair], FetchReturned 0 (Some (Fin 100000))])
     = Inr (None, Some (Fin 100000), [''bitcoin-up-or-down-december-23-10pm-et''])"
  by (simp add: exObserve_def setMarketPairs_x_def
        newCrossMarketDetector_def exParse_def newMarketInfo_def exLongPair_def exShortPair_def
        exLongMarket_def exShortMarket_def startLoad_def resumeLoad_def continueLoad_def
        deliverPrice_def restoreFromCache_def suspendOrEnd_def registeredPrice_def Let_def)

text \<open>A market whose \<open>endDate\<close> does not parse ends the registration with the error.\<close>

lemma unparsable_endDate_throws:
  "parse p = BadEndDate \<Longrightarrow> setMarketPairs_x parse (p # ps) s = Inl RangeError"
  by (simp add: setMarketPairs_x_def Let_def)

text \<open>
  The same two calls one after the other: the cache keeps 100000 through a refresh that
  drops the hourly market and a forced reload that is answered with other prices, and
  registering the hourly market again restores it.
\<close>

lemma calls_in_sequence_example:
  "(\<exists>s t u. exLoaded = Inr s
       \<and> refPriceCache s ''bitcoin-up-or-down-december-23-10pm-et'' = Some (Fin 100000)
       \<and> callAll exParse s exAfter = Inr t
       \<and> refPriceCache t ''bitcoin-up-or-down-december-23-10pm-et'' = Some (Fin 100000)
       \<and> registeredPrice t ''bitcoin-up-or-down-december-23-10pm-et'' = None
       \<and> setMarketPairs_x exParse [exLongPair, exShortPair] t = Inr u
       \<and> registeredPrice u ''bitcoin-up-or-down-december-23-10pm-et'' = Some (Fin 100000))"
proof -
  obtain s where s: "exLoaded = Inr s"
    and cs: "refPriceCache s ''bitcoin-up-or-down-december-23-10pm-et'' = Some (Fin 100000)"
    by (simp add: exLoaded_def setMarketPairs_x_def newCrossMarketDetector_def exParse_def
          newMarketInfo_def exLongPair_def exShortPair_def exLongMarket_def exShortMarket_def
          loadReferencePrices_def deliverPrice_def restoreFromCache_def exFetch_def Let_def)
  have reach: "callAll exParse (newCrossMarketDetector (Fin (1/1024)))
      [SetMarketPairs [exLongPair, exShortPair],
       LoadReferencePrices (exFetch (Fin 100000) (Fin 99500)) False] = Inr s"
    using s by (simp add: exLoaded_def)
  obtain t where t: "callAll exParse s exAfter = Inr t"
    by (cases "callAll exParse s exAfter")
       (auto simp: exAfter_def setMarketPairs_x_def exParse_def exShortPair_def exShortMarket_def
          Let_def split: sum.splits)
  have rt: "registeredPrice t ''bitcoin-up-or-down-december-23-10pm-et'' = None"
    using t
    by (auto simp: exAfter_def setMarketPairs_x_def exParse_def exShortPair_def exShortMarket_def
          newMarketInfo_def loadReferencePrices_def deliverPrice_def restoreFromCache_def
          registeredPrice_def Let_def split: sum.splits option.splits if_splits)
  obtain u where u: "setMarketPairs_x exParse [exLongPair, exShortPair] t = Inr u"
    by (cases "setMarketPairs_x exParse [exLongPair, exShortPair] t")
       (auto simp: setMarketPairs_x_def exParse_def exLongPair_def exShortPair_def
          exLongMarket_def exShortMarket_def Let_def split: sum.splits)
  have p: "\<exists>p \<in> set [exLongPair, exShortPair].
      slug (market p) = ''bitcoin-up-or-down-december-23-10pm-et'' \<and> exParse p \<noteq> NoMatch"
    by (simp add: exParse_def exLongPair_def exLongMarket_def)
  from calls_in_sequence_keep_price[OF reach t,
      where sl="''bitcoin-up-or-down-december-23-10pm-et''" and v="Fin 100000"
        and pairs="[exLongPair, exShortPair]"] cs u p
  have "refPriceCache t ''bitcoin-up-or-down-december-23-10pm-et'' = Some (Fin 100000)"
    and "registeredPrice u ''bitcoin-up-or-down-december-23-10pm-et'' = Some (Fin 100000)"
    by blast+
  with s cs t rt u show ?thesis by blast
qed

subsection \<open>C7: which pairs the two discovery paths evaluate\<close>

lemma roundedTime_close: "roundedTime x = roundedTime y \<Longrightarrow> \<bar>x - y\<bar> < 300"
proof -
  assume "roundedTime x = roundedTime y"
  then have "(x + 150) div 300 = (y + 150) div 300"
    by (simp add: roundedTime_def)
  then show ?thesis by linarith
qed

lemma pairsOf_set: "(a, b) \<in> set (pairsOf xs) \<Longrightarrow> a \<in> set xs \<and> b \<in> set xs"
  by (induction xs) auto

lemma dedupPairs_set:
  "(a, b) \<in> set (dedupPairs ps chk) \<Longrightarrow> (a, b) \<in> set ps \<and> interval a \<noteq> interval b"
  by (induction ps chk rule: dedupPairs.induct) (auto split: if_splits)

lemma bucketsOk_Nil [simp]: "bucketsOk M []"
  by (simp add: bucketsOk_def)

lemma bucketsOk_Cons:
  "bucketsOk M ((k, ms) # rest) \<longleftrightarrow> (\<forall>m \<in> set ms. m \<in> M \<and> bucketKey m = k) \<and> bucketsOk M rest"
  by (simp add: bucketsOk_def)

lemma addToBucket_ok:
  "bucketsOk M buckets \<Longrightarrow> m \<in> M \<Longrightarrow> bucketsOk M (addToBucket (bucketKey m) m buckets)"
proof (induction buckets)
  case Nil
  then show ?case by (simp add: bucketsOk_Cons)
next
  case (Cons e rest)
  obtain k ms where e: "e = (k, ms)" by (cases e)
  from Cons.prems(1) e have h: "\<forall>x \<in> set ms. x \<in> M \<and> bucketKey x = k" and r: "bucketsOk M rest"
    by (simp_all add: bucketsOk_Cons)
  show ?case
  proof (cases "k = bucketKey m")
    case True
    with h Cons.prems(2) have "\<forall>x \<in> set (ms @ [m]). x \<in> M \<and> bucketKey x = k" by simp
    with r True show ?thesis by (simp add: e bucketsOk_Cons)
  next
    case False
    from Cons.IH[OF r Cons.prems(2)] h False show ?thesis by (simp add: e bucketsOk_Cons)
  qed
qed

lemma foldl_addToBucket_ok:
  "bucketsOk M buckets \<Longrightarrow> set ms \<subseteq> M
     \<Longrightarrow> bucketsOk M (foldl (\<lambda>buckets marketInfo. addToBucket (bucketKey marketInfo) marketInfo buckets) buckets ms)"
  by (induction ms arbitrary: buckets) (simp_all add: addToBucket_ok)

lemma byAssetAndTime_ok: "bucketsOk (snd ` set (marketInfos s)) (byAssetAndTime s)"
  unfolding byAssetAndTime_def
  by (rule foldl_addToBucket_ok) simp_all

lemma bucketPairs_set:
  assumes "bucketsOk M buckets" and "(a, b) \<in> set (bucketPairs buckets)"
  shows "a \<in> M \<and> b \<in> M \<and> bucketKey a = bucketKey b"
proof -
  from assms(2) obtain k markets where e: "(k, markets) \<in> set buckets" and ab: "(a, b) \<in> set (pairsOf markets)"
    by (auto simp: bucketPairs_def split: if_splits)
  from pairsOf_set[OF ab] have "a \<in> set markets" "b \<in> set markets" by simp_all
  with assms(1) e show ?thesis by (force simp: bucketsOk_def)
qed

lemma scanPairs_sound:
  assumes "(a, b) \<in> set (scanPairs s)"
  shows "a \<in> snd ` set (marketInfos s) \<and> b \<in> snd ` set (marketInfos s)
       \<and> bucketKey a = bucketKey b \<and> interval a \<noteq> interval b"
proof -
  from assms have "(a, b) \<in> set (bucketPairs (byAssetAndTime s))" and "interval a \<noteq> interval b"
    using dedupPairs_set[of a b "bucketPairs (byAssetAndTime s)" "[]"] by (simp_all add: scanPairs_def)
  with bucketPairs_set[OF byAssetAndTime_ok] show ?thesis by blast
qed

lemma map_of_addToBucket:
  "map_of (addToBucket k m buckets) =
     (map_of buckets)(k \<mapsto> (case map_of buckets k of None \<Rightarrow> [m] | Some ms \<Rightarrow> ms @ [m]))"
  by (induction buckets) (auto simp: fun_eq_iff)

lemma addToBucket_map_default:
  "addToBucket k m buckets = AList.map_default k [m] (\<lambda>ms. ms @ [m]) buckets"
proof (induction buckets)
  case Nil
  then show ?case by simp
next
  case (Cons e rest)
  obtain k' ms where e: "e = (k', ms)" by (cases e)
  from Cons.IH show ?case by (simp add: e)
qed

lemma distinct_addToBucket:
  "distinct (map fst buckets) \<Longrightarrow> distinct (map fst (addToBucket k m buckets))"
  by (simp add: addToBucket_map_default distinct_map_default)

lemma map_of_foldl_addToBucket:
  "distinct (map fst buckets) \<Longrightarrow>
   map_of (foldl (\<lambda>buckets marketInfo. addToBucket (bucketKey marketInfo) marketInfo buckets) buckets ms) k =
     (case map_of buckets k of
        Some old \<Rightarrow> Some (old @ filter (\<lambda>m. bucketKey m = k) ms)
      | None \<Rightarrow> if filter (\<lambda>m. bucketKey m = k) ms = [] then None
                else Some (filter (\<lambda>m. bucketKey m = k) ms))"
proof (induction ms arbitrary: buckets)
  case Nil
  then show ?case by (simp split: option.splits)
next
  case (Cons m ms)
  from Cons.IH[OF distinct_addToBucket[OF Cons.prems], of "bucketKey m" m]
  show ?case by (simp add: map_of_addToBucket split: option.splits)
qed

lemma bucket_of_key:
  assumes "m \<in> snd ` set (marketInfos s)"
  shows "(bucketKey m, filter (\<lambda>x. bucketKey x = bucketKey m) (map snd (marketInfos s)))
           \<in> set (byAssetAndTime s)"
proof -
  from assms have "filter (\<lambda>x. bucketKey x = bucketKey m) (map snd (marketInfos s)) \<noteq> []"
    by (auto simp: filter_empty_conv)
  then have "map_of (byAssetAndTime s) (bucketKey m)
      = Some (filter (\<lambda>x. bucketKey x = bucketKey m) (map snd (marketInfos s)))"
    unfolding byAssetAndTime_def by (simp add: map_of_foldl_addToBucket)
  then show ?thesis by (rule map_of_SomeD)
qed

lemma pairsOf_mem: "(a, b) \<in> set (pairsOf (us @ a # vs @ b # ws))"
  by (induction us) auto

lemma pairsOf_short: "length xs < 2 \<Longrightarrow> pairsOf xs = []"
  by (cases xs rule: pairsOf.cases) auto

lemma bucketPairs_complete:
  assumes reg: "map snd (marketInfos s) = us @ a # vs @ b # ws"
    and key: "bucketKey a = bucketKey b"
  shows "(a, b) \<in> set (bucketPairs (byAssetAndTime s))"
proof -
  let ?P = "\<lambda>x. bucketKey x = bucketKey a"
  let ?markets = "filter ?P (map snd (marketInfos s))"
  let ?f = "\<lambda>(k :: string \<times> int, markets :: MarketInfo list).
              if length markets < 2 then [] else pairsOf markets"
  have "a \<in> set (map snd (marketInfos s))"
    by (simp add: reg)
  then have "a \<in> snd ` set (marketInfos s)"
    by simp
  from bucket_of_key[OF this] have e: "(bucketKey a, ?markets) \<in> set (byAssetAndTime s)" .
  have "?markets = filter ?P us @ a # filter ?P vs @ b # filter ?P ws"
    using key by (simp add: reg)
  then have ab: "(a, b) \<in> set (pairsOf ?markets)"
    by (simp only: pairsOf_mem)
  have nl: "\<not> length ?markets < 2"
  proof
    assume "length ?markets < 2"
    from pairsOf_short[OF this] ab show False by simp
  qed
  have 1: "?f (bucketKey a, ?markets) \<in> ?f ` set (byAssetAndTime s)"
    using e by (rule imageI)
  have 2: "(a, b) \<in> set (?f (bucketKey a, ?markets))"
    using ab nl by simp
  show ?thesis
    unfolding bucketPairs_def set_concat set_map using 1 2 by (rule UN_I)
qed

lemma dedupPairs_complete:
  "(a, b) \<in> set ps \<Longrightarrow> interval a \<noteq> interval b
     \<Longrightarrow> pairKey a b \<in> set chk \<or> (\<exists>p \<in> set (dedupPairs ps chk). pairKey (fst p) (snd p) = pairKey a b)"
proof (induction ps chk rule: dedupPairs.induct)
  case (1 chk)
  then show ?case by simp
next
  case (2 info1 info2 rest chk)
  show ?case
  proof (cases "(a, b) = (info1, info2)")
    case True
    with 2(5) show ?thesis by auto
  next
    case False
    with 2(4) have mem: "(a, b) \<in> set rest" by auto
    show ?thesis
    proof (cases "interval info1 = interval info2")
      case True
      from 2(1)[OF True mem 2(5)] True show ?thesis by simp
    next
      case iv: False
      show ?thesis
      proof (cases "pairKey info1 info2 \<in> set chk")
        case True
        from 2(2)[OF iv True mem 2(5)] iv True show ?thesis by simp
      next
        case new: False
        from 2(3)[OF iv new mem 2(5)] iv new show ?thesis by auto
      qed
    qed
  qed
qed

text \<open>
  C7. On a price update, another registered market is evaluated against the updated one
  exactly when it has a different slug, the same asset, a different interval class and a
  resolution timestamp at most 300 seconds away. The full scan does not apply that
  tolerance: the pairs it evaluates are registered markets on the same asset with
  different interval classes whose resolution timestamps round to the same 300-second
  bucket, so they are less than 300 seconds apart, and markets in different buckets are
  never paired however close they are. Conversely two registered markets with the same
  asset and bucket and different intervals are evaluated by the scan, unless a pair with
  the same sorted-slug key was evaluated before them.
\<close>

theorem coincidence_tolerance:
  "(otherInfo \<in> set (candidatesFor s updatedInfo)
      \<longleftrightarrow> otherInfo \<in> snd ` set (marketInfos s)
          \<and> slug (market_i otherInfo) \<noteq> slug (market_i updatedInfo)
          \<and> asset otherInfo = asset updatedInfo
          \<and> interval otherInfo \<noteq> interval updatedInfo
          \<and> \<bar>resolutionTimestamp otherInfo - resolutionTimestamp updatedInfo\<bar> \<le> 300)
   \<and> ((info1, info2) \<in> set (scanPairs s)
      \<longrightarrow> info1 \<in> snd ` set (marketInfos s) \<and> info2 \<in> snd ` set (marketInfos s)
          \<and> asset info1 = asset info2
          \<and> interval info1 \<noteq> interval info2
          \<and> roundedTime (resolutionTimestamp info1) = roundedTime (resolutionTimestamp info2)
          \<and> \<bar>resolutionTimestamp info1 - resolutionTimestamp info2\<bar> < 300)
   \<and> (map snd (marketInfos s) = us @ a # vs @ b # ws
        \<and> asset a = asset b \<and> interval a \<noteq> interval b
        \<and> roundedTime (resolutionTimestamp a) = roundedTime (resolutionTimestamp b)
      \<longrightarrow> (\<exists>p \<in> set (scanPairs s). pairKey (fst p) (snd p) = pairKey a b))"
proof (intro conjI)
  show "otherInfo \<in> set (candidatesFor s updatedInfo)
      \<longleftrightarrow> otherInfo \<in> snd ` set (marketInfos s)
          \<and> slug (market_i otherInfo) \<noteq> slug (market_i updatedInfo)
          \<and> asset otherInfo = asset updatedInfo
          \<and> interval otherInfo \<noteq> interval updatedInfo
          \<and> \<bar>resolutionTimestamp otherInfo - resolutionTimestamp updatedInfo\<bar> \<le> 300"
    by (auto simp: candidatesFor_def isCandidate_def)
next
  show "(info1, info2) \<in> set (scanPairs s)
      \<longrightarrow> info1 \<in> snd ` set (marketInfos s) \<and> info2 \<in> snd ` set (marketInfos s)
          \<and> asset info1 = asset info2
          \<and> interval info1 \<noteq> interval info2
          \<and> roundedTime (resolutionTimestamp info1) = roundedTime (resolutionTimestamp info2)
          \<and> \<bar>resolutionTimestamp info1 - resolutionTimestamp info2\<bar> < 300"
  proof (rule impI)
    assume "(info1, info2) \<in> set (scanPairs s)"
    from scanPairs_sound[OF this]
    have reg: "info1 \<in> snd ` set (marketInfos s)" "info2 \<in> snd ` set (marketInfos s)"
      and key: "bucketKey info1 = bucketKey info2" and iv: "interval info1 \<noteq> interval info2"
      by blast+
    from key have a: "asset info1 = asset info2"
      and r: "roundedTime (resolutionTimestamp info1) = roundedTime (resolutionTimestamp info2)"
      by (simp_all add: bucketKey_def)
    from reg a iv r roundedTime_close[OF r]
    show "info1 \<in> snd ` set (marketInfos s) \<and> info2 \<in> snd ` set (marketInfos s)
          \<and> asset info1 = asset info2
          \<and> interval info1 \<noteq> interval info2
          \<and> roundedTime (resolutionTimestamp info1) = roundedTime (resolutionTimestamp info2)
          \<and> \<bar>resolutionTimestamp info1 - resolutionTimestamp info2\<bar> < 300"
      by blast
  qed
next
  show "map snd (marketInfos s) = us @ a # vs @ b # ws
        \<and> asset a = asset b \<and> interval a \<noteq> interval b
        \<and> roundedTime (resolutionTimestamp a) = roundedTime (resolutionTimestamp b)
      \<longrightarrow> (\<exists>p \<in> set (scanPairs s). pairKey (fst p) (snd p) = pairKey a b)"
  proof (rule impI)
    assume h: "map snd (marketInfos s) = us @ a # vs @ b # ws
        \<and> asset a = asset b \<and> interval a \<noteq> interval b
        \<and> roundedTime (resolutionTimestamp a) = roundedTime (resolutionTimestamp b)"
    then have "bucketKey a = bucketKey b" by (simp add: bucketKey_def)
    with h have "(a, b) \<in> set (bucketPairs (byAssetAndTime s))"
      using bucketPairs_complete by blast
    from dedupPairs_complete[OF this, of "[]"] h
    show "\<exists>p \<in> set (scanPairs s). pairKey (fst p) (snd p) = pairKey a b"
      by (simp add: scanPairs_def)
  qed
qed

lemma exJitterLoaded_simps:
  "marketInfos (loadReferencePrices (exFetch (Fin 100000) (Fin 99500)) False
          (projr (setMarketPairs_x exParseJitter [exLongPair, exShortPair]
                    (newCrossMarketDetector (Fin (1/1024)))))) =
     [(''bitcoin-up-or-down-december-23-10pm-et'', exJitterLong), (''btc-updown-15m-2700'', exJitterShort)]"
  "minProfit_x (loadReferencePrices (exFetch (Fin 100000) (Fin 99500)) False
          (projr (setMarketPairs_x exParseJitter [exLongPair, exShortPair]
                    (newCrossMarketDetector (Fin (1/1024)))))) = Fin (1/1024)"
  "tokenPrices_x (loadReferencePrices (exFetch (Fin 100000) (Fin 99500)) False
          (projr (setMarketPairs_x exParseJitter [exLongPair, exShortPair]
                    (newCrossMarketDetector (Fin (1/1024)))))) = Map.empty"
  by (simp_all add: loadReferencePrices_def setMarketPairs_x_def
        newCrossMarketDetector_def restoreFromCache_def Let_def newMarketInfo_def exParseJitter_def
        deliverPrice_def
        exLongPair_def exShortPair_def exLongMarket_def exShortMarket_def exFetch_def
        exJitterLong_def exJitterShort_def)

lemma exJitter_simps:
  "marketInfos exJitter =
     [(''bitcoin-up-or-down-december-23-10pm-et'', exJitterLong), (''btc-updown-15m-2700'', exJitterShort)]"
  "minProfit_x exJitter = Fin (1/1024)"
  "tokenPrices_x exJitter =
     storeUpdate (storeUpdate Map.empty (askUpdate ''long-down'' (Fin 0.375) (Fin 50))) (priceUpdate ''short-up'' (Fin 0.5))"
  unfolding exJitter_def foldl_update_infos exJitterLoaded_simps by simp_all

lemma exJitter_fields [simp]:
  "interval exJitterLong = I1h" "interval exJitterShort = I15m"
  "asset exJitterLong = ''btc''" "asset exJitterShort = ''btc''"
  "resolutionTimestamp exJitterLong = 3749" "resolutionTimestamp exJitterShort = 3751"
  "referencePrice exJitterLong = Some (Fin 100000)" "referencePrice exJitterShort = Some (Fin 99500)"
  "pair_i exJitterLong = exLongPair" "pair_i exJitterShort = exShortPair"
  "slug (market_i exJitterLong) = ''bitcoin-up-or-down-december-23-10pm-et''"
  "slug (market_i exJitterShort) = ''btc-updown-15m-2700''"
  by (simp_all add: exJitterLong_def exJitterShort_def exLongMarket_def exShortMarket_def)

text \<open>
  Resolution times 3749 and 3751 are two seconds apart and lie on either side of the
  bucket boundary 3750: a price update on the 15-minute market finds the pair (maximal
  profit 1.125), the full scan evaluates no pair and returns nothing.
\<close>

theorem bucket_boundary_counterexample:
  "map (\<lambda>e. (asset (snd e), interval (snd e), resolutionTimestamp (snd e))) (marketInfos exJitter)
     = [(''btc'', I1h, 3749), (''btc'', I15m, 3751)]
   \<and> \<bar>(3751::int) - 3749\<bar> \<le> 300
   \<and> candidatesFor exJitter exJitterShort = [exJitterLong]
   \<and> map_option maxProfit (checkCrossMarketOpportunities exJitter 2 ''short-up'') = Some (Fin 1.125)
   \<and> scanPairs exJitter = []
   \<and> scanAllCrossMarkets exJitter 2 = []"
proof -
  have sp: "scanPairs exJitter = []"
    by (simp add: scanPairs_def byAssetAndTime_def exJitter_simps bucketKey_def roundedTime_def bucketPairs_def)
  have cand: "candidatesFor exJitter exJitterShort = [exJitterLong]"
    by (simp add: candidatesFor_def exJitter_simps isCandidate_def)
  have owner: "find (ownsToken ''short-up'') (map snd (marketInfos exJitter)) = Some exJitterShort"
    by (simp add: exJitter_simps ownsToken_def)
  have ev: "map_option maxProfit (checkPairForArbitrage exJitter 2 exJitterShort exJitterLong) = Some (Fin 1.125)"
    by (simp add: checkPairForArbitrage_def longShort_def exJitter_simps Let_def
          chooseLegs_def askOrZero_def exAsks jeq_def jgt_def jsub_def round64_eval)
  then obtain opp where opp: "checkPairForArbitrage exJitter 2 exJitterShort exJitterLong = Some opp"
    "maxProfit opp = Fin 1.125"
    by auto
  have "map_option maxProfit (checkCrossMarketOpportunities exJitter 2 ''short-up'') = Some (Fin 1.125)"
    by (simp add: checkCrossMarketOpportunities_def owner cand List.map_filter_simps opp sortDesc_def)
  with sp cand show ?thesis
    by (simp add: scanAllCrossMarkets_def exJitter_simps List.map_filter_simps sortDesc_def)
qed

text \<open>
  The two example markets resolve at the same second: each path evaluates the pair.
\<close>

theorem coincidence_tolerance_witness:
  "exLong (Fin 100000) \<in> set (candidatesFor exCross (exShort (Fin 99500)))
   \<and> \<bar>resolutionTimestamp (exLong (Fin 100000)) - resolutionTimestamp (exShort (Fin 99500))\<bar> \<le> 300
   \<and> map snd (marketInfos exCross) = [] @ exLong (Fin 100000) # [] @ exShort (Fin 99500) # []
   \<and> (exLong (Fin 100000), exShort (Fin 99500)) \<in> set (scanPairs exCross)
   \<and> roundedTime (resolutionTimestamp (exLong (Fin 100000))) = roundedTime (resolutionTimestamp (exShort (Fin 99500)))
   \<and> (\<exists>p \<in> set (scanPairs exCross). pairKey (fst p) (snd p) = pairKey (exLong (Fin 100000)) (exShort (Fin 99500)))"
proof -
  have sp: "scanPairs exCross = [(exLong (Fin 100000), exShort (Fin 99500))]"
    by (simp add: scanPairs_def byAssetAndTime_def exCross_def exCrossWith_simps bucketKey_def
          roundedTime_def bucketPairs_def exInfo_simps)
  have c: "candidatesFor exCross (exShort (Fin 99500)) = [exLong (Fin 100000)]"
    by (simp add: candidatesFor_def exCross_def exCrossWith_simps isCandidate_def exInfo_simps
          exLongPair_def exShortPair_def exLongMarket_def exShortMarket_def)
  have reg: "map snd (marketInfos exCross) = [] @ exLong (Fin 100000) # [] @ exShort (Fin 99500) # []"
    by (simp add: exCross_def exCrossWith_simps)
  have same: "asset (exLong (Fin 100000)) = asset (exShort (Fin 99500))"
    "interval (exLong (Fin 100000)) \<noteq> interval (exShort (Fin 99500))"
    "roundedTime (resolutionTimestamp (exLong (Fin 100000))) = roundedTime (resolutionTimestamp (exShort (Fin 99500)))"
    by (simp_all add: exInfo_simps)
  from coincidence_tolerance[of "exLong (Fin 100000)" exCross "exShort (Fin 99500)"
      "exLong (Fin 100000)" "exShort (Fin 99500)" "[]" "exLong (Fin 100000)" "[]" "exShort (Fin 99500)" "[]"]
    sp c reg same
  show ?thesis by simp
qed


end
